(* ===== verification/JS_Base.thy ===== *)
theory JS_Base
  imports Main "HOL-Library.Word"
begin

text \<open>
  Prelude of the development: the JavaScript string model shared by every component.
  A JavaScript string is a sequence of UTF-16 code units, so it is modelled as a list of
  16-bit words (\<open>jsstr\<close>); \<open>length\<close>, \<open>take\<close> and \<open>drop\<close> on it are the code's
  \<open>.length\<close> and \<open>.slice\<close>. ASCII literals are written \<open>js ''...''\<close>; a code unit beyond
  ASCII is written as its number. \<open>js_trim\<close> is \<open>String.prototype.trim\<close>, which strips the
  ECMAScript WhiteSpace and LineTerminator code units from both ends. The theory also holds
  UTF-16 well-formedness (lone surrogates) and the lemmas on trimming that the composer and
  the orchestrator share.
\<close>

type_synonym jsstr = "16 word list"

named_theorems js_lit "evaluation of string literals and whitespace tests"
named_theorems js_trim_simps "rewriting of trims of concatenations"

definition js :: "string \<Rightarrow> jsstr" where
  "js s = map (\<lambda>c. of_nat (of_char c)) s"

text \<open>ECMAScript WhiteSpace (tab, VT, FF, space, NBSP, ZWNBSP, the Zs category) and
  LineTerminator (LF, CR, LS, PS) code units: the set \<open>String.prototype.trim\<close> removes.\<close>

definition js_ws_units :: "16 word list" where
  "js_ws_units = [0x9, 0xA, 0xB, 0xC, 0xD, 0x20, 0xA0, 0x1680, 0x2028, 0x2029, 0x202F,
     0x205F, 0x3000, 0xFEFF]"

definition js_is_ws :: "16 word \<Rightarrow> bool" where
  "js_is_ws c \<longleftrightarrow> c \<in> set js_ws_units \<or> (0x2000 \<le> c \<and> c \<le> 0x200A)"

definition trim_start :: "jsstr \<Rightarrow> jsstr" where
  "trim_start s = dropWhile js_is_ws s"

definition trim_end :: "jsstr \<Rightarrow> jsstr" where
  "trim_end s = rev (dropWhile js_is_ws (rev s))"

definition js_trim :: "jsstr \<Rightarrow> jsstr" where
  "js_trim s = trim_end (trim_start s)"

text \<open>A string with no whitespace at either end: what a trim returns.\<close>

definition trimmed :: "jsstr \<Rightarrow> bool" where
  "trimmed s \<longleftrightarrow> s = [] \<or> (\<not> js_is_ws (hd s) \<and> \<not> js_is_ws (last s))"

text \<open>Truthiness of a value that is a string or \<open>undefined\<close>/\<open>null\<close>: set and
  not empty.\<close>

definition str_truthy :: "jsstr option \<Rightarrow> bool" where
  "str_truthy v \<longleftrightarrow> v \<noteq> None \<and> v \<noteq> Some []"

subsection \<open>UTF-16 surrogates\<close>

definition is_high_surrogate :: "16 word \<Rightarrow> bool" where
  "is_high_surrogate c \<longleftrightarrow> 0xD800 \<le> c \<and> c \<le> 0xDBFF"

definition is_low_surrogate :: "16 word \<Rightarrow> bool" where
  "is_low_surrogate c \<longleftrightarrow> 0xDC00 \<le> c \<and> c \<le> 0xDFFF"

text \<open>\<open>String.prototype.isWellFormed\<close>: every high surrogate is followed by a low one and
  every low surrogate follows a high one.\<close>

fun well_formed :: "jsstr \<Rightarrow> bool" where
  "well_formed [] = True"
| "well_formed (c # cs) =
     (if is_high_surrogate c
      then (case cs of [] \<Rightarrow> False | d # ds \<Rightarrow> is_low_surrogate d \<and> well_formed ds)
      else \<not> is_low_surrogate c \<and> well_formed cs)"

lemma well_formed_replicate_append:
  "\<not> is_high_surrogate c \<Longrightarrow> \<not> is_low_surrogate c \<Longrightarrow> well_formed (replicate n c @ xs) = well_formed xs"
  by (induction n) auto

lemma ascii_not_surrogate: "c < 128 \<Longrightarrow> \<not> is_high_surrogate c \<and> \<not> is_low_surrogate c"
  by (auto simp: is_high_surrogate_def is_low_surrogate_def dest: order.trans [of _ c 128, OF _ less_imp_le])

lemma well_formed_append: "well_formed xs \<Longrightarrow> well_formed ys \<Longrightarrow> well_formed (xs @ ys)"
  by (induction xs rule: well_formed.induct) (auto split: list.splits)

lemma ascii_well_formed: "list_all (\<lambda>c. c < 128) s \<Longrightarrow> well_formed s"
  by (induction s) (simp_all add: ascii_not_surrogate)

lemma below_surrogates_well_formed: "list_all (\<lambda>c. c < 0xD800) s \<Longrightarrow> well_formed s"
  by (induction s) (simp_all add: is_high_surrogate_def is_low_surrogate_def word_le_nat_alt word_less_nat_alt)

lemma js_well_formed: "well_formed (js s)"
proof -
  have "(of_nat (of_char c) :: 16 word) < 0xD800" for c :: char
  proof -
    have "of_char c < (65536::nat)" "of_char c < (55296::nat)"
      using nat_of_char_less_256 [of c] by linarith+
    then show ?thesis by (simp add: word_less_nat_alt unat_of_nat)
  qed
  then show ?thesis by (intro below_surrogates_well_formed) (simp add: js_def list.pred_map comp_def list_all_iff)
qed

lemma infix_here: "\<exists>pre post. m @ ys = pre @ m @ post"
  by (metis append_Nil)

lemma infix_append_left: "\<exists>pre post. ys = pre @ m @ post \<Longrightarrow> \<exists>pre post. xs @ ys = pre @ m @ post"
  by (metis append_assoc)

lemma high_not_low: "is_high_surrogate c \<Longrightarrow> \<not> is_low_surrogate c"
  by (simp add: is_high_surrogate_def is_low_surrogate_def word_le_nat_alt)

lemma high_then_plain_not_well_formed:
  "is_high_surrogate h \<Longrightarrow> \<not> is_low_surrogate c \<Longrightarrow> \<not> well_formed (xs @ h # c # ys)"
proof (induction xs rule: induct_list012)
  case 1
  then show ?case by simp
next
  case (2 x)
  then show ?case by (auto dest: high_not_low)
next
  case (3 x y zs)
  then show ?case by auto
qed

declare js_def [js_lit] js_is_ws_def [js_lit] js_ws_units_def [js_lit]
  is_high_surrogate_def [js_lit] is_low_surrogate_def [js_lit]

subsection \<open>Trimming\<close>

lemma js_lit_append [simp]: "js (a @ b) = js a @ js b"
  by (simp add: js_def)

lemma length_js [simp]: "length (js s) = length s"
  by (simp add: js_def)

lemma js_Nil [simp]: "js [] = []"
  by (simp add: js_def)

lemma trim_start_Nil [simp]: "trim_start [] = []"
  and trim_end_Nil [simp]: "trim_end [] = []"
  by (simp_all add: trim_start_def trim_end_def)

lemma trim_start_all_ws: "list_all js_is_ws s \<Longrightarrow> trim_start s = []"
  by (induction s) (auto simp: trim_start_def)

lemma trim_start_Cons [js_trim_simps]:
  "trim_start (c # s) = (if js_is_ws c then trim_start s else c # s)"
  by (simp add: trim_start_def)

lemma trim_start_append [js_trim_simps]:
  "trim_start (xs @ ys) = (if list_all js_is_ws xs then trim_start ys else trim_start xs @ ys)"
  by (induction xs) (auto simp: trim_start_def)

lemma trim_end_append [js_trim_simps]:
  "trim_end (xs @ ys) = (if list_all js_is_ws ys then trim_end xs else xs @ trim_end ys)"
proof -
  have "dropWhile js_is_ws (rev ys @ rev xs) =
      (if list_all js_is_ws ys then dropWhile js_is_ws (rev xs) else dropWhile js_is_ws (rev ys) @ rev xs)"
    by (induction ys rule: rev_induct) (auto simp: list_all_iff)
  then show ?thesis
    by (auto simp: trim_end_def)
qed

lemma trim_end_snoc [js_trim_simps]:
  "trim_end (s @ [c]) = (if js_is_ws c then trim_end s else s @ [c])"
  by (simp add: trim_end_append trim_end_def)

lemma trim_start_id: "s = [] \<or> \<not> js_is_ws (hd s) \<Longrightarrow> trim_start s = s"
  by (cases s) (auto simp: trim_start_def)

lemma trim_end_id: "s = [] \<or> \<not> js_is_ws (last s) \<Longrightarrow> trim_end s = s"
  by (cases s rule: rev_cases) (auto simp: trim_end_def)

lemma trim_start_hd: "trim_start s \<noteq> [] \<Longrightarrow> \<not> js_is_ws (hd (trim_start s))"
  unfolding trim_start_def by (rule hd_dropWhile)

lemma trim_end_last: "trim_end s \<noteq> [] \<Longrightarrow> \<not> js_is_ws (last (trim_end s))"
  using hd_dropWhile [of js_is_ws "rev s"] by (auto simp: trim_end_def last_rev)

lemma trim_end_hd:
  assumes "trim_end s \<noteq> []"
  shows "hd (trim_end s) = hd s"
proof -
  obtain ys where "s = trim_end s @ ys"
    by (metis rev_append rev_rev_ident takeWhile_dropWhile_id trim_end_def)
  with assms show ?thesis
    by (metis hd_append2)
qed

lemma trimmed_js_trim [simp]: "trimmed (js_trim s)"
proof (cases "js_trim s = []")
  case True
  then show ?thesis by (simp add: trimmed_def)
next
  case False
  then have "trim_end (trim_start s) \<noteq> []" by (simp add: js_trim_def)
  moreover from this have "trim_start s \<noteq> []" by auto
  ultimately show ?thesis
    by (simp add: trimmed_def js_trim_def trim_end_last trim_end_hd trim_start_hd)
qed

lemma js_trim_id: "trimmed s \<Longrightarrow> js_trim s = s"
  by (auto simp: trimmed_def js_trim_def trim_start_id trim_end_id)

lemma js_trim_idem [simp]: "js_trim (js_trim s) = js_trim s"
  by (rule js_trim_id) simp

lemma trimmed_Nil [simp]: "trimmed []"
  by (simp add: trimmed_def)

lemma trimmed_append_middle:
  assumes "trimmed x" "x \<noteq> []" "trimmed y" "y \<noteq> []"
  shows "trimmed (x @ m @ y)"
  using assms by (simp add: trimmed_def)

lemma js_trim_Cons_ws: "js_is_ws c \<Longrightarrow> js_trim (c # s) = js_trim s"
  by (simp add: js_trim_def trim_start_Cons)

text \<open>A trim only removes whitespace: the input is the result with whitespace around it.\<close>

lemma trim_start_split: "\<exists>p. s = p @ trim_start s \<and> list_all js_is_ws p"
  by (rule exI [of _ "takeWhile js_is_ws s"]) (auto simp: trim_start_def list_all_iff dest: set_takeWhileD)

lemma trim_end_split: "\<exists>q. s = trim_end s @ q \<and> list_all js_is_ws q"
proof -
  let ?q = "rev (takeWhile js_is_ws (rev s))"
  have "rev s = takeWhile js_is_ws (rev s) @ dropWhile js_is_ws (rev s)" by simp
  then have "s = trim_end s @ ?q"
    by (metis rev_append rev_rev_ident trim_end_def)
  moreover have "list_all js_is_ws ?q"
    by (auto simp: list_all_iff dest: set_takeWhileD)
  ultimately show ?thesis by blast
qed

lemma js_trim_split: "\<exists>p q. s = p @ js_trim s @ q \<and> list_all js_is_ws p \<and> list_all js_is_ws q"
proof -
  obtain p where p: "s = p @ trim_start s" "list_all js_is_ws p"
    using trim_start_split by blast
  obtain q where q: "trim_start s = trim_end (trim_start s) @ q" "list_all js_is_ws q"
    using trim_end_split by blast
  from p q show ?thesis
    by (metis js_trim_def)
qed

lemma js_trim_infix_free: "(\<And>u v. x \<noteq> u @ p @ v) \<Longrightarrow> js_trim x \<noteq> u @ p @ v"
  using js_trim_split [of x] by (metis append.assoc)

text \<open>Trimming commutes with surrounding whitespace: \<open>"  hi  ".trim() = "hi".trim()\<close>.\<close>

lemma js_trim_ws_around:
  "list_all js_is_ws p \<Longrightarrow> list_all js_is_ws q \<Longrightarrow> js_trim (p @ s @ q) = js_trim s"
  by (simp add: js_trim_def trim_start_append trim_end_append trim_start_all_ws)

end
