(* ===== verification/Json.thy ===== *)
theory Json
  imports JS_Base
begin

text \<open>
  JavaScript values as the handlers see them: results of \<open>JSON.parse\<close> (\<open>res.json()\<close>,
  \<open>req.json()\<close>) and \<open>undefined\<close>. A value is a \<open>json option\<close>, \<open>None\<close> being
  \<open>undefined\<close>. A JSON number is kept as the decimal literal it was parsed from,
  mantissa times a power of ten (\<open>JNum m e\<close> is \<open>m * 10^e\<close>); this is exact for every
  number whose shortest decimal form has at most 15 significant digits, which is the
  assumption under which \<open>Number::toString\<close> and \<open>Math.round\<close> are modelled here.
  The theory gives the language operations the code applies to such values: optional
  chaining \<open>?.\<close> (\<open>get\<close>, \<open>at\<close>), plain property access that throws on
  \<open>null\<close>/\<open>undefined\<close> (\<open>get_strict\<close>), truthiness, \<open>||\<close>, \<open>??\<close>, the
  template-literal conversion \<open>ToString\<close> (which throws for an object with an own
  \<open>toString\<close> key), \<open>ToNumber\<close> with \<open>StringToNumber\<close>, and \<open>Math.round\<close>.
  The lemmas at the end show that decimal digits are ASCII and that an integer below
  \<open>10^21\<close> in magnitude prints as its plain digits.
\<close>

datatype json =
    JNull
  | JBool bool
  | JNum int int
  | JStr jsstr
  | JArr "json list"
  | JObj "(jsstr \<times> json) list"

type_synonym jsval = "json option"

text \<open>A thrown JavaScript error, with the text its \<open>.message\<close> reads.\<close>

datatype js_error = TypeError jsstr | Error jsstr

fun err_message :: "js_error \<Rightarrow> jsstr" where
  "err_message (TypeError m) = m"
| "err_message (Error m) = m"

text \<open>Numbers after conversion: a finite decimal, or one of the special values.\<close>

datatype jsnum = Fin int int | NaN | PosInf | NegInf

subsection \<open>Decimal digits\<close>

fun nat_digits :: "nat \<Rightarrow> jsstr" where
  "nat_digits n = (if n < 10 then [of_nat (48 + n)] else nat_digits (n div 10) @ [of_nat (48 + n mod 10)])"

declare nat_digits.simps [simp del]

definition int_to_jsstr :: "int \<Rightarrow> jsstr" where
  "int_to_jsstr i = (if i < 0 then js ''-'' @ nat_digits (nat (- i)) else nat_digits (nat i))"

subsection \<open>Property access\<close>

text \<open>\<open>v?.k\<close> for a non-index key: an own property of an object (the last binding, as
  \<open>JSON.parse\<close> keeps the last of duplicate keys), the \<open>length\<close> of an array or a
  string, and \<open>undefined\<close> otherwise, also when \<open>v\<close> is \<open>null\<close> or \<open>undefined\<close>.\<close>

fun get :: "jsval \<Rightarrow> jsstr \<Rightarrow> jsval" where
  "get (Some (JObj kvs)) k = map_of (rev kvs) k"
| "get (Some (JArr xs)) k = (if k = js ''length'' then Some (JNum (int (length xs)) 0) else None)"
| "get (Some (JStr s)) k = (if k = js ''length'' then Some (JNum (int (length s)) 0) else None)"
| "get _ k = None"

text \<open>\<open>v?.[i]\<close>: an array element, a one-unit string of a string, the property named by
  the decimal digits of \<open>i\<close> of an object, else \<open>undefined\<close>.\<close>

fun at :: "jsval \<Rightarrow> nat \<Rightarrow> jsval" where
  "at (Some (JArr xs)) i = (if i < length xs then Some (xs ! i) else None)"
| "at (Some (JStr s)) i = (if i < length s then Some (JStr [s ! i]) else None)"
| "at (Some (JObj kvs)) i = map_of (rev kvs) (nat_digits i)"
| "at _ i = None"

text \<open>\<open>v.k\<close> without \<open>?.\<close>: the same, but \<open>null\<close> and \<open>undefined\<close> throw V8's
  TypeError.\<close>

definition reading_msg :: "jsstr \<Rightarrow> jsstr \<Rightarrow> jsstr" where
  "reading_msg what k = js ''Cannot read properties of '' @ what @ js '' (reading '' @ [39] @ k @ [39, 41]"

definition get_strict :: "jsval \<Rightarrow> jsstr \<Rightarrow> js_error + jsval" where
  "get_strict v k =
     (case v of
        None \<Rightarrow> Inl (TypeError (reading_msg (js ''undefined'') k))
      | Some JNull \<Rightarrow> Inl (TypeError (reading_msg (js ''null'') k))
      | _ \<Rightarrow> Inr (get v k))"

definition at_strict :: "jsval \<Rightarrow> nat \<Rightarrow> js_error + jsval" where
  "at_strict v i =
     (case v of
        None \<Rightarrow> Inl (TypeError (reading_msg (js ''undefined'') (nat_digits i)))
      | Some JNull \<Rightarrow> Inl (TypeError (reading_msg (js ''null'') (nat_digits i)))
      | _ \<Rightarrow> Inr (at v i))"

subsection \<open>Truthiness, \<open>||\<close> and \<open>??\<close>\<close>

fun truthy :: "jsval \<Rightarrow> bool" where
  "truthy None = False"
| "truthy (Some JNull) = False"
| "truthy (Some (JBool b)) = b"
| "truthy (Some (JNum m e)) = (m \<noteq> 0)"
| "truthy (Some (JStr s)) = (s \<noteq> [])"
| "truthy (Some (JArr xs)) = True"
| "truthy (Some (JObj kvs)) = True"

definition js_or :: "jsval \<Rightarrow> jsval \<Rightarrow> jsval" where
  "js_or a b = (if truthy a then a else b)"

definition nullish :: "jsval \<Rightarrow> bool" where
  "nullish v \<longleftrightarrow> v = None \<or> v = Some JNull"

definition coalesce :: "jsval \<Rightarrow> jsval \<Rightarrow> jsval" where
  "coalesce a b = (if nullish a then b else a)"

subsection \<open>\<open>Number::toString\<close>\<close>

fun strip_zeros :: "nat \<Rightarrow> int \<Rightarrow> nat \<times> int" where
  "strip_zeros m e = (if m \<noteq> 0 \<and> m mod 10 = 0 then strip_zeros (m div 10) (e + 1) else (m, e))"

declare strip_zeros.simps [simp del]

text \<open>ECMA-262 \<open>Number::toString(x, 10)\<close> for \<open>x = m * 10^e\<close>: with \<open>s\<close> the digits of
  the mantissa without trailing zeros, \<open>k\<close> their number and \<open>n = k + e\<close> the position of
  the decimal point, plain digits for \<open>k \<le> n \<le> 21\<close>, a point inside them for
  \<open>0 < n \<le> 21\<close>, leading zeros for \<open>-6 < n \<le> 0\<close>, exponent notation otherwise.\<close>

definition exp_suffix :: "int \<Rightarrow> jsstr" where
  "exp_suffix x = js ''e'' @ (if x < 0 then js ''-'' else js ''+'') @ nat_digits (nat \<bar>x\<bar>)"

definition decimal_body :: "jsstr \<Rightarrow> int \<Rightarrow> jsstr" where
  "decimal_body s n =
     (let k = int (length s) in
      if k \<le> n \<and> n \<le> 21 then s @ replicate (nat (n - k)) 48
      else if 0 < n \<and> n \<le> 21 then take (nat n) s @ js ''.'' @ drop (nat n) s
      else if -6 < n \<and> n \<le> 0 then js ''0.'' @ replicate (nat (- n)) 48 @ s
      else if k = 1 then s @ exp_suffix (n - 1)
      else take 1 s @ js ''.'' @ drop 1 s @ exp_suffix (n - 1))"

definition number_to_jsstr :: "int \<Rightarrow> int \<Rightarrow> jsstr" where
  "number_to_jsstr m e =
     (if m = 0 then js ''0''
      else (let (a, e') = strip_zeros (nat \<bar>m\<bar>) e; s = nat_digits a;
                body = decimal_body s (int (length s) + e')
            in if m < 0 then js ''-'' @ body else body))"

fun jsnum_to_jsstr :: "jsnum \<Rightarrow> jsstr" where
  "jsnum_to_jsstr (Fin m e) = number_to_jsstr m e"
| "jsnum_to_jsstr NaN = js ''NaN''"
| "jsnum_to_jsstr PosInf = js ''Infinity''"
| "jsnum_to_jsstr NegInf = js ''-Infinity''"

subsection \<open>\<open>ToString\<close>\<close>

text \<open>The conversion of a template literal \<open>${v}\<close>. An object converts through
  \<open>toString\<close>; a JSON object with an own \<open>toString\<close> key shadows
  \<open>Object.prototype.toString\<close> with a value that is not callable, and since
  \<open>Object.prototype.valueOf\<close> returns the object itself, V8 throws. An array joins its
  elements with commas, \<open>null\<close> elements as the empty string.\<close>

fun join_with :: "jsstr \<Rightarrow> jsstr list \<Rightarrow> jsstr" where
  "join_with sep [] = []"
| "join_with sep [s] = s"
| "join_with sep (s # ss) = s @ sep @ join_with sep ss"

definition to_primitive_error :: js_error where
  "to_primitive_error = TypeError (js ''Cannot convert object to primitive value'')"

fun to_jsstr :: "json \<Rightarrow> js_error + jsstr"
and join_elems :: "json list \<Rightarrow> js_error + jsstr list" where
  "to_jsstr JNull = Inr (js ''null'')"
| "to_jsstr (JBool b) = Inr (if b then js ''true'' else js ''false'')"
| "to_jsstr (JNum m e) = Inr (number_to_jsstr m e)"
| "to_jsstr (JStr s) = Inr s"
| "to_jsstr (JArr xs) =
     (case join_elems xs of Inl err \<Rightarrow> Inl err | Inr ss \<Rightarrow> Inr (join_with (js '','') ss))"
| "to_jsstr (JObj kvs) =
     (if map_of kvs (js ''toString'') \<noteq> None then Inl to_primitive_error else Inr (js ''[object Object]''))"
| "join_elems [] = Inr []"
| "join_elems (x # xs) =
     (case (if x = JNull then Inr [] else to_jsstr x) of
        Inl err \<Rightarrow> Inl err
      | Inr s \<Rightarrow> (case join_elems xs of Inl err \<Rightarrow> Inl err | Inr ss \<Rightarrow> Inr (s # ss)))"

definition template_str :: "jsval \<Rightarrow> js_error + jsstr" where
  "template_str v = (case v of None \<Rightarrow> Inr (js ''undefined'') | Some j \<Rightarrow> to_jsstr j)"

subsection \<open>\<open>StringToNumber\<close>, \<open>ToNumber\<close> and \<open>Math.round\<close>\<close>

definition digit_val :: "nat \<Rightarrow> 16 word \<Rightarrow> nat option" where
  "digit_val b c =
     (let n = unat c;
          d = (if 48 \<le> n \<and> n \<le> 57 then n - 48
               else if 97 \<le> n \<and> n \<le> 122 then n - 87
               else if 65 \<le> n \<and> n \<le> 90 then n - 55 else 36)
      in if d < b then Some d else None)"

definition is_digit :: "nat \<Rightarrow> 16 word \<Rightarrow> bool" where
  "is_digit b c \<longleftrightarrow> digit_val b c \<noteq> None"

definition digits_value :: "nat \<Rightarrow> jsstr \<Rightarrow> nat" where
  "digits_value b s = foldl (\<lambda>acc c. acc * b + the (digit_val b c)) 0 s"

text \<open>An unsigned \<open>StrDecimalLiteral\<close>: \<open>Infinity\<close>, or digits with an optional
  fraction (at least one digit in all) and an optional exponent.\<close>

definition parse_exponent :: "jsstr \<Rightarrow> int option" where
  "parse_exponent r =
     (case r of
        [] \<Rightarrow> Some 0
      | c # t \<Rightarrow>
          (if c = 101 \<or> c = 69 then
             (let (neg, ds) = (case t of
                                 d # u \<Rightarrow> (if d = 45 then (True, u) else if d = 43 then (False, u) else (False, t))
                               | [] \<Rightarrow> (False, t))
              in if ds \<noteq> [] \<and> list_all (is_digit 10) ds
                 then Some ((if neg then -1 else 1) * int (digits_value 10 ds)) else None)
           else None))"

definition parse_unsigned_decimal :: "jsstr \<Rightarrow> jsnum" where
  "parse_unsigned_decimal s =
     (if s = js ''Infinity'' then PosInf
      else
        (let ip = takeWhile (is_digit 10) s; r1 = dropWhile (is_digit 10) s;
             (fp, r2) = (case r1 of
                           c # t \<Rightarrow> (if c = 46 then (takeWhile (is_digit 10) t, dropWhile (is_digit 10) t) else ([], r1))
                         | [] \<Rightarrow> ([], []));
             dot = (r1 \<noteq> [] \<and> hd r1 = 46)
         in if ip = [] \<and> fp = [] then NaN
            else (case parse_exponent (if dot then r2 else r1) of
                    None \<Rightarrow> NaN
                  | Some x \<Rightarrow> Fin (int (digits_value 10 (ip @ fp))) (x - int (length fp)))))"

definition parse_radix_integer :: "nat \<Rightarrow> jsstr \<Rightarrow> jsnum" where
  "parse_radix_integer b ds =
     (if ds \<noteq> [] \<and> list_all (is_digit b) ds then Fin (int (digits_value b ds)) 0 else NaN)"

fun negate_num :: "jsnum \<Rightarrow> jsnum" where
  "negate_num (Fin m e) = Fin (- m) e"
| "negate_num NaN = NaN"
| "negate_num PosInf = NegInf"
| "negate_num NegInf = PosInf"

definition string_to_number :: "jsstr \<Rightarrow> jsnum" where
  "string_to_number str =
     (let t = js_trim str in
      if t = [] then Fin 0 0
      else if take 2 t \<in> {js ''0x'', js ''0X''} then parse_radix_integer 16 (drop 2 t)
      else if take 2 t \<in> {js ''0o'', js ''0O''} then parse_radix_integer 8 (drop 2 t)
      else if take 2 t \<in> {js ''0b'', js ''0B''} then parse_radix_integer 2 (drop 2 t)
      else if hd t = 45 then negate_num (parse_unsigned_decimal (tl t))
      else if hd t = 43 then parse_unsigned_decimal (tl t)
      else parse_unsigned_decimal t)"

text \<open>\<open>ToNumber\<close> of a JSON value; an array or object converts through its string form.\<close>

fun to_number :: "json \<Rightarrow> js_error + jsnum" where
  "to_number JNull = Inr (Fin 0 0)"
| "to_number (JBool b) = Inr (Fin (if b then 1 else 0) 0)"
| "to_number (JNum m e) = Inr (Fin m e)"
| "to_number (JStr s) = Inr (string_to_number s)"
| "to_number (JArr xs) = (case to_jsstr (JArr xs) of Inl err \<Rightarrow> Inl err | Inr s \<Rightarrow> Inr (string_to_number s))"
| "to_number (JObj kvs) = (case to_jsstr (JObj kvs) of Inl err \<Rightarrow> Inl err | Inr s \<Rightarrow> Inr (string_to_number s))"

text \<open>\<open>Math.round\<close>: the integer nearest to \<open>x\<close>, halves rounded towards \<open>+\<infinity>\<close>,
  that is \<open>\<lfloor>x + 1/2\<rfloor>\<close>; on \<open>m * 10^e\<close> with \<open>e < 0\<close> and \<open>d = 10^-e\<close> this is
  \<open>(2m + d) div 2d\<close>.\<close>

definition round_half_up :: "int \<Rightarrow> int \<Rightarrow> int" where
  "round_half_up m e =
     (if 0 \<le> e then m * 10 ^ nat e
      else (2 * m + 10 ^ nat (- e)) div (2 * 10 ^ nat (- e)))"

fun math_round :: "jsnum \<Rightarrow> jsnum" where
  "math_round (Fin m e) = Fin (round_half_up m e) 0"
| "math_round x = x"

text \<open>Decimal digits are ASCII.\<close>

lemma nat_digits_ascii: "list_all (\<lambda>c. c < 128) (nat_digits n)"
proof (induction n rule: nat_digits.induct)
  case (1 n)
  have d: "48 + (of_nat k :: 16 word) < 128" if "k < 10" for k
  proof -
    have "48 + k < 128" using that by simp
    then have "(of_nat (48 + k) :: 16 word) < 128" by (simp only: word_less_nat_alt unat_of_nat) simp
    then show ?thesis by simp
  qed
  show ?case
  proof (cases "n < 10")
    case True
    then show ?thesis by (subst nat_digits.simps) (simp add: d)
  next
    case False
    with "1.IH" show ?thesis by (subst nat_digits.simps) (simp add: d)
  qed
qed

subsection \<open>Printing integers\<close>

lemma nat_digits_small: "n < 10 \<Longrightarrow> nat_digits n = [of_nat (48 + n)]"
  by (simp add: nat_digits.simps)

lemma nat_digits_big: "10 \<le> n \<Longrightarrow> nat_digits n = nat_digits (n div 10) @ [of_nat (48 + n mod 10)]"
  by (subst nat_digits.simps) simp

lemma nat_digits_times10: "0 < n \<Longrightarrow> nat_digits (n * 10) = nat_digits n @ [48]"
  by (simp add: nat_digits_big)

lemma nat_digits_pow10: "0 < a \<Longrightarrow> nat_digits (a * 10 ^ k) = nat_digits a @ replicate k 48"
proof (induction k)
  case 0
  then show ?case by simp
next
  case (Suc k)
  have "0 < a * 10 ^ k" using Suc.prems by simp
  then have "nat_digits (a * 10 ^ Suc k) = nat_digits (a * 10 ^ k) @ [48]"
    using nat_digits_times10 [of "a * 10 ^ k"] by (simp add: ac_simps)
  with Suc show ?case
    by (simp add: replicate_append_same [symmetric])
qed

lemma nat_digits_not_Nil: "nat_digits n \<noteq> []"
  by (cases "n < 10") (simp_all add: nat_digits_small nat_digits_big)

lemma length_nat_digits: "n < 10 ^ d \<Longrightarrow> 0 < d \<Longrightarrow> length (nat_digits n) \<le> d"
proof (induction n arbitrary: d rule: nat_digits.induct)
  case (1 n)
  show ?case
  proof (cases "n < 10")
    case True
    with "1.prems" show ?thesis by (simp add: nat_digits_small)
  next
    case False
    then obtain d' where d: "d = Suc d'" using "1.prems" by (cases d) auto
    with False "1.prems" have "n div 10 < 10 ^ d'" "0 < d'"
      by (auto simp: less_mult_imp_div_less mult.commute intro: ccontr)
    with False "1.IH" d show ?thesis by (simp add: nat_digits_big)
  qed
qed

lemma strip_zeros_spec:
  "0 < m \<Longrightarrow> strip_zeros m e = (a, e') \<Longrightarrow> \<exists>k. m = a * 10 ^ k \<and> e' = e + int k \<and> 0 < a"
proof (induction m e rule: strip_zeros.induct)
  case (1 m e)
  show ?case
  proof (cases "m mod 10 = 0")
    case True
    with "1.prems" have "strip_zeros (m div 10) (e + 1) = (a, e')" "0 < m div 10"
      by (auto simp: strip_zeros.simps [of m e])
    with "1.IH" True "1.prems" obtain k where "m div 10 = a * 10 ^ k" "e' = e + 1 + int k" "0 < a"
      by auto
    with True show ?thesis
      by (intro exI [of _ "Suc k"]) auto
  next
    case False
    with "1.prems" show ?thesis by (auto simp: strip_zeros.simps [of m e])
  qed
qed


lemma decimal_body_int:
  "0 < a \<Longrightarrow> length (nat_digits (a * 10 ^ k)) \<le> 21 \<Longrightarrow>
   decimal_body (nat_digits a) (int (length (nat_digits a)) + int k) = nat_digits (a * 10 ^ k)"
  by (simp add: decimal_body_def nat_digits_pow10 Let_def)

lemma number_to_jsstr_int:
  assumes "\<bar>r\<bar> < 10 ^ 21"
  shows "number_to_jsstr r 0 = int_to_jsstr r"
proof (cases "r = 0")
  case True
  then show ?thesis by (simp add: number_to_jsstr_def int_to_jsstr_def nat_digits_small js_def)
next
  case False
  let ?n = "nat \<bar>r\<bar>"
  obtain a e' where sz: "strip_zeros ?n 0 = (a, e')" by (cases "strip_zeros ?n 0")
  from strip_zeros_spec [OF _ sz] False obtain k where k: "?n = a * 10 ^ k" "e' = int k" "0 < a"
    by auto
  have "?n < 10 ^ 21" using assms by (simp add: nat_less_iff)
  then have "length (nat_digits ?n) \<le> 21" by (rule length_nat_digits) simp
  with k have body: "decimal_body (nat_digits a) (int (length (nat_digits a)) + e') = nat_digits ?n"
    using decimal_body_int [of a k] by simp
  show ?thesis
    using False body sz by (cases "r < 0") (simp_all add: number_to_jsstr_def int_to_jsstr_def Let_def)
qed

end
