(* ===== verification/Composer.thy ===== *)
theory Composer
  imports Json
begin

text \<open>
  The combine step of the POST handler (\<open>src/src/app/api/run_workflow/route.js\<close>, lines
  168-173): the hashtag chosen by the action, the defensive trims
  \<open>v?.trim?.() ?? ""\<close> of the AI and API responses, and the final string
  \<open>`${ai_trim} ${api_trim} ${hashtag}`.trim()\<close>. The trims are modelled on any value the
  previous steps can produce: a string is trimmed; \<open>null\<close>, \<open>undefined\<close> and values
  without a \<open>trim\<close> member give the empty string; a JSON object with an own, non-null
  \<open>trim\<close> key makes the optional call throw a TypeError.
  The lemmas give the exact shape of the final string on every branch, that it is trimmed
  and ends with the hashtag, and that it depends on the responses only through their trims.
\<close>

definition hashtag :: "jsstr \<Rightarrow> jsstr" where
  "hashtag act =
     (if act = js ''weather'' then js ''#weather''
      else if act = js ''github'' then js ''#opensource''
      else js ''#news'')"

text \<open>\<open>v?.trim?.() ?? ""\<close>, where \<open>name\<close> is the source text of \<open>v\<close> (V8 names the
  callee in the message).\<close>

fun trim_value :: "jsstr \<Rightarrow> jsval \<Rightarrow> js_error + jsstr" where
  "trim_value name (Some (JStr s)) = Inr (js_trim s)"
| "trim_value name (Some (JObj kvs)) =
     (if nullish (map_of (rev kvs) (js ''trim'')) then Inr []
      else Inl (TypeError (name @ js ''?.trim is not a function'')))"
| "trim_value name v = Inr []"

definition final_text :: "jsstr \<Rightarrow> jsstr \<Rightarrow> jsstr \<Rightarrow> jsstr" where
  "final_text ai_trim api_trim act = js_trim (ai_trim @ js '' '' @ api_trim @ js '' '' @ hashtag act)"

text \<open>The whole combine step: the two trimmed responses and the final result, or the
  TypeError of the first trim that throws.\<close>

definition combine :: "jsval \<Rightarrow> jsval \<Rightarrow> jsstr \<Rightarrow> js_error + (jsstr \<times> jsstr \<times> jsstr)" where
  "combine ai api act =
     (case trim_value (js ''ai_response'') ai of
        Inl err \<Rightarrow> Inl err
      | Inr ai_trim \<Rightarrow>
          (case trim_value (js ''api_response'') api of
             Inl err \<Rightarrow> Inl err
           | Inr api_trim \<Rightarrow> Inr (ai_trim, api_trim, final_text ai_trim api_trim act)))"

subsection \<open>The hashtag\<close>

lemma hashtag_cases:
  "hashtag act = js ''#weather'' \<or> hashtag act = js ''#opensource'' \<or> hashtag act = js ''#news''"
  by (simp add: hashtag_def)

lemma hashtag_not_Nil [simp]: "hashtag act \<noteq> []"
  by (simp add: hashtag_def js_def)

lemma hashtag_no_ws: "list_all (\<lambda>c. \<not> js_is_ws c) (hashtag act)"
  using hashtag_cases [of act] by (auto simp: js_lit)

lemma hashtag_trimmed: "trimmed (hashtag act)"
  using hashtag_no_ws [of act] hashtag_not_Nil [of act]
  by (auto simp: list_all_iff trimmed_def)

subsection \<open>Trims of the responses\<close>

lemma trim_value_trimmed: "trim_value name v = Inr s \<Longrightarrow> trimmed s"
  by (induction name v rule: trim_value.induct) (auto split: if_splits)

subsection \<open>The final string\<close>

lemma space_ws: "js_is_ws 32"
  by (simp add: js_lit)

text \<open>The final string on each branch: both parts, the API part alone, or the hashtag
  alone; an empty API part leaves two spaces between the AI part and the hashtag.\<close>

lemma final_text_shape:
  assumes a: "trimmed a" and b: "trimmed b"
  shows "final_text a b act =
    (if a = [] then (if b = [] then hashtag act else b @ js '' '' @ hashtag act)
     else a @ js '' '' @ b @ js '' '' @ hashtag act)"
proof -
  have t: "trimmed (hashtag act)" "hashtag act \<noteq> []"
    by (simp_all add: hashtag_trimmed)
  have sp: "js '' '' = [32]" by (simp add: js_def)
  show ?thesis
  proof (cases "a = []")
    case False
    have "trimmed (a @ (js '' '' @ b @ js '' '') @ hashtag act)"
      by (rule trimmed_append_middle [OF a False t])
    with False show ?thesis
      by (simp add: final_text_def js_trim_id)
  next
    case True
    then have "final_text a b act = js_trim (b @ js '' '' @ hashtag act)"
      by (simp add: final_text_def sp js_trim_Cons_ws space_ws)
    also have "\<dots> = (if b = [] then hashtag act else b @ js '' '' @ hashtag act)"
    proof (cases "b = []")
      case True
      with t show ?thesis by (simp add: sp js_trim_Cons_ws space_ws js_trim_id)
    next
      case False
      have "trimmed (b @ js '' '' @ hashtag act)"
        by (rule trimmed_append_middle [OF b False t])
      with False show ?thesis by (simp add: js_trim_id)
    qed
    finally show ?thesis using True by simp
  qed
qed

lemma final_text_props:
  assumes "trimmed a" "trimmed b"
  shows "trimmed (final_text a b act) \<and> (\<exists>u. final_text a b act = u @ hashtag act)"
proof -
  have "trimmed (hashtag act)" by (rule hashtag_trimmed)
  moreover have "trimmed (b @ js '' '' @ hashtag act)" if "b \<noteq> []"
    using trimmed_append_middle [OF assms(2) that hashtag_trimmed hashtag_not_Nil] .
  moreover have "trimmed (a @ (js '' '' @ b @ js '' '') @ hashtag act)" if "a \<noteq> []"
    using trimmed_append_middle [OF assms(1) that hashtag_trimmed hashtag_not_Nil] .
  ultimately show ?thesis
    using assms by (auto simp: final_text_shape)
qed

lemma combine_Inr:
  "combine ai api act = Inr (x, y, z) \<Longrightarrow> trimmed x \<and> trimmed y \<and> z = final_text x y act"
  by (auto simp: combine_def trim_value_trimmed split: sum.splits)

lemma combine_strings:
  "combine (Some (JStr s)) (Some (JStr t)) act = Inr (js_trim s, js_trim t, final_text (js_trim s) (js_trim t) act)"
  by (simp add: combine_def)

text \<open>With a string AI response the combine step fails only on an API response that is
  an object with a non-nullish own \<open>trim\<close>.\<close>

lemma combine_string_Inl:
  assumes "combine (Some (JStr s)) v act = Inl e"
  shows "\<exists>kvs. v = Some (JObj kvs) \<and> \<not> nullish (map_of (rev kvs) (js ''trim'')) \<and>
           e = TypeError (js ''api_response?.trim is not a function'')"
  using assms by (cases "(js ''api_response'', v)" rule: trim_value.cases) (auto simp: combine_def js_def split: if_splits)

lemma hashtag_unknown: "a \<notin> {js ''weather'', js ''github'', js ''news''} \<Longrightarrow> hashtag a = js ''#news''"
  by (simp add: hashtag_def)

text \<open>C3. For string responses the combine step returns both trimmed responses and a final
  string that is, on each branch, the non-empty trimmed parts and the action's hashtag
  joined by single spaces, where an empty AI part disappears and an empty API part leaves
  two spaces between the AI part and the hashtag.\<close>

theorem combine_final_shape:
  "combine (Some (JStr s)) (Some (JStr t)) act =
     Inr (js_trim s, js_trim t,
          if js_trim s = [] then (if js_trim t = [] then hashtag act else js_trim t @ js '' '' @ hashtag act)
          else js_trim s @ js '' '' @ js_trim t @ js '' '' @ hashtag act)"
  using final_text_shape [OF trimmed_js_trim trimmed_js_trim, of s t act]
  by (simp add: combine_strings)

text \<open>C4. Whitespace around either response does not change anything the combine step
  returns: \<open>compose("  hi  ", "  there  ", "weather") = compose("hi", "there", "weather")\<close>.\<close>

theorem combine_ws_insensitive:
  assumes "list_all js_is_ws p1" "list_all js_is_ws q1" "list_all js_is_ws p2" "list_all js_is_ws q2"
  shows "combine (Some (JStr (p1 @ s @ q1))) (Some (JStr (p2 @ t @ q2))) act =
         combine (Some (JStr s)) (Some (JStr t)) act"
  using assms by (simp add: combine_strings js_trim_ws_around)

theorem combine_ws_insensitive_witness:
  "list_all js_is_ws (js ''  '') \<and>
   combine (Some (JStr (js ''  hi  ''))) (Some (JStr (js ''  there  ''))) (js ''weather'') =
   combine (Some (JStr (js ''hi''))) (Some (JStr (js ''there''))) (js ''weather'')"
proof -
  have ws: "list_all js_is_ws (js ''  '')" by (simp add: js_lit)
  have "js ''  hi  '' = js ''  '' @ js ''hi'' @ js ''  ''" "js ''  there  '' = js ''  '' @ js ''there'' @ js ''  ''"
    by (simp_all add: js_def)
  with combine_ws_insensitive [OF ws ws ws ws, of "js ''hi''" "js ''there''" "js ''weather''"] ws
  show ?thesis by simp
qed

end
