(* ===== verification/Runtime.thy ===== *)
theory Runtime
  imports Json
begin

text \<open>
  The interface between the handlers and the outside world. The configuration is the part
  of \<open>process.env\<close> the route reads (\<open>config\<close>); an environment variable is a string
  or absent, and the code tests it for truthiness, so an empty value counts as absent
  (\<open>str_truthy\<close>). Every outbound call goes through \<open>fetch\<close>: the model builds the exact
  request (method, URL, headers, body text) and asks the world (\<open>fetcher\<close>) for the
  outcome, a rejected promise or a response. A response carries its status, its body as
  text (\<open>res.text()\<close>) and the outcome of \<open>res.json()\<close> (the parsed value or the
  SyntaxError it rejects with); \<open>JSON.parse\<close> itself is not modelled, so the two views of
  the body are given together by the world.
  \<open>JSON.stringify\<close> of a string (\<open>json_quote\<close>) is modelled exactly, lone surrogates
  escaped as ES2019 prescribes, because the AI request body embeds the prompt with it;
  \<open>json_text\<close> is \<open>JSON.stringify\<close> of a whole JSON value, and \<open>iso_string\<close> is
  \<open>Date.prototype.toISOString\<close> (Hinnant's civil-from-days for the calendar date).
  \<open>json_parse_string\<close> is a reference decoder of JSON string literals; the lemmas show
  that it reads every \<open>json_quote\<close> back to the same code units.
\<close>

record config =
  use_mock_ai :: "jsstr option"
  openai_api_key :: "jsstr option"
  weather_api_key :: "jsstr option"
  github_token :: "jsstr option"
  newsapi_key :: "jsstr option"
  default_city :: "jsstr option"

definition env_str :: "jsstr option \<Rightarrow> jsstr" where
  "env_str v = (case v of None \<Rightarrow> js ''undefined'' | Some s \<Rightarrow> s)"

datatype http_method = GET | POST

record http_req =
  req_method :: http_method
  req_url :: jsstr
  req_headers :: "(jsstr \<times> jsstr) list"
  req_body :: "jsstr option"

record http_resp =
  status :: nat
  body_text :: jsstr
  body_json :: "js_error + json"

datatype fetch_result = Rejected js_error | Resolved http_resp

type_synonym fetcher = "http_req \<Rightarrow> fetch_result"

definition resp_ok :: "http_resp \<Rightarrow> bool" where
  "resp_ok r \<longleftrightarrow> 200 \<le> status r \<and> status r \<le> 299"

definition get_req :: "jsstr \<Rightarrow> (jsstr \<times> jsstr) list \<Rightarrow> http_req" where
  "get_req url hs = \<lparr>req_method = GET, req_url = url, req_headers = hs, req_body = None\<rparr>"

subsection \<open>\<open>JSON.stringify\<close> of a string\<close>

definition hex4 :: "16 word \<Rightarrow> jsstr" where
  "hex4 c = map (\<lambda>i. let d = (unat c div 16 ^ i) mod 16 in of_nat (if d < 10 then 48 + d else 87 + d)) [3, 2, 1, 0]"

definition quote_unit :: "16 word \<Rightarrow> jsstr" where
  "quote_unit c =
     (if c = 34 then [92, 34]
      else if c = 92 then [92, 92]
      else if c = 8 then 92 # js ''b''
      else if c = 12 then 92 # js ''f''
      else if c = 10 then 92 # js ''n''
      else if c = 13 then 92 # js ''r''
      else if c = 9 then 92 # js ''t''
      else if c < 32 \<or> is_high_surrogate c \<or> is_low_surrogate c then 92 # js ''u'' @ hex4 c
      else [c])"

fun quote_units :: "jsstr \<Rightarrow> jsstr" where
  "quote_units [] = []"
| "quote_units [c] = quote_unit c"
| "quote_units (c # d # cs) =
     (if is_high_surrogate c \<and> is_low_surrogate d then c # d # quote_units cs
      else quote_unit c @ quote_units (d # cs))"

definition json_quote :: "jsstr \<Rightarrow> jsstr" where
  "json_quote s = [34] @ quote_units s @ [34]"

subsection \<open>\<open>Date.prototype.toISOString\<close>\<close>

text \<open>The civil date of a day count since 1970-01-01 (proleptic Gregorian calendar).\<close>

definition civil_from_days :: "int \<Rightarrow> int \<times> int \<times> int" where
  "civil_from_days z0 =
     (let z = z0 + 719468; era = z div 146097; doe = z - era * 146097;
          yoe = (doe - doe div 1460 + doe div 36524 - doe div 146096) div 365;
          doy = doe - (365 * yoe + yoe div 4 - yoe div 100);
          mp = (5 * doy + 2) div 153;
          d = doy - (153 * mp + 2) div 5 + 1;
          m = (if mp < 10 then mp + 3 else mp - 9);
          y = yoe + era * 400 + (if m \<le> 2 then 1 else 0)
      in (y, m, d))"

definition pad_left :: "nat \<Rightarrow> jsstr \<Rightarrow> jsstr" where
  "pad_left n s = replicate (n - length s) 48 @ s"

text \<open>\<open>toISOString()\<close> of a time value in milliseconds: \<open>YYYY-MM-DDTHH:mm:ss.sssZ\<close>
  in UTC, with a signed six-digit year outside 0..9999.\<close>

definition iso_string :: "int \<Rightarrow> jsstr" where
  "iso_string ms =
     (let (y, m, d) = civil_from_days (ms div 86400000); t = ms mod 86400000;
          ys = (if 0 \<le> y \<and> y \<le> 9999 then pad_left 4 (nat_digits (nat y))
                else (if y < 0 then js ''-'' else js ''+'') @ pad_left 6 (nat_digits (nat \<bar>y\<bar>)))
      in ys @ js ''-'' @ pad_left 2 (nat_digits (nat m)) @ js ''-'' @ pad_left 2 (nat_digits (nat d)) @
         js ''T'' @ pad_left 2 (nat_digits (nat (t div 3600000))) @ js '':'' @
         pad_left 2 (nat_digits (nat (t div 60000 mod 60))) @ js '':'' @
         pad_left 2 (nat_digits (nat (t div 1000 mod 60))) @ js ''.'' @
         pad_left 3 (nat_digits (nat (t mod 1000))) @ js ''Z'')"

subsection \<open>\<open>JSON.stringify\<close>\<close>

text \<open>\<open>JSON.stringify\<close> of a JSON value: numbers as \<open>Number::toString\<close> prints them,
  strings quoted, members in their order.\<close>

fun json_text :: "json \<Rightarrow> jsstr"
  and json_texts :: "json list \<Rightarrow> jsstr list"
  and json_members :: "(jsstr \<times> json) list \<Rightarrow> jsstr list" where
  "json_text JNull = js ''null''"
| "json_text (JBool b) = (if b then js ''true'' else js ''false'')"
| "json_text (JNum m e) = number_to_jsstr m e"
| "json_text (JStr s) = json_quote s"
| "json_text (JArr xs) = js ''['' @ join_with (js '','') (json_texts xs) @ js '']''"
| "json_text (JObj kvs) = js ''{'' @ join_with (js '','') (json_members kvs) @ js ''}''"
| "json_texts [] = []"
| "json_texts (x # xs) = json_text x # json_texts xs"
| "json_members [] = []"
| "json_members ((k, v) # kvs) = (json_quote k @ js '':'' @ json_text v) # json_members kvs"

text \<open>\<open>JSON.stringify\<close> of an object whose values are strings, keys in order.\<close>

definition json_str_object :: "(jsstr \<times> jsstr) list \<Rightarrow> jsstr" where
  "json_str_object kvs =
     js ''{'' @ join_with (js '','') (map (\<lambda>(k, v). json_quote k @ js '':'' @ json_quote v) kvs) @ js ''}''"

definition json_str_value :: "(jsstr \<times> jsstr) list \<Rightarrow> json" where
  "json_str_value kvs = JObj (map (\<lambda>(k, v). (k, JStr v)) kvs)"

subsection \<open>\<open>JSON.parse\<close> of a string literal\<close>

text \<open>A reference decoder for the string literals of RFC 8259 as \<open>JSON.parse\<close> reads them:
  the two-character escapes, the escape \<open>u\<close> with four hex digits, and no raw control
  character. It is the reference against which \<open>json_quote\<close> is proved invertible.\<close>

definition json_escape :: "16 word \<Rightarrow> 16 word option" where
  "json_escape e =
     (if e = 34 \<or> e = 92 \<or> e = 47 then Some e
      else if e = 98 then Some 8 else if e = 102 then Some 12 else if e = 110 then Some 10
      else if e = 114 then Some 13 else if e = 116 then Some 9 else None)"

function json_str_chars :: "jsstr \<Rightarrow> (jsstr \<times> jsstr) option" where
  "json_str_chars [] = None"
| "json_str_chars (c # cs) =
     (if c = 34 then Some ([], cs)
      else if c = 92 then
        (case cs of
           [] \<Rightarrow> None
         | e # r \<Rightarrow>
             (if e = 117 then
                (if 4 \<le> length r \<and> list_all (is_digit 16) (take 4 r)
                 then map_option (\<lambda>(v, rest). (of_nat (digits_value 16 (take 4 r)) # v, rest)) (json_str_chars (drop 4 r))
                 else None)
              else (case json_escape e of
                      None \<Rightarrow> None
                    | Some d \<Rightarrow> map_option (\<lambda>(v, rest). (d # v, rest)) (json_str_chars r))))
      else if c < 32 then None
      else map_option (\<lambda>(v, rest). (c # v, rest)) (json_str_chars cs))"
  by pat_completeness auto
termination
  by (relation "measure length") auto

definition json_parse_string :: "jsstr \<Rightarrow> jsstr option" where
  "json_parse_string t =
     (if t \<noteq> [] \<and> hd t = 34
      then (case json_str_chars (tl t) of Some (v, []) \<Rightarrow> Some v | _ \<Rightarrow> None) else None)"


subsection \<open>Lemmas\<close>

lemma pad_left_ascii: "list_all (\<lambda>c. c < 128) s \<Longrightarrow> list_all (\<lambda>c. c < 128) (pad_left n s)"
  by (simp add: pad_left_def list_all_iff set_replicate_conv_if)

lemma take_ascii: "list_all (\<lambda>c. c < 128) xs \<Longrightarrow> list_all (\<lambda>c. c < 128) (take n xs)"
  by (auto simp: list_all_iff dest: in_set_takeD)

lemma iso_string_ascii: "list_all (\<lambda>c. c < 128) (iso_string t)"
  by (auto simp: iso_string_def Let_def split: prod.splits intro!: pad_left_ascii nat_digits_ascii)
     (simp_all add: js_def)

lemma json_str_object_text: "json_str_object kvs = json_text (json_str_value kvs)"
proof -
  have "map (\<lambda>(k, v). json_quote k @ js '':'' @ json_quote v) kvs = json_members (map (\<lambda>(k, v). (k, JStr v)) kvs)"
    by (induction kvs) auto
  then show ?thesis by (simp add: json_str_object_def json_str_value_def)
qed


lemma hex_arith:
  fixes n :: nat
  assumes "n < 65536"
  shows "((n div 4096 mod 16 * 16 + n div 256 mod 16) * 16 + n div 16 mod 16) * 16 + n mod 16 = n"
proof -
  have a: "n div 4096 mod 16 = n div 4096" using assms by simp
  have e1: "n div 256 = n div 16 div 16" using div_mult2_eq [of n 16 16] by simp
  have e2: "n div 4096 = n div 256 div 16" using div_mult2_eq [of n 256 16] by simp
  have b: "n div 16 = n div 256 * 16 + n div 16 mod 16" unfolding e1 by simp
  have c: "n div 256 = n div 4096 * 16 + n div 256 mod 16" unfolding e2 by simp
  have d: "n = n div 16 * 16 + n mod 16" by simp
  show ?thesis using a b c d by metis
qed


lemma hex_char_val: "d < 16 \<Longrightarrow> digit_val 16 (of_nat (if d < 10 then 48 + d else 87 + d)) = Some d"
proof -
  assume d: "d < 16"
  then have "unat (of_nat (if d < 10 then 48 + d else 87 + d) :: 16 word) = (if d < 10 then 48 + d else 87 + d)"
    by (simp add: unat_of_nat)
  with d show ?thesis by (auto simp: digit_val_def Let_def)
qed

lemma hex4_digits:
  "list_all (is_digit 16) (hex4 c) \<and> of_nat (digits_value 16 (hex4 c)) = c"
proof -
  let ?n = "unat c"
  define h where "h = (\<lambda>d::nat. (of_nat (if d < 10 then 48 + d else 87 + d) :: 16 word))"
  have n: "?n < 65536" using unsigned_less [of c] by simp
  have hv: "digit_val 16 (h (x mod 16)) = Some (x mod 16)" for x
    unfolding h_def by (rule hex_char_val) simp
  have hx: "hex4 c = [h (?n div 4096 mod 16), h (?n div 256 mod 16), h (?n div 16 mod 16), h (?n mod 16)]"
    by (simp add: hex4_def h_def)
  have "digits_value 16 (hex4 c) = ((?n div 4096 mod 16 * 16 + ?n div 256 mod 16) * 16 + ?n div 16 mod 16) * 16 + ?n mod 16"
    unfolding hx by (simp add: digits_value_def hv)
  then have "digits_value 16 (hex4 c) = ?n" using hex_arith [OF n] by (rule trans)
  moreover have "list_all (is_digit 16) (hex4 c)"
    unfolding hx by (simp add: is_digit_def hv)
  ultimately show ?thesis by simp
qed

lemma json_str_chars_unit:
  "json_str_chars (quote_unit c @ rest) = map_option (\<lambda>(v, r). (c # v, r)) (json_str_chars rest)"
proof -
  consider "c = 34" | "c = 92" | "c = 8" | "c = 12" | "c = 10" | "c = 13" | "c = 9"
    | "c \<noteq> 34" "c \<noteq> 92" "c \<noteq> 8" "c \<noteq> 12" "c \<noteq> 10" "c \<noteq> 13" "c \<noteq> 9"
        "c < 32 \<or> is_high_surrogate c \<or> is_low_surrogate c"
    | "c \<noteq> 34" "c \<noteq> 92" "c \<noteq> 8" "c \<noteq> 12" "c \<noteq> 10" "c \<noteq> 13" "c \<noteq> 9"
        "\<not> (c < 32 \<or> is_high_surrogate c \<or> is_low_surrogate c)"
    by blast
  then show ?thesis
  proof cases
    case 8
    have "length (hex4 c) = 4" by (simp add: hex4_def)
    with 8 hex4_digits [of c] show ?thesis by (simp add: quote_unit_def js_def)
  next
    case 9
    then have "\<not> c < 32" by simp
    with 9 show ?thesis by (simp add: quote_unit_def)
  qed (simp_all add: quote_unit_def json_escape_def js_def)
qed

lemma surrogate_plain: "is_high_surrogate c \<or> is_low_surrogate c \<Longrightarrow> c \<noteq> 34 \<and> c \<noteq> 92 \<and> \<not> c < 32"
  by (auto simp: is_high_surrogate_def is_low_surrogate_def dest: order.trans [of _ c 32, OF _ less_imp_le]
      order.strict_trans2)

lemma json_str_chars_units: "json_str_chars (quote_units s @ 34 # rest) = Some (s, rest)"
proof (induction s rule: quote_units.induct)
  case 1
  then show ?case by simp
next
  case (2 c)
  then show ?case by (simp add: json_str_chars_unit)
next
  case (3 c d cs)
  show ?case
  proof (cases "is_high_surrogate c \<and> is_low_surrogate d")
    case True
    then have "c \<noteq> 34 \<and> c \<noteq> 92 \<and> \<not> c < 32" "d \<noteq> 34 \<and> d \<noteq> 92 \<and> \<not> d < 32"
      using surrogate_plain by blast+
    with True "3.IH"(1) show ?thesis by simp
  next
    case False
    then have "quote_units (c # d # cs) = quote_unit c @ quote_units (d # cs)"
      by (simp only: quote_units.simps if_False)
    with False "3.IH"(2) show ?thesis by (simp only: append_assoc json_str_chars_unit) simp
  qed
qed

text \<open>The decoder reads every \<open>json_quote\<close> back, and \<open>json_quote\<close> is well-formed
  UTF-16 whatever its argument: lone surrogates are escaped.\<close>

lemma json_quote_roundtrip: "json_parse_string (json_quote s) = Some s"
  using json_str_chars_units [of s "[]"] by (simp add: json_parse_string_def json_quote_def)


lemma hex_char_ascii: "d < 16 \<Longrightarrow> (of_nat (if d < 10 then 48 + d else 87 + d) :: 16 word) < 128"
proof -
  assume "d < 16"
  then have "(if d < 10 then 48 + d else 87 + d) < 128" by simp
  then show ?thesis by (simp only: word_less_nat_alt unat_of_nat) simp
qed

lemma hex4_ascii: "list_all (\<lambda>c. c < 128) (hex4 c)"
  unfolding hex4_def Let_def list.map list.pred_inject by (intro conjI TrueI hex_char_ascii) simp_all

lemma quote_unit_well_formed: "well_formed (quote_unit c)"
proof -
  have "well_formed (92 # js ''u'' @ hex4 c)"
    using hex4_ascii [of c] by (intro ascii_well_formed) (simp add: js_def)
  then show ?thesis
    by (auto simp: quote_unit_def js_def is_high_surrogate_def is_low_surrogate_def)
qed

lemma quote_units_well_formed: "well_formed (quote_units s)"
  by (induction s rule: quote_units.induct) (auto intro: well_formed_append quote_unit_well_formed)

lemma json_quote_well_formed: "well_formed (json_quote s)"
  unfolding json_quote_def
  by (intro well_formed_append quote_units_well_formed) (simp_all add: is_high_surrogate_def is_low_surrogate_def)

end
