(* ===== verification/Generator.thy ===== *)
theory Generator
  imports Runtime
begin

text \<open>
  The text generator adapter, \<open>callOpenAI\<close> in
  \<open>src/src/app/api/run_workflow/route.js\<close> (lines 9-48). The mock mode is chosen when
  \<open>USE_MOCK_AI\<close> is the string \<open>"true"\<close> or \<open>OPENAI_API_KEY\<close> is unset or empty; it
  returns \<open>"Quick thought: "\<close> followed by the prompt, cut to 77 code units and an
  ellipsis when it is longer than 80. The remote mode posts the JSON body to the chat
  completion endpoint, turns a non-2xx status into an \<open>Error\<close> carrying the status and the
  response text, reads \<open>choices[0].message.content\<close> (else \<open>choices[0].text\<close>, else
  \<open>""\<close>), removes every \<open>```json\<close> and then every \<open>```\<close>, and trims. A rejected
  fetch, a body that is not JSON and a message that is not a string are errors of the sum.
\<close>

definition use_mock :: "config \<Rightarrow> bool" where
  "use_mock cfg \<longleftrightarrow> use_mock_ai cfg = Some (js ''true'') \<or> \<not> str_truthy (openai_api_key cfg)"

definition mock_short :: "jsstr \<Rightarrow> jsstr" where
  "mock_short prompt = (if 80 < length prompt then take 77 prompt @ js ''...'' else prompt)"

definition mock_reply :: "jsstr \<Rightarrow> jsstr" where
  "mock_reply prompt = js ''Quick thought: '' @ mock_short prompt"

definition openai_endpoint :: jsstr where
  "openai_endpoint = js ''https://openrouter.ai/api/v1/chat/completions''"

text \<open>\<open>JSON.stringify(body)\<close>: the keys in the order of the object literal.\<close>

definition json_field :: "string \<Rightarrow> jsstr \<Rightarrow> jsstr" where
  "json_field k v = json_quote (js k) @ js '':'' @ v"

definition openai_body :: "jsstr \<Rightarrow> jsstr" where
  "openai_body prompt =
     js ''{'' @ json_field ''model'' (json_quote (js ''mistralai/mistral-small-3.2-24b-instruct:free''))
     @ js '','' @ json_field ''messages''
         (js ''[{'' @ json_field ''role'' (json_quote (js ''system'')) @ js '',''
          @ json_field ''content''
              (json_quote (js ''You are a concise assistant. Produces tweet-sized outputs (<= 20 words).''))
          @ js ''},{'' @ json_field ''role'' (json_quote (js ''user'')) @ js '',''
          @ json_field ''content'' (json_quote (js ''Write a short tweet based on: '' @ prompt))
          @ js ''}]'')
     @ js '','' @ json_field ''max_tokens'' (js ''60'')
     @ js '','' @ json_field ''temperature'' (js ''0.7'') @ js ''}''"

definition openai_req :: "config \<Rightarrow> jsstr \<Rightarrow> http_req" where
  "openai_req cfg prompt =
     \<lparr>req_method = POST, req_url = openai_endpoint,
      req_headers = [(js ''Content-Type'', js ''application/json''),
                     (js ''Authorization'', js ''Bearer '' @ env_str (openai_api_key cfg))],
      req_body = Some (openai_body prompt)\<rparr>"

text \<open>\<open>s.replace(/pat/g, "")\<close>: scan from the left, drop each match and continue after it.\<close>

function remove_all :: "jsstr \<Rightarrow> jsstr \<Rightarrow> jsstr" where
  "remove_all pat [] = []"
| "remove_all pat (c # cs) =
     (if pat \<noteq> [] \<and> take (length pat) (c # cs) = pat
      then remove_all pat (drop (length pat) (c # cs))
      else c # remove_all pat cs)"
  by pat_completeness auto
termination
  by (relation "measure (\<lambda>(p, s). length s)") auto

definition fence_json :: jsstr where
  "fence_json = js ''```json''"

definition fence :: jsstr where
  "fence = js ''```''"

text \<open>\<open>json?.choices?.[0]?.message?.content ?? json?.choices?.[0]?.text ?? ""\<close>.\<close>

definition completion_msg :: "json \<Rightarrow> jsval" where
  "completion_msg j =
     (let c0 = at (get (Some j) (js ''choices'')) 0
      in coalesce (coalesce (get (get c0 (js ''message'')) (js ''content'')) (get c0 (js ''text'')))
           (Some (JStr [])))"

text \<open>\<open>msg.replace(...).replace(...).trim()\<close> and \<open>msg.trim()\<close>: only a string has
  \<open>replace\<close>.\<close>

definition clean_msg :: "jsval \<Rightarrow> js_error + jsstr" where
  "clean_msg msg =
     (case msg of
        Some (JStr s) \<Rightarrow> Inr (js_trim (js_trim (remove_all fence (remove_all fence_json s))))
      | None \<Rightarrow> Inl (TypeError (reading_msg (js ''undefined'') (js ''replace'')))
      | Some JNull \<Rightarrow> Inl (TypeError (reading_msg (js ''null'') (js ''replace'')))
      | _ \<Rightarrow> Inl (TypeError (js ''msg.replace is not a function'')))"

definition openai_status_error :: "http_resp \<Rightarrow> js_error" where
  "openai_status_error res =
     Error (js ''OpenAI error: '' @ nat_digits (status res) @ js '' '' @ body_text res)"

definition call_openai :: "config \<Rightarrow> fetcher \<Rightarrow> jsstr \<Rightarrow> js_error + jsstr" where
  "call_openai cfg fetch prompt =
     (if use_mock cfg then Inr (mock_reply prompt)
      else (case fetch (openai_req cfg prompt) of
              Rejected err \<Rightarrow> Inl err
            | Resolved res \<Rightarrow>
                (if \<not> resp_ok res then Inl (openai_status_error res)
                 else (case body_json res of
                         Inl err \<Rightarrow> Inl err
                       | Inr j \<Rightarrow> clean_msg (completion_msg j)))))"

text \<open>A provider that answers a fenced reply, for the examples.\<close>

definition fenced_reply :: fetcher where
  "fenced_reply = (\<lambda>_. Resolved \<lparr>status = 200, body_text = [],
     body_json = Inr (JObj [(js ''choices'', JArr [JObj [(js ''message'',
       JObj [(js ''content'', JStr (js ''```json Sunny ``` ``` ''))])]])])\<rparr>)"

subsection \<open>The mock reply\<close>


text \<open>C8. In mock mode \<open>callOpenAI\<close> never fails and does not use the network: its
  reply is \<open>"Quick thought: "\<close> and the mock snippet, whatever the fetch oracle.\<close>

theorem call_openai_mock:
  assumes "use_mock cfg"
  shows "call_openai cfg f prompt = Inr (js ''Quick thought: '' @ mock_short prompt)"
  using assms by (simp add: call_openai_def mock_reply_def)

theorem call_openai_mock_witness:
  "use_mock (\<lparr>use_mock_ai = Some (js ''true''), openai_api_key = Some (js ''sk''), weather_api_key = None,
               github_token = None, newsapi_key = None, default_city = None\<rparr>) \<and>
   call_openai (\<lparr>use_mock_ai = Some (js ''true''), openai_api_key = Some (js ''sk''), weather_api_key = None,
               github_token = None, newsapi_key = None, default_city = None\<rparr>)
     (\<lambda>_. Rejected (TypeError (js ''fetch failed''))) (js ''today'') =
   Inr (js ''Quick thought: today'')"
proof -
  have m: "use_mock (\<lparr>use_mock_ai = Some (js ''true''), openai_api_key = Some (js ''sk''), weather_api_key = None,
               github_token = None, newsapi_key = None, default_city = None\<rparr>)"
    by (simp add: use_mock_def)
  show ?thesis
    using m call_openai_mock [OF m, of "\<lambda>_. Rejected (TypeError (js ''fetch failed''))" "js ''today''"]
    by (simp add: mock_short_def js_def)
qed

subsection \<open>Code fences in the remote reply\<close>

lemma remove_all_Cons_nomatch:
  "pat \<noteq> [] \<Longrightarrow> c \<noteq> hd pat \<Longrightarrow> remove_all pat (c # cs) = c # remove_all pat cs"
  by (cases pat) auto

lemma fence_simps: "fence = [96, 96, 96]" "fence \<noteq> []" "hd fence = 96" "length fence = 3"
  by (simp_all add: fence_def js_def)

text \<open>A result of removing every fence that starts with two backticks comes from an input
  that starts with two backticks.\<close>

lemma remove_fence_lead:
  assumes "remove_all fence cs = 96 # 96 # v"
  shows "take 2 cs = [96, 96]"
proof (cases cs)
  case Nil
  with assms show ?thesis by simp
next
  case (Cons x xs)
  show ?thesis
  proof (cases "take 3 cs = fence")
    case True
    then have "take 2 (take 3 cs) = take 2 fence" by simp
    then show ?thesis by (simp add: fence_simps)
  next
    case False
    with Cons have nm: "\<not> (fence \<noteq> [] \<and> take (length fence) (x # xs) = fence)"
      by (simp add: fence_simps(4))
    have r: "remove_all fence cs = x # remove_all fence xs"
      unfolding Cons by (simp only: remove_all.simps(2) if_not_P [OF nm])
    with assms have x: "x = 96" and xs: "remove_all fence xs = 96 # v" by simp_all
    have "xs \<noteq> [] \<and> hd xs = 96"
    proof (cases xs)
      case Nil
      with xs show ?thesis by simp
    next
      case (Cons y ys)
      with xs show ?thesis
        by (cases "y = 96") (simp_all add: remove_all_Cons_nomatch fence_simps)
    qed
    with Cons x show ?thesis by (cases xs) auto
  qed
qed

lemma remove_all_fence_no_fence_gen: "pat = fence \<Longrightarrow> remove_all pat s \<noteq> u @ pat @ v"
proof (induction pat s arbitrary: u rule: remove_all.induct)
  case (1 pat)
  then show ?case by (simp add: fence_simps)
next
  case (2 pat c cs)
  show ?case
  proof (cases "pat \<noteq> [] \<and> take (length pat) (c # cs) = pat")
    case True
    with "2.IH"(1) [OF True "2.prems"] show ?thesis by simp
  next
    case nomatch: False
    show ?thesis
    proof
      assume "remove_all pat (c # cs) = u @ pat @ v"
      then have r: "c # remove_all pat cs = u @ pat @ v"
        by (simp only: remove_all.simps(2) if_not_P [OF nomatch])
      show False
      proof (cases u)
        case (Cons u0 u')
        with r "2.IH"(2) [OF nomatch "2.prems", of u'] show False by simp
      next
        case Nil
        with r "2.prems" have "c = 96" "remove_all fence cs = 96 # 96 # v"
          by (simp_all add: fence_simps)
        then have "take 3 (c # cs) = fence"
          using remove_fence_lead [of cs v] by (simp add: fence_simps)
        with nomatch "2.prems" show False by (simp add: fence_simps numeral_eq_Suc)
      qed
    qed
  qed
qed

lemma remove_all_fence_no_fence: "remove_all fence s \<noteq> u @ fence @ v"
  by (rule remove_all_fence_no_fence_gen) simp

lemma clean_msg_Inr:
  assumes "clean_msg msg = Inr s"
  shows "trimmed s \<and> (\<forall>u v. s \<noteq> u @ fence @ v)"
proof -
  from assms obtain t where s: "s = js_trim (js_trim (remove_all fence (remove_all fence_json t)))"
    by (auto simp: clean_msg_def split: option.splits json.splits)
  have "\<And>u v. js_trim (remove_all fence (remove_all fence_json t)) \<noteq> u @ fence @ v"
    by (rule js_trim_infix_free) (rule remove_all_fence_no_fence)
  then have "\<And>u v. s \<noteq> u @ fence @ v"
    unfolding s by (rule js_trim_infix_free)
  with s show ?thesis by simp
qed

text \<open>C36. In remote mode every reply \<open>callOpenAI\<close> returns is trimmed and contains no
  code fence \<open>```\<close>: removing every \<open>```\<close> from left to right cannot create a new
  one, and trimming keeps that.\<close>

theorem call_openai_remote_clean:
  assumes "\<not> use_mock cfg" and "call_openai cfg f prompt = Inr s"
  shows "trimmed s \<and> (\<forall>u v. s \<noteq> u @ fence @ v)"
proof -
  from assms obtain msg where "clean_msg msg = Inr s"
    by (auto simp: call_openai_def split: fetch_result.splits if_splits sum.splits)
  then show ?thesis by (rule clean_msg_Inr)
qed

theorem call_openai_remote_clean_witness:
  "\<not> use_mock (\<lparr>use_mock_ai = None, openai_api_key = Some (js ''sk''), weather_api_key = None,
                 github_token = None, newsapi_key = None, default_city = None\<rparr>) \<and>
   call_openai (\<lparr>use_mock_ai = None, openai_api_key = Some (js ''sk''), weather_api_key = None,
                 github_token = None, newsapi_key = None, default_city = None\<rparr>) fenced_reply (js ''weather'') =
     Inr (js ''Sunny'') \<and>
   trimmed (js ''Sunny'') \<and> (\<forall>u v. js ''Sunny'' \<noteq> u @ fence @ v)"
proof -
  have m: "\<not> use_mock (\<lparr>use_mock_ai = None, openai_api_key = Some (js ''sk''), weather_api_key = None,
                 github_token = None, newsapi_key = None, default_city = None\<rparr>)"
    by (simp add: use_mock_def str_truthy_def js_def)
  have c: "call_openai (\<lparr>use_mock_ai = None, openai_api_key = Some (js ''sk''), weather_api_key = None,
                 github_token = None, newsapi_key = None, default_city = None\<rparr>) fenced_reply (js ''weather'') =
     Inr (js ''Sunny'')"
    using m by (simp add: call_openai_def fenced_reply_def resp_ok_def completion_msg_def coalesce_def
        nullish_def clean_msg_def fence_def fence_json_def js_trim_def trim_start_def trim_end_def js_lit)
  show ?thesis
    using m c call_openai_remote_clean [OF m c] by simp
qed

subsection \<open>Truncation and surrogate pairs\<close>

text \<open>C37. The mock truncation counts UTF-16 code units, so it cuts a surrogate pair in
  half: for every prompt longer than 80 units whose 77th unit is a high surrogate (the
  first half of an emoji at units 77-78), the snippet is not well-formed UTF-16, whatever
  the rest of the prompt; it ends in a lone high surrogate before the ellipsis.\<close>

theorem mock_short_splits_surrogate:
  assumes "80 < length prompt" "is_high_surrogate (prompt ! 76)"
  shows "\<not> well_formed (mock_short prompt)"
proof -
  have "take 77 prompt = take 76 prompt @ [prompt ! 76]"
    using assms(1) by (simp add: take_Suc_conv_app_nth [symmetric])
  then have "mock_short prompt = take 76 prompt @ prompt ! 76 # 46 # js ''..''"
    using assms(1) by (simp add: mock_short_def js_def)
  then show ?thesis
    using high_then_plain_not_well_formed [OF assms(2), of 46] by (simp add: is_low_surrogate_def)
qed

theorem mock_short_splits_surrogate_witness:
  "80 < length (replicate 76 97 @ [0xD83D, 0xDE00] @ replicate 10 (97::16 word)) \<and>
   is_high_surrogate ((replicate 76 97 @ [0xD83D, 0xDE00] @ replicate 10 (97::16 word)) ! 76) \<and>
   well_formed (replicate 76 97 @ [0xD83D, 0xDE00] @ replicate 10 (97::16 word)) \<and>
   \<not> well_formed (mock_short (replicate 76 97 @ [0xD83D, 0xDE00] @ replicate 10 97))"
proof -
  have h: "80 < length (replicate 76 97 @ [0xD83D, 0xDE00] @ replicate 10 (97::16 word))"
    "is_high_surrogate ((replicate 76 97 @ [0xD83D, 0xDE00] @ replicate 10 (97::16 word)) ! 76)"
    by (simp_all add: nth_append is_high_surrogate_def)
  have "well_formed (replicate 76 97 @ [0xD83D, 0xDE00] @ replicate 10 (97::16 word))"
    using well_formed_replicate_append [of 97 10 "[]"] by (simp add: well_formed_replicate_append js_lit)
  with h mock_short_splits_surrogate [OF h] show ?thesis by blast
qed

subsection \<open>The request body\<close>


end
