(* ===== verification/Providers.thy ===== *)
theory Providers
  imports Runtime
begin

text \<open>
  The data provider dispatcher of \<open>src/src/app/api/run_workflow/route.js\<close>: the
  fetchers \<open>fetchWeather\<close> (lines 51-72), \<open>fetchGithubTrending\<close> (lines 75-96) and
  \<open>fetchNews\<close> (lines 99-113), the helper \<open>capitalize\<close> (lines 115-117) and the
  dispatch on the action inside the POST handler with its \<open>catch\<close> (lines 152-166).
  Each fetcher returns the value the code returns, which is a string except on a non-2xx
  response with a truthy \<open>message\<close>, or the error it throws. The fetchers read the
  response with the JSON operations of \<open>Json\<close>, so malformed provider data gives the
  error or the string the code gives.
  Two pieces of the runtime are parameters: \<open>up\<close>, the Unicode upper-case mapping of one
  code unit that \<open>toUpperCase\<close> applies, and the clock value \<open>now\<close> (milliseconds) that
  \<open>new Date()\<close> reads. The local time zone is taken without daylight-saving changes, so
  \<open>d.setDate(d.getDate() - 7)\<close> moves the instant back by exactly seven days.
  The lemmas give each fetcher's fixed answers (no key, no data), the format of a weather
  answer and of a weather error, the headline of a news answer, the first three entries
  of a trending answer in its order, and that the GitHub search URL is always built.
\<close>

subsection \<open>Helpers\<close>

text \<open>\<open>capitalize(s)\<close>: \<open>s.charAt(0).toUpperCase() + s.slice(1)\<close>; only a string has
  \<open>charAt\<close>.\<close>

definition capitalize :: "(16 word \<Rightarrow> jsstr) \<Rightarrow> json \<Rightarrow> js_error + jsstr" where
  "capitalize up v =
     (case v of
        JStr s \<Rightarrow> Inr ((case s of [] \<Rightarrow> [] | c # _ \<Rightarrow> up c) @ drop 1 s)
      | _ \<Rightarrow> Inl (TypeError (js ''s.charAt is not a function'')))"

definition hex_upper :: "nat \<Rightarrow> 16 word" where
  "hex_upper d = of_nat (if d < 10 then 48 + d else 55 + d)"

definition pct_bytes :: "nat list \<Rightarrow> jsstr" where
  "pct_bytes bs = concat (map (\<lambda>b. [37, hex_upper (b div 16), hex_upper (b mod 16)]) bs)"

definition utf8 :: "nat \<Rightarrow> nat list" where
  "utf8 cp =
     (if cp < 0x80 then [cp]
      else if cp < 0x800 then [0xC0 + cp div 64, 0x80 + cp mod 64]
      else if cp < 0x10000 then [0xE0 + cp div 4096, 0x80 + (cp div 64) mod 64, 0x80 + cp mod 64]
      else [0xF0 + cp div 262144, 0x80 + (cp div 4096) mod 64, 0x80 + (cp div 64) mod 64, 0x80 + cp mod 64])"

definition uri_unreserved :: "16 word \<Rightarrow> bool" where
  "uri_unreserved c \<longleftrightarrow>
     (48 \<le> c \<and> c \<le> 57) \<or> (65 \<le> c \<and> c \<le> 90) \<or> (97 \<le> c \<and> c \<le> 122) \<or> c \<in> set (js ''-_.!~*'') \<or> c \<in> {39, 40, 41}"

definition uri_error :: js_error where
  "uri_error = Error (js ''URI malformed'')"

definition uri_single :: "16 word \<Rightarrow> js_error + jsstr" where
  "uri_single c =
     (if uri_unreserved c then Inr [c]
      else if is_high_surrogate c \<or> is_low_surrogate c then Inl uri_error
      else Inr (pct_bytes (utf8 (unat c))))"

definition prepend_ok :: "jsstr \<Rightarrow> js_error + jsstr \<Rightarrow> js_error + jsstr" where
  "prepend_ok s r = (case r of Inl e \<Rightarrow> Inl e | Inr t \<Rightarrow> Inr (s @ t))"

text \<open>\<open>encodeURIComponent\<close>: UTF-8 percent-encoding of every code point outside the
  unreserved set; a lone surrogate throws a URIError.\<close>

fun uri_encode :: "jsstr \<Rightarrow> js_error + jsstr" where
  "uri_encode [] = Inr []"
| "uri_encode [c] = uri_single c"
| "uri_encode (c # d # cs) =
     (if is_high_surrogate c \<and> is_low_surrogate d
      then prepend_ok (pct_bytes (utf8 (0x10000 + (unat c - 0xD800) * 1024 + (unat d - 0xDC00)))) (uri_encode cs)
      else (case uri_single c of Inl e \<Rightarrow> Inl e | Inr s \<Rightarrow> prepend_ok s (uri_encode (d # cs))))"

text \<open>\<open>d.toISOString().slice(0, 10)\<close>: \<open>YYYY-MM-DD\<close>, or the first ten units of
  the expanded form with a signed six-digit year outside 0..9999.\<close>

definition iso_date :: "int \<Rightarrow> jsstr" where
  "iso_date ms = take 10 (iso_string ms)"

definition week_ms :: int where
  "week_ms = 7 * 86400000"

subsection \<open>The fetchers\<close>

definition weather_url :: "jsstr \<Rightarrow> jsstr \<Rightarrow> jsstr" where
  "weather_url key city =
     js ''http://api.weatherapi.com/v1/current.json?key='' @ key @ js ''&q='' @ city @ js ''&aqi=no''"

definition resolve_city :: "config \<Rightarrow> jsstr option \<Rightarrow> jsstr" where
  "resolve_city cfg location =
     (case location of
        Some l \<Rightarrow> (if l \<noteq> [] \<and> js_trim l \<noteq> [] then js_trim l
                   else (if str_truthy (default_city cfg) then the (default_city cfg) else js ''Delhi,India''))
      | None \<Rightarrow> (if str_truthy (default_city cfg) then the (default_city cfg) else js ''Delhi,India''))"

definition weather_key_missing :: jsstr where
  "weather_key_missing = js ''Weather data unavailable (OPENWEATHER_API_KEY missing).''"

text \<open>\<open>res.json().catch(() => ({}))\<close>\<close>

definition json_or_empty :: "http_resp \<Rightarrow> json" where
  "json_or_empty res = (case body_json res of Inl _ \<Rightarrow> JObj [] | Inr j \<Rightarrow> j)"

definition weather_success :: "(16 word \<Rightarrow> jsstr) \<Rightarrow> jsstr \<Rightarrow> json \<Rightarrow> js_error + json" where
  "weather_success up city j =
     (let cur = get (Some j) (js ''current'');
          desc = coalesce (get (get cur (js ''condition'')) (js ''text'')) (Some (JStr (js ''Weather'')));
          name = coalesce (get (Some j) (js ''name'')) (Some (JStr city))
      in case to_number (the (coalesce (get cur (js ''temp_c'')) (Some (JNum 0 0)))) of
           Inl err \<Rightarrow> Inl err
         | Inr t \<Rightarrow>
             (case capitalize up (the desc) of
                Inl err \<Rightarrow> Inl err
              | Inr cd \<Rightarrow>
                  (case template_str name of
                     Inl err \<Rightarrow> Inl err
                   | Inr ns \<Rightarrow>
                       Inr (JStr (cd @ js '' in '' @ ns @ js '', '' @ jsnum_to_jsstr (math_round t) @ [0xB0] @ js ''C'')))))"

definition fetch_weather ::
  "config \<Rightarrow> fetcher \<Rightarrow> (16 word \<Rightarrow> jsstr) \<Rightarrow> jsstr option \<Rightarrow> js_error + json" where
  "fetch_weather cfg fetch up location =
     (let city = resolve_city cfg location in
      if \<not> str_truthy (weather_api_key cfg) then Inr (JStr weather_key_missing)
      else (case fetch (get_req (weather_url (the (weather_api_key cfg)) city) []) of
              Rejected err \<Rightarrow> Inl err
            | Resolved res \<Rightarrow>
                (if \<not> resp_ok res
                 then Inr (the (js_or (get (Some (json_or_empty res)) (js ''message''))
                                 (Some (JStr (js ''Weather fetch failed with status '' @ nat_digits (status res))))))
                 else (case body_json res of
                         Inl err \<Rightarrow> Inl err
                       | Inr j \<Rightarrow> weather_success up city j))))"

definition github_url :: "jsstr \<Rightarrow> js_error + jsstr" where
  "github_url since =
     prepend_ok (js ''https://api.github.com/search/repositories?q='')
       (case uri_encode (js ''created:>'' @ since) of
          Inl e \<Rightarrow> Inl e
        | Inr q \<Rightarrow> Inr (q @ js ''&sort=stars&order=desc&per_page=5''))"

definition github_headers :: "config \<Rightarrow> (jsstr \<times> jsstr) list" where
  "github_headers cfg =
     (if str_truthy (github_token cfg) then [(js ''Authorization'', js ''Bearer '' @ the (github_token cfg))] else [])"

text \<open>\<open>`${it.full_name} (${it.stargazers_count}\<close> U+2605 \<open>)`\<close> for one item.\<close>

definition repo_entry :: "json \<Rightarrow> js_error + jsstr" where
  "repo_entry it =
     (case get_strict (Some it) (js ''full_name'') of
        Inl e \<Rightarrow> Inl e
      | Inr n \<Rightarrow>
          (case template_str n of
             Inl e \<Rightarrow> Inl e
           | Inr ns \<Rightarrow>
               (case template_str (get (Some it) (js ''stargazers_count'')) of
                  Inl e \<Rightarrow> Inl e
                | Inr ss \<Rightarrow> Inr (ns @ js '' ('' @ ss @ [0x2605, 41]))))"

fun repo_entries :: "json list \<Rightarrow> js_error + jsstr list" where
  "repo_entries [] = Inr []"
| "repo_entries (it # its) =
     (case repo_entry it of
        Inl e \<Rightarrow> Inl e
      | Inr s \<Rightarrow> (case repo_entries its of Inl e \<Rightarrow> Inl e | Inr ss \<Rightarrow> Inr (s # ss)))"

text \<open>\<open>items.slice(0, 3).map(...).join(", ")\<close>: only an array has both \<open>slice\<close> and the
  \<open>map\<close> of its slice; a string's slice is a string.\<close>

definition top_repos :: "json \<Rightarrow> js_error + jsstr" where
  "top_repos items =
     (case items of
        JArr xs \<Rightarrow> (case repo_entries (take 3 xs) of Inl e \<Rightarrow> Inl e | Inr ss \<Rightarrow> Inr (join_with (js '', '') ss))
      | JStr s \<Rightarrow> Inl (TypeError (js ''items.slice(...).map is not a function''))
      | _ \<Rightarrow> Inl (TypeError (js ''items.slice is not a function'')))"

definition github_success :: "json \<Rightarrow> js_error + json" where
  "github_success j =
     (case get_strict (Some j) (js ''items'') of
        Inl e \<Rightarrow> Inl e
      | Inr v \<Rightarrow>
          (let items = the (js_or v (Some (JArr [])))
           in if \<not> truthy (get (Some items) (js ''length'')) then Inr (JStr (js ''No trending repos found.''))
              else (case top_repos items of Inl e \<Rightarrow> Inl e | Inr tops \<Rightarrow> Inr (JStr (js ''Trending: '' @ tops)))))"

definition fetch_github_trending :: "config \<Rightarrow> fetcher \<Rightarrow> int \<Rightarrow> js_error + json" where
  "fetch_github_trending cfg fetch now =
     (case github_url (iso_date (now - week_ms)) of
        Inl e \<Rightarrow> Inl e
      | Inr url \<Rightarrow>
          (case fetch (get_req url (github_headers cfg)) of
             Rejected err \<Rightarrow> Inl err
           | Resolved res \<Rightarrow>
               (if \<not> resp_ok res
                then Inr (JStr (js ''GitHub fetch failed: '' @ nat_digits (status res) @ js '' '' @ body_text res))
                else (case body_json res of Inl err \<Rightarrow> Inl err | Inr j \<Rightarrow> github_success j))))"

definition news_url :: "jsstr \<Rightarrow> jsstr" where
  "news_url key = js ''https://newsapi.org/v2/top-headlines?country=us&pageSize=3&apiKey='' @ key"

definition news_success :: "json \<Rightarrow> js_error + json" where
  "news_success j =
     (case get_strict (Some j) (js ''articles'') of
        Inl e \<Rightarrow> Inl e
      | Inr v \<Rightarrow>
          (let articles = js_or v (Some (JArr []))
           in if \<not> truthy (get articles (js ''length'')) then Inr (JStr (js ''No top headlines found''))
              else
                (let first = at articles 0 in
                 case get_strict first (js ''title'') of
                   Inl e \<Rightarrow> Inl e
                 | Inr t \<Rightarrow>
                     (case template_str t of
                        Inl e \<Rightarrow> Inl e
                      | Inr ts \<Rightarrow>
                          (case get_strict first (js ''source'') of
                             Inl e \<Rightarrow> Inl e
                           | Inr src \<Rightarrow>
                               (case template_str (coalesce (get src (js ''name'')) (Some (JStr (js ''source'')))) of
                                  Inl e \<Rightarrow> Inl e
                                | Inr ns \<Rightarrow> Inr (JStr (ts @ js '' '' @ [0x2014] @ js '' '' @ ns))))))))"

definition fetch_news :: "config \<Rightarrow> fetcher \<Rightarrow> js_error + json" where
  "fetch_news cfg fetch =
     (if \<not> str_truthy (newsapi_key cfg) then Inr (JStr (js ''News API key missing''))
      else (case fetch (get_req (news_url (the (newsapi_key cfg))) []) of
              Rejected err \<Rightarrow> Inl err
            | Resolved res \<Rightarrow>
                (if \<not> resp_ok res
                 then Inr (the (js_or (get (Some (json_or_empty res)) (js ''message''))
                                 (Some (JStr (js ''News fetch failed: '' @ nat_digits (status res))))))
                 else (case body_json res of Inl err \<Rightarrow> Inl err | Inr j \<Rightarrow> news_success j))))"

subsection \<open>Dispatch\<close>

definition unknown_action_msg :: "jsstr \<Rightarrow> jsstr" where
  "unknown_action_msg act =
     js ''Unknown action '' @ [34] @ act @ [34] @ js ''. Supported: weather, github, news.''"

text \<open>The \<open>try\<close> block of step 2 and its \<open>catch\<close>: the API response is the fetcher's
  value, or \<open>"API error: "\<close> and the message of what it threw.\<close>

definition fetch_provider_data ::
  "config \<Rightarrow> fetcher \<Rightarrow> (16 word \<Rightarrow> jsstr) \<Rightarrow> int \<Rightarrow> jsstr \<Rightarrow> jsstr option \<Rightarrow> json" where
  "fetch_provider_data cfg fetch up now act location =
     (case (if act = js ''weather'' then fetch_weather cfg fetch up location
            else if act = js ''github'' then fetch_github_trending cfg fetch now
            else if act = js ''news'' then fetch_news cfg fetch
            else Inr (JStr (unknown_action_msg act))) of
        Inl err \<Rightarrow> JStr (js ''API error: '' @ err_message err)
      | Inr v \<Rightarrow> v)"

text \<open>Provider answers for the examples: a 2xx answer with no articles, and a 2xx answer
  of the repository search with no items.\<close>

definition empty_news :: http_resp where
  "empty_news = \<lparr>status = 200, body_text = [],
     body_json = Inr (JObj [(js ''status'', JStr (js ''ok'')), (js ''articles'', JArr [])])\<rparr>"

text \<open>A news answer whose first article has a title and a source name.\<close>

definition headline_news :: http_resp where
  "headline_news = \<lparr>status = 200, body_text = [],
     body_json = Inr (JObj [(js ''articles'', JArr [JObj [(js ''title'', JStr (js ''Rain'')), (js ''source'', JObj [(js ''name'', JStr (js ''Reuters''))])]])])\<rparr>"

definition empty_github :: http_resp where
  "empty_github = \<lparr>status = 200, body_text = [],
     body_json = Inr (JObj [(js ''total_count'', JNum 0 0), (js ''items'', JArr [])])\<rparr>"

text \<open>\<open>toUpperCase\<close> on ASCII letters, a weather answer in weatherapi.com's format, and
  weatherapi.com's error answer for an unknown location, for the examples.\<close>

definition ascii_upcase :: "16 word \<Rightarrow> jsstr" where
  "ascii_upcase c = (if 97 \<le> c \<and> c \<le> 122 then [c - 32] else [c])"

definition paris_weather :: http_resp where
  "paris_weather = \<lparr>status = 200, body_text = [],
     body_json = Inr (JObj [(js ''location'', JObj [(js ''name'', JStr (js ''Paris''))]),
       (js ''current'', JObj [(js ''temp_c'', JNum 234 (-1)),
          (js ''condition'', JObj [(js ''text'', JStr (js ''partly cloudy''))])])])\<rparr>"

definition weather_config :: config where
  "weather_config = \<lparr>use_mock_ai = None, openai_api_key = None, weather_api_key = Some (js ''k''),
     github_token = None, newsapi_key = None, default_city = None\<rparr>"

definition weatherapi_error :: http_resp where
  "weatherapi_error = \<lparr>status = 400, body_text = [],
     body_json = Inr (JObj [(js ''error'', JObj [(js ''code'', JNum 1006 0),
       (js ''message'', JStr (js ''No matching location found.''))])])\<rparr>"

text \<open>A search item with a name and a star count, the entry the code writes for it, and
  an answer with four items.\<close>

definition repo_item :: "jsstr \<times> nat \<Rightarrow> json" where
  "repo_item r = JObj [(js ''full_name'', JStr (fst r)), (js ''stargazers_count'', JNum (int (snd r)) 0)]"

definition repo_text :: "jsstr \<times> nat \<Rightarrow> jsstr" where
  "repo_text r = fst r @ js '' ('' @ nat_digits (snd r) @ [0x2605, 41]"

definition trending_repos :: "(jsstr \<times> nat) list" where
  "trending_repos = [(js ''a/x'', 120), (js ''b/y'', 95), (js ''c/z'', 7), (js ''d/w'', 1)]"

definition trending_answer :: http_resp where
  "trending_answer = \<lparr>status = 200, body_text = [],
     body_json = Inr (JObj [(js ''items'', JArr (map repo_item trending_repos))])\<rparr>"

subsection \<open>The fetchers' fixed answers\<close>

text \<open>C27. Without a weather key \<open>fetchWeather\<close> answers the fixed unavailable
  message, whatever the location and without using the network.\<close>

theorem fetch_weather_no_key:
  assumes "\<not> str_truthy (weather_api_key cfg)"
  shows "fetch_weather cfg f up location = Inr (JStr weather_key_missing)"
  using assms by (simp add: fetch_weather_def Let_def)

theorem fetch_weather_no_key_witness:
  "\<not> str_truthy (weather_api_key \<lparr>use_mock_ai = None, openai_api_key = None, weather_api_key = Some [],
      github_token = None, newsapi_key = None, default_city = None\<rparr>) \<and>
   fetch_weather \<lparr>use_mock_ai = None, openai_api_key = None, weather_api_key = Some [],
      github_token = None, newsapi_key = None, default_city = None\<rparr>
     (\<lambda>_. Rejected (TypeError (js ''fetch failed''))) (\<lambda>c. [c]) (Some (js ''  Paris  '')) =
   Inr (JStr weather_key_missing)"
proof -
  have h: "\<not> str_truthy (weather_api_key \<lparr>use_mock_ai = None, openai_api_key = None, weather_api_key = Some [],
      github_token = None, newsapi_key = None, default_city = None\<rparr>)"
    by (simp add: str_truthy_def)
  show ?thesis using h fetch_weather_no_key [OF h] by blast
qed

lemma empty_list_answer:
  assumes "v \<in> {None, Some JNull, Some (JArr [])}"
  shows "\<not> truthy (get (js_or v (Some (JArr []))) (js ''length''))"
  using assms by (auto simp: js_or_def)

text \<open>C28. When the news provider answers 2xx with no articles (an empty array, \<open>null\<close>
  or no \<open>articles\<close> key), \<open>fetchNews\<close> answers exactly
  \<open>"No top headlines found"\<close>.\<close>

theorem fetch_news_no_articles:
  assumes "newsapi_key cfg = Some k" "k \<noteq> []"
    and "f (get_req (news_url k) []) = Resolved res" "resp_ok res" "body_json res = Inr (JObj kvs)"
    and "map_of (rev kvs) (js ''articles'') \<in> {None, Some JNull, Some (JArr [])}"
  shows "fetch_news cfg f = Inr (JStr (js ''No top headlines found''))"
proof -
  have "news_success (JObj kvs) = Inr (JStr (js ''No top headlines found''))"
    using empty_list_answer [OF assms(6)] by (simp add: news_success_def get_strict_def Let_def)
  with assms(1-5) show ?thesis
    by (simp add: fetch_news_def str_truthy_def)
qed

theorem fetch_news_no_articles_witness:
  "newsapi_key \<lparr>use_mock_ai = None, openai_api_key = None, weather_api_key = None,
      github_token = None, newsapi_key = Some (js ''k''), default_city = None\<rparr> = Some (js ''k'') \<and>
   js ''k'' \<noteq> [] \<and>
   (\<lambda>_. Resolved empty_news) (get_req (news_url (js ''k'')) []) = Resolved empty_news \<and>
   resp_ok empty_news \<and>
   body_json empty_news = Inr (JObj [(js ''status'', JStr (js ''ok'')), (js ''articles'', JArr [])]) \<and>
   map_of (rev [(js ''status'', JStr (js ''ok'')), (js ''articles'', JArr [])]) (js ''articles'')
     \<in> {None, Some JNull, Some (JArr [])} \<and>
   fetch_news \<lparr>use_mock_ai = None, openai_api_key = None, weather_api_key = None,
      github_token = None, newsapi_key = Some (js ''k''), default_city = None\<rparr> (\<lambda>_. Resolved empty_news) =
   Inr (JStr (js ''No top headlines found''))"
proof -
  have r: "resp_ok empty_news" by (simp add: empty_news_def resp_ok_def)
  have a: "map_of (rev [(js ''status'', JStr (js ''ok'')), (js ''articles'', JArr [])]) (js ''articles'')
     \<in> {None, Some JNull, Some (JArr [])}" by (simp add: js_def)
  have k: "js ''k'' \<noteq> []" by (simp add: js_def)
  show ?thesis
    using fetch_news_no_articles [OF _ k _ r _ a, of "\<lparr>use_mock_ai = None, openai_api_key = None,
        weather_api_key = None, github_token = None, newsapi_key = Some (js ''k''), default_city = None\<rparr>"
        "\<lambda>_. Resolved empty_news"] r a k
    by (simp add: empty_news_def)
qed

text \<open>The search URL is always built: the date is ASCII, so \<open>encodeURIComponent\<close>
  never meets a lone surrogate.\<close>

lemma uri_encode_ascii: "list_all (\<lambda>c. c < 128) s \<Longrightarrow> \<exists>r. uri_encode s = Inr r"
proof (induction s rule: uri_encode.induct)
  case 1
  then show ?case by simp
next
  case (2 c)
  then show ?case by (auto simp: uri_single_def dest: ascii_not_surrogate)
next
  case (3 c d cs)
  then have nh: "\<not> is_high_surrogate c" "\<not> is_low_surrogate c"
    by (simp_all add: ascii_not_surrogate)
  then obtain s0 where us: "uri_single c = Inr s0"
    by (cases "uri_unreserved c") (simp_all add: uri_single_def)
  obtain r where "uri_encode (d # cs) = Inr r" using "3.IH"(2) "3.prems" nh us by auto
  with nh us show ?case by (simp add: prepend_ok_def)
qed

lemma iso_date_ascii: "list_all (\<lambda>c. c < 128) (iso_date t)"
  using iso_string_ascii [of t] by (simp add: iso_date_def take_ascii)

lemma github_url_ok: "\<exists>url. github_url (iso_date t) = Inr url"
proof -
  have "list_all (\<lambda>c. c < 128) (js ''created:>'' @ iso_date t)"
    using iso_date_ascii [of t] by (simp add: js_def)
  then obtain q where "uri_encode (js ''created:>'' @ iso_date t) = Inr q"
    using uri_encode_ascii by blast
  then show ?thesis by (simp add: github_url_def prepend_ok_def)
qed

lemma js_or_empty_list: "v \<in> {None, Some JNull, Some (JArr [])} \<Longrightarrow> js_or v (Some (JArr [])) = Some (JArr [])"
  by (auto simp: js_or_def)

text \<open>C29. On a 2xx news answer whose first article has a string \<open>title\<close> and a
  \<open>source\<close> object, \<open>fetchNews\<close> answers the title, an em dash between spaces, and the
  source's \<open>name\<close>; a missing or \<open>null\<close> name gives \<open>"source"\<close> (the \<open>??\<close>
  default), while an empty name is kept as it is.\<close>

theorem fetch_news_headline:
  assumes "newsapi_key cfg = Some k" "k \<noteq> []"
    and "f (get_req (news_url k) []) = Resolved res" "resp_ok res" "body_json res = Inr (JObj kvs)"
    and "map_of (rev kvs) (js ''articles'') = Some (JArr (JObj art # rest))"
    and "map_of (rev art) (js ''title'') = Some (JStr t)"
    and "map_of (rev art) (js ''source'') = Some (JObj src)"
    and "map_of (rev src) (js ''name'') \<in> {Some (JStr n), None, Some JNull}"
  shows "fetch_news cfg f =
    Inr (JStr (t @ js '' '' @ [0x2014] @ js '' '' @
               (if map_of (rev src) (js ''name'') = Some (JStr n) then n else js ''source'')))"
  using assms
  by (auto simp: fetch_news_def news_success_def str_truthy_def get_strict_def js_or_def coalesce_def nullish_def
      template_str_def Let_def js_def)

theorem fetch_news_headline_witness:
  "newsapi_key (weather_config\<lparr>newsapi_key := Some (js ''k'')\<rparr>) = Some (js ''k'') \<and> js ''k'' \<noteq> [] \<and>
   (\<lambda>_. Resolved headline_news) (get_req (news_url (js ''k'')) []) = Resolved headline_news \<and>
   resp_ok headline_news \<and> body_json headline_news = Inr (JObj [(js ''articles'', JArr [JObj [(js ''title'', JStr (js ''Rain'')), (js ''source'', JObj [(js ''name'', JStr (js ''Reuters''))])]])]) \<and>
   map_of (rev [(js ''articles'', JArr [JObj [(js ''title'', JStr (js ''Rain'')), (js ''source'', JObj [(js ''name'', JStr (js ''Reuters''))])]])]) (js ''articles'') = Some (JArr [JObj [(js ''title'', JStr (js ''Rain'')), (js ''source'', JObj [(js ''name'', JStr (js ''Reuters''))])]]) \<and>
   map_of (rev [(js ''title'', JStr (js ''Rain'')), (js ''source'', JObj [(js ''name'', JStr (js ''Reuters''))])]) (js ''title'') = Some (JStr (js ''Rain'')) \<and>
   map_of (rev [(js ''title'', JStr (js ''Rain'')), (js ''source'', JObj [(js ''name'', JStr (js ''Reuters''))])]) (js ''source'') = Some (JObj [(js ''name'', JStr (js ''Reuters''))]) \<and>
   map_of (rev [(js ''name'', JStr (js ''Reuters''))]) (js ''name'') \<in> {Some (JStr (js ''Reuters'')), None, Some JNull} \<and>
   fetch_news (weather_config\<lparr>newsapi_key := Some (js ''k'')\<rparr>) (\<lambda>_. Resolved headline_news) = Inr (JStr (js ''Rain '' @ [0x2014] @ js '' Reuters''))"
proof -
  have h: "newsapi_key (weather_config\<lparr>newsapi_key := Some (js ''k'')\<rparr>) = Some (js ''k'')" "js ''k'' \<noteq> []"
    "(\<lambda>_. Resolved headline_news) (get_req (news_url (js ''k'')) []) = Resolved headline_news"
    "resp_ok headline_news" "body_json headline_news = Inr (JObj [(js ''articles'', JArr [JObj [(js ''title'', JStr (js ''Rain'')), (js ''source'', JObj [(js ''name'', JStr (js ''Reuters''))])]])])"
    "map_of (rev [(js ''articles'', JArr [JObj [(js ''title'', JStr (js ''Rain'')), (js ''source'', JObj [(js ''name'', JStr (js ''Reuters''))])]])]) (js ''articles'') = Some (JArr [JObj [(js ''title'', JStr (js ''Rain'')), (js ''source'', JObj [(js ''name'', JStr (js ''Reuters''))])]])"
    "map_of (rev [(js ''title'', JStr (js ''Rain'')), (js ''source'', JObj [(js ''name'', JStr (js ''Reuters''))])]) (js ''title'') = Some (JStr (js ''Rain''))"
    "map_of (rev [(js ''title'', JStr (js ''Rain'')), (js ''source'', JObj [(js ''name'', JStr (js ''Reuters''))])]) (js ''source'') = Some (JObj [(js ''name'', JStr (js ''Reuters''))])"
    "map_of (rev [(js ''name'', JStr (js ''Reuters''))]) (js ''name'') \<in> {Some (JStr (js ''Reuters'')), None, Some JNull}"
    by (simp_all add: headline_news_def resp_ok_def js_def)
  have "fetch_news (weather_config\<lparr>newsapi_key := Some (js ''k'')\<rparr>) (\<lambda>_. Resolved headline_news) = Inr (JStr (js ''Rain '' @ [0x2014] @ js '' Reuters''))"
    using fetch_news_headline [OF h] by (simp add: js_def)
  with h show ?thesis by blast
qed

text \<open>C30. When the repository search answers 2xx with no items (an empty array, \<open>null\<close>
  or no \<open>items\<close> key), \<open>fetchGitHubTrending\<close> answers exactly
  \<open>"No trending repos found."\<close>, whatever the clock reads.\<close>

theorem fetch_github_no_items:
  assumes "\<And>u. f (get_req u (github_headers cfg)) = Resolved res"
    and "resp_ok res" "body_json res = Inr (JObj kvs)"
    and "map_of (rev kvs) (js ''items'') \<in> {None, Some JNull, Some (JArr [])}"
  shows "fetch_github_trending cfg f now = Inr (JStr (js ''No trending repos found.''))"
proof -
  obtain url where u: "github_url (iso_date (now - week_ms)) = Inr url" using github_url_ok by blast
  have "github_success (JObj kvs) = Inr (JStr (js ''No trending repos found.''))"
    using js_or_empty_list [OF assms(4)] by (simp add: github_success_def get_strict_def Let_def)
  with u assms(1-3) show ?thesis by (simp add: fetch_github_trending_def)
qed

theorem fetch_github_no_items_witness:
  "(\<forall>u. (\<lambda>_. Resolved empty_github) (get_req u (github_headers \<lparr>use_mock_ai = None, openai_api_key = None,
      weather_api_key = None, github_token = None, newsapi_key = None, default_city = None\<rparr>)) = Resolved empty_github) \<and>
   resp_ok empty_github \<and>
   body_json empty_github = Inr (JObj [(js ''total_count'', JNum 0 0), (js ''items'', JArr [])]) \<and>
   map_of (rev [(js ''total_count'', JNum 0 0), (js ''items'', JArr [])]) (js ''items'')
     \<in> {None, Some JNull, Some (JArr [])} \<and>
   fetch_github_trending \<lparr>use_mock_ai = None, openai_api_key = None, weather_api_key = None,
      github_token = None, newsapi_key = None, default_city = None\<rparr> (\<lambda>_. Resolved empty_github) 1700000000000 =
   Inr (JStr (js ''No trending repos found.''))"
proof -
  have r: "resp_ok empty_github" by (simp add: empty_github_def resp_ok_def)
  have a: "map_of (rev [(js ''total_count'', JNum 0 0), (js ''items'', JArr [])]) (js ''items'')
     \<in> {None, Some JNull, Some (JArr [])}" by (simp add: js_def)
  show ?thesis
    using fetch_github_no_items [OF _ r _ a, of "\<lambda>_. Resolved empty_github"
        "\<lparr>use_mock_ai = None, openai_api_key = None, weather_api_key = None, github_token = None,
           newsapi_key = None, default_city = None\<rparr>" 1700000000000] r a
    by (simp add: empty_github_def)
qed

subsection \<open>Dispatch\<close>

lemma unknown_action_msg_trimmed: "trimmed (unknown_action_msg a)"
  by (simp add: unknown_action_msg_def trimmed_def js_lit)

lemma fetch_provider_unknown:
  "a \<notin> {js ''weather'', js ''github'', js ''news''} \<Longrightarrow>
   fetch_provider_data cfg f up now a loc = JStr (unknown_action_msg a)"
  by (simp add: fetch_provider_data_def)


subsection \<open>Weather answers\<close>

text \<open>C31. With a key and a 2xx answer in weatherapi.com's shape (a \<open>current\<close> object with
  \<open>temp_c\<close> and \<open>condition.text\<close>, and no top-level \<open>name\<close>), \<open>fetchWeather\<close>
  answers the capitalized condition, the city of the query (not the provider's
  \<open>location.name\<close>) and the temperature rounded by \<open>Math.round\<close> and printed as a
  plain integer, followed by the degree sign and \<open>C\<close>.\<close>

theorem fetch_weather_success:
  assumes "weather_api_key cfg = Some k" "k \<noteq> []"
    and "f (get_req (weather_url k (resolve_city cfg loc)) []) = Resolved res" "resp_ok res"
    and "body_json res = Inr (JObj kvs)" "map_of (rev kvs) (js ''name'') = None"
    and "map_of (rev kvs) (js ''current'') = Some (JObj cur)"
    and "map_of (rev cur) (js ''temp_c'') = Some (JNum m e)"
    and "map_of (rev cur) (js ''condition'') = Some (JObj cnd)"
    and "map_of (rev cnd) (js ''text'') = Some (JStr (c # cs))"
    and "\<bar>round_half_up m e\<bar> < 10 ^ 21"
  shows "fetch_weather cfg f up loc =
    Inr (JStr (up c @ cs @ js '' in '' @ resolve_city cfg loc @ js '', '' @
               int_to_jsstr (round_half_up m e) @ [0xB0] @ js ''C''))"
  using assms
  by (simp add: fetch_weather_def weather_success_def coalesce_def nullish_def capitalize_def
      template_str_def str_truthy_def number_to_jsstr_int Let_def)





theorem fetch_weather_success_witness:
  "weather_api_key weather_config = Some (js ''k'') \<and> js ''k'' \<noteq> [] \<and>
   (\<lambda>_. Resolved paris_weather) (get_req (weather_url (js ''k'') (resolve_city weather_config (Some (js ''Paris'')))) []) =
     Resolved paris_weather \<and>
   resp_ok paris_weather \<and>
   body_json paris_weather = Inr (JObj [(js ''location'', JObj [(js ''name'', JStr (js ''Paris''))]),
       (js ''current'', JObj [(js ''temp_c'', JNum 234 (-1)),
          (js ''condition'', JObj [(js ''text'', JStr (js ''partly cloudy''))])])]) \<and>
   map_of (rev [(js ''location'', JObj [(js ''name'', JStr (js ''Paris''))]),
       (js ''current'', JObj [(js ''temp_c'', JNum 234 (-1)),
          (js ''condition'', JObj [(js ''text'', JStr (js ''partly cloudy''))])])]) (js ''name'') = None \<and>
   map_of (rev [(js ''location'', JObj [(js ''name'', JStr (js ''Paris''))]),
       (js ''current'', JObj [(js ''temp_c'', JNum 234 (-1)),
          (js ''condition'', JObj [(js ''text'', JStr (js ''partly cloudy''))])])]) (js ''current'') =
     Some (JObj [(js ''temp_c'', JNum 234 (-1)), (js ''condition'', JObj [(js ''text'', JStr (js ''partly cloudy''))])]) \<and>
   map_of (rev [(js ''temp_c'', JNum 234 (-1)), (js ''condition'', JObj [(js ''text'', JStr (js ''partly cloudy''))])])
     (js ''temp_c'') = Some (JNum 234 (-1)) \<and>
   map_of (rev [(js ''temp_c'', JNum 234 (-1)), (js ''condition'', JObj [(js ''text'', JStr (js ''partly cloudy''))])])
     (js ''condition'') = Some (JObj [(js ''text'', JStr (js ''partly cloudy''))]) \<and>
   map_of (rev [(js ''text'', JStr (js ''partly cloudy''))]) (js ''text'') = Some (JStr (112 # js ''artly cloudy'')) \<and>
   \<bar>round_half_up 234 (-1)\<bar> < 10 ^ 21 \<and>
   fetch_weather weather_config (\<lambda>_. Resolved paris_weather) ascii_upcase (Some (js ''Paris'')) =
     Inr (JStr (js ''Partly cloudy in Paris, 23'' @ [0xB0] @ js ''C''))"
proof -
  have h: "weather_api_key weather_config = Some (js ''k'')" "js ''k'' \<noteq> []"
    "resp_ok paris_weather"
    "body_json paris_weather = Inr (JObj [(js ''location'', JObj [(js ''name'', JStr (js ''Paris''))]),
       (js ''current'', JObj [(js ''temp_c'', JNum 234 (-1)),
          (js ''condition'', JObj [(js ''text'', JStr (js ''partly cloudy''))])])])"
    "map_of (rev [(js ''location'', JObj [(js ''name'', JStr (js ''Paris''))]),
       (js ''current'', JObj [(js ''temp_c'', JNum 234 (-1)),
          (js ''condition'', JObj [(js ''text'', JStr (js ''partly cloudy''))])])]) (js ''name'') = None"
    "map_of (rev [(js ''location'', JObj [(js ''name'', JStr (js ''Paris''))]),
       (js ''current'', JObj [(js ''temp_c'', JNum 234 (-1)),
          (js ''condition'', JObj [(js ''text'', JStr (js ''partly cloudy''))])])]) (js ''current'') =
     Some (JObj [(js ''temp_c'', JNum 234 (-1)), (js ''condition'', JObj [(js ''text'', JStr (js ''partly cloudy''))])])"
    "map_of (rev [(js ''temp_c'', JNum 234 (-1)), (js ''condition'', JObj [(js ''text'', JStr (js ''partly cloudy''))])])
     (js ''temp_c'') = Some (JNum 234 (-1))"
    "map_of (rev [(js ''temp_c'', JNum 234 (-1)), (js ''condition'', JObj [(js ''text'', JStr (js ''partly cloudy''))])])
     (js ''condition'') = Some (JObj [(js ''text'', JStr (js ''partly cloudy''))])"
    "map_of (rev [(js ''text'', JStr (js ''partly cloudy''))]) (js ''text'') = Some (JStr (112 # js ''artly cloudy''))"
    "\<bar>round_half_up 234 (-1)\<bar> < 10 ^ 21"
    by (simp_all add: weather_config_def paris_weather_def resp_ok_def round_half_up_def js_def)
  have f: "(\<lambda>_. Resolved paris_weather) (get_req (weather_url (js ''k'') (resolve_city weather_config (Some (js ''Paris'')))) []) =
     Resolved paris_weather" by simp
  have "fetch_weather weather_config (\<lambda>_. Resolved paris_weather) ascii_upcase (Some (js ''Paris'')) =
     Inr (JStr (js ''Partly cloudy in Paris, 23'' @ [0xB0] @ js ''C''))"
    using fetch_weather_success [OF h(1,2) f h(3-10)]
    by (simp add: ascii_upcase_def resolve_city_def round_half_up_def int_to_jsstr_def nat_digits.simps
        js_trim_def trim_start_def trim_end_def js_lit)
  with h f show ?thesis by blast
qed

text \<open>C33. On a non-2xx answer whose body has no truthy top-level \<open>message\<close> (which is
  weatherapi.com's error format, \<open>{"error": {"code", "message"}}\<close>), \<open>fetchWeather\<close>
  answers \<open>"Weather fetch failed with status <status>"\<close>: the provider's explanation is
  dropped.\<close>

theorem fetch_weather_error_status:
  assumes "weather_api_key cfg = Some k" "k \<noteq> []"
    and "f (get_req (weather_url k (resolve_city cfg loc)) []) = Resolved res" "\<not> resp_ok res"
    and "\<not> truthy (get (Some (json_or_empty res)) (js ''message''))"
  shows "fetch_weather cfg f up loc = Inr (JStr (js ''Weather fetch failed with status '' @ nat_digits (status res)))"
  using assms by (simp add: fetch_weather_def js_or_def str_truthy_def Let_def)

theorem fetch_weather_error_status_witness:
  "weather_api_key weather_config = Some (js ''k'') \<and> js ''k'' \<noteq> [] \<and>
   (\<lambda>_. Resolved weatherapi_error) (get_req (weather_url (js ''k'') (resolve_city weather_config (Some (js ''Nowhere'')))) []) =
     Resolved weatherapi_error \<and>
   \<not> resp_ok weatherapi_error \<and>
   \<not> truthy (get (Some (json_or_empty weatherapi_error)) (js ''message'')) \<and>
   fetch_weather weather_config (\<lambda>_. Resolved weatherapi_error) ascii_upcase (Some (js ''Nowhere'')) =
     Inr (JStr (js ''Weather fetch failed with status 400''))"
proof -
  have h: "weather_api_key weather_config = Some (js ''k'')" "js ''k'' \<noteq> []"
    "\<not> resp_ok weatherapi_error" "\<not> truthy (get (Some (json_or_empty weatherapi_error)) (js ''message''))"
    by (simp_all add: weather_config_def weatherapi_error_def resp_ok_def json_or_empty_def js_def)
  have f: "(\<lambda>_. Resolved weatherapi_error) (get_req (weather_url (js ''k'') (resolve_city weather_config (Some (js ''Nowhere'')))) []) =
     Resolved weatherapi_error" by simp
  have "nat_digits (status weatherapi_error) = js ''400''"
    by (simp add: weatherapi_error_def nat_digits.simps js_def)
  then show ?thesis
    using fetch_weather_error_status [OF h(1,2) f h(3,4)] h f by (simp add: js_lit_append [symmetric])
qed


subsection \<open>Trending answers\<close>

lemma repo_entries_items:
  "list_all (\<lambda>r. snd r < 10 ^ 21) rs \<Longrightarrow> repo_entries (map repo_item rs) = Inr (map repo_text rs)"
proof (induction rs)
  case Nil
  then show ?case by simp
next
  case (Cons r rs)
  have "number_to_jsstr (int (snd r)) 0 = nat_digits (snd r)"
    using Cons.prems number_to_jsstr_int [of "int (snd r)"] by (simp add: int_to_jsstr_def)
  with Cons show ?case
    by (simp add: repo_entry_def repo_item_def repo_text_def get_strict_def template_str_def js_def)
qed

text \<open>C32. When the repository search answers 2xx with items carrying a name and a star
  count, \<open>fetchGithubTrending\<close> answers \<open>"Trending: "\<close> and the first three items as
  \<open>name (stars\<close>U+2605\<open>)\<close> joined by \<open>", "\<close>, in the order of the answer.\<close>

theorem fetch_github_top3:
  assumes "\<And>u. f (get_req u (github_headers cfg)) = Resolved res"
    and "resp_ok res" "body_json res = Inr (JObj kvs)"
    and "map_of (rev kvs) (js ''items'') = Some (JArr (map repo_item rs))" "rs \<noteq> []"
    and "list_all (\<lambda>r. snd r < 10 ^ 21) rs"
  shows "fetch_github_trending cfg f now =
    Inr (JStr (js ''Trending: '' @ join_with (js '', '') (map repo_text (take 3 rs))))"
proof -
  obtain url where u: "github_url (iso_date (now - week_ms)) = Inr url" using github_url_ok by blast
  have t: "list_all (\<lambda>r. snd r < 10 ^ 21) (take 3 rs)"
    using assms(6) by (auto simp: list_all_iff dest: in_set_takeD)
  have "github_success (JObj kvs) = Inr (JStr (js ''Trending: '' @ join_with (js '', '') (map repo_text (take 3 rs))))"
    using assms(4,5) repo_entries_items [OF t]
    by (simp add: github_success_def get_strict_def js_or_def top_repos_def take_map Let_def)
  with u assms(1-3) show ?thesis by (simp add: fetch_github_trending_def)
qed


theorem fetch_github_top3_witness:
  "(\<forall>u. (\<lambda>_. Resolved trending_answer) (get_req u (github_headers weather_config)) = Resolved trending_answer) \<and>
   resp_ok trending_answer \<and>
   body_json trending_answer = Inr (JObj [(js ''items'', JArr (map repo_item trending_repos))]) \<and>
   map_of (rev [(js ''items'', JArr (map repo_item trending_repos))]) (js ''items'') =
     Some (JArr (map repo_item trending_repos)) \<and>
   trending_repos \<noteq> [] \<and> list_all (\<lambda>r. snd r < 10 ^ 21) trending_repos \<and>
   fetch_github_trending weather_config (\<lambda>_. Resolved trending_answer) 1700000000000 =
     Inr (JStr (js ''Trending: a/x (120'' @ [0x2605] @ js ''), b/y (95'' @ [0x2605] @ js ''), c/z (7'' @ [0x2605, 41]))"
proof -
  have h: "resp_ok trending_answer" "body_json trending_answer = Inr (JObj [(js ''items'', JArr (map repo_item trending_repos))])"
    "map_of (rev [(js ''items'', JArr (map repo_item trending_repos))]) (js ''items'') = Some (JArr (map repo_item trending_repos))"
    "trending_repos \<noteq> []" "list_all (\<lambda>r. snd r < 10 ^ 21) trending_repos"
    by (simp_all add: trending_answer_def resp_ok_def trending_repos_def js_def)
  have f: "\<And>u. (\<lambda>_. Resolved trending_answer) (get_req u (github_headers weather_config)) = Resolved trending_answer"
    by simp
  have "fetch_github_trending weather_config (\<lambda>_. Resolved trending_answer) 1700000000000 =
     Inr (JStr (js ''Trending: a/x (120'' @ [0x2605] @ js ''), b/y (95'' @ [0x2605] @ js ''), c/z (7'' @ [0x2605, 41]))"
    using fetch_github_top3 [OF f h] by (simp add: trending_repos_def repo_text_def nat_digits.simps js_def)
  with h show ?thesis by simp
qed

end
