(* ===== verification/Store.thy ===== *)
theory Store
  imports JS_Base "HOL-Library.Multiset"
begin

text \<open>
  The persisted run entity and the document store the handlers use. The Mongoose schema
  of \<open>src/src/models/WorkFlowRun.js\<close> becomes the record \<open>workflow_run\<close>; \<open>_id\<close> is a
  number drawn from a counter of the store (ObjectIds are unique, which is all the code
  relies on) and \<open>created_at\<close> a time in milliseconds. The store keeps the documents in
  insertion order. \<open>create_run\<close> is \<open>WorkflowRun.create\<close> as the POST handler calls it,
  \<open>find_by_id_and_update\<close> is \<open>WorkflowRun.findByIdAndUpdate\<close> (returning the updated
  document, as \<open>{new: true}\<close> asks), and \<open>history\<close> is the query of the GET handler in
  \<open>src/src/app/api/history/route.js\<close>: all runs, by \<open>created_at\<close> descending, the
  first ten. MongoDB leaves the order of equal keys open; the model keeps insertion order
  for them (a stable sort). The version key \<open>__v\<close> is not part of the record, so
  \<open>.select("-__v")\<close> has nothing to remove.
  The lemmas give the store invariant (ids distinct and below the counter) and its
  preservation, the frame of each operation, a refinement of the store by a finite map
  from ids to runs, and the bounds and order of the history query.
\<close>

record workflow_run =
  run_id :: nat
  prompt :: jsstr
  action :: jsstr
  ai_response :: jsstr
  api_response :: jsstr
  final_result :: jsstr
  created_at :: int

record store =
  runs :: "workflow_run list"
  next_id :: nat

definition empty_store :: store where
  "empty_store = \<lparr>runs = [], next_id = 0\<rparr>"

text \<open>The document \<open>WorkflowRun.create\<close> stores: the response fields empty.\<close>

definition new_run :: "nat \<Rightarrow> jsstr \<Rightarrow> jsstr \<Rightarrow> int \<Rightarrow> workflow_run" where
  "new_run i p a t =
     \<lparr>run_id = i, prompt = p, action = a, ai_response = [], api_response = [], final_result = [],
      created_at = t\<rparr>"

definition create_run :: "store \<Rightarrow> jsstr \<Rightarrow> jsstr \<Rightarrow> int \<Rightarrow> store \<times> workflow_run" where
  "create_run st p a t =
     (let r = new_run (next_id st) p a t
      in (st\<lparr>runs := runs st @ [r], next_id := Suc (next_id st)\<rparr>, r))"

text \<open>The update document of the finalize step: the three response fields.\<close>

definition set_results :: "jsstr \<Rightarrow> jsstr \<Rightarrow> jsstr \<Rightarrow> workflow_run \<Rightarrow> workflow_run" where
  "set_results ai api fin r = r\<lparr>ai_response := ai, api_response := api, final_result := fin\<rparr>"

definition find_by_id :: "store \<Rightarrow> nat \<Rightarrow> workflow_run option" where
  "find_by_id st i = find (\<lambda>r. run_id r = i) (runs st)"

definition find_by_id_and_update ::
  "nat \<Rightarrow> (workflow_run \<Rightarrow> workflow_run) \<Rightarrow> store \<Rightarrow> store \<times> workflow_run option" where
  "find_by_id_and_update i f st =
     (case find_by_id st i of
        None \<Rightarrow> (st, None)
      | Some r \<Rightarrow> (st\<lparr>runs := map (\<lambda>x. if run_id x = i then f x else x) (runs st)\<rparr>, Some (f r)))"

definition history :: "store \<Rightarrow> workflow_run list" where
  "history st = take 10 (sort_key (\<lambda>r. - created_at r) (runs st))"

text \<open>The order of the history query: most recent first, ties in insertion order.\<close>

abbreviation recent_first :: "workflow_run list \<Rightarrow> workflow_run list" where
  "recent_first xs \<equiv> sort_key (\<lambda>r. - created_at r) xs"

text \<open>The \<open>required: true\<close> validators of \<open>prompt\<close> and \<open>action\<close>: Mongoose rejects a
  missing or empty string.\<close>

definition run_valid :: "workflow_run \<Rightarrow> bool" where
  "run_valid r \<longleftrightarrow> prompt r \<noteq> [] \<and> action r \<noteq> []"

subsection \<open>Invariant\<close>

definition store_inv :: "store \<Rightarrow> bool" where
  "store_inv st \<longleftrightarrow> distinct (map run_id (runs st)) \<and> list_all (\<lambda>r. run_id r < next_id st) (runs st)"

text \<open>The store as an abstract map from ids to runs.\<close>

definition store_map :: "store \<Rightarrow> nat \<rightharpoonup> workflow_run" where
  "store_map st = map_of (map (\<lambda>r. (run_id r, r)) (runs st))"

subsection \<open>Creating and updating\<close>

lemma store_inv_empty: "store_inv empty_store"
  by (simp add: store_inv_def empty_store_def)

lemma create_run_result:
  "create_run st p a t =
     (st\<lparr>runs := runs st @ [new_run (next_id st) p a t], next_id := Suc (next_id st)\<rparr>,
      new_run (next_id st) p a t)"
  by (simp add: create_run_def Let_def)

lemma new_run_fields [simp]:
  "run_id (new_run i p a t) = i" "prompt (new_run i p a t) = p" "action (new_run i p a t) = a"
  "ai_response (new_run i p a t) = []" "api_response (new_run i p a t) = []"
  "final_result (new_run i p a t) = []" "created_at (new_run i p a t) = t"
  by (simp_all add: new_run_def)

lemma create_run_next_id [simp]: "next_id (fst (create_run st p a t)) = Suc (next_id st)"
  by (simp add: create_run_result)

lemma create_run_inv:
  assumes "store_inv st"
  shows "store_inv (fst (create_run st p a t))"
proof -
  from assms have "next_id st \<notin> set (map run_id (runs st))"
    by (auto simp: store_inv_def list_all_iff)
  with assms show ?thesis
    by (auto simp: store_inv_def create_run_result list_all_iff)
qed

lemma set_results_fields [simp]:
  "run_id (set_results ai api fin r) = run_id r" "prompt (set_results ai api fin r) = prompt r"
  "action (set_results ai api fin r) = action r" "created_at (set_results ai api fin r) = created_at r"
  "ai_response (set_results ai api fin r) = ai" "api_response (set_results ai api fin r) = api"
  "final_result (set_results ai api fin r) = fin"
  by (simp_all add: set_results_def)

lemma find_by_id_store_map: "find_by_id st i = store_map st i"
proof -
  have "\<And>xs. find (\<lambda>r. run_id r = i) xs = map_of (map (\<lambda>r. (run_id r, r)) xs) i"
    subgoal for xs by (induction xs) auto
    done
  then show ?thesis by (simp add: find_by_id_def store_map_def)
qed

lemma update_runs:
  "runs (fst (find_by_id_and_update i f st)) =
     (if store_map st i = None then runs st else map (\<lambda>x. if run_id x = i then f x else x) (runs st))"
  by (simp add: find_by_id_and_update_def find_by_id_store_map split: option.split)

lemma update_next_id [simp]: "next_id (fst (find_by_id_and_update i f st)) = next_id st"
  by (simp add: find_by_id_and_update_def split: option.split)

lemma update_ids:
  assumes "\<And>x. run_id (f x) = run_id x"
  shows "map run_id (runs (fst (find_by_id_and_update i f st))) = map run_id (runs st)"
  using assms by (simp add: update_runs comp_def)

lemma update_inv:
  assumes "store_inv st" "\<And>x. run_id (f x) = run_id x"
  shows "store_inv (fst (find_by_id_and_update i f st))"
proof -
  have "list_all (\<lambda>r. run_id r < next_id st) (runs (fst (find_by_id_and_update i f st)))"
    using assms by (auto simp: store_inv_def update_runs list_all_iff)
  with assms show ?thesis
    by (simp add: store_inv_def update_ids)
qed

subsection \<open>Refinement of the store by a map\<close>

lemma store_map_create:
  assumes "store_inv st"
  shows "store_map (fst (create_run st p a t)) = (store_map st)(next_id st \<mapsto> new_run (next_id st) p a t)"
proof -
  from assms have "store_map st (next_id st) = None"
    by (auto simp: store_inv_def store_map_def list_all_iff map_of_eq_None_iff)
  then show ?thesis
    by (auto simp: store_map_def create_run_result map_add_def fun_eq_iff split: option.split)
qed

lemma store_map_update:
  assumes "\<And>x. run_id (f x) = run_id x"
  shows "store_map (fst (find_by_id_and_update i f st)) = (store_map st)(i := map_option f (store_map st i))"
proof -
  have "\<And>xs k. map_of (map (\<lambda>r. (run_id r, r)) (map (\<lambda>x. if run_id x = i then f x else x) xs)) k =
      ((map_of (map (\<lambda>r. (run_id r, r)) xs))(i := map_option f (map_of (map (\<lambda>r. (run_id r, r)) xs) i))) k"
    subgoal for xs k using assms by (induction xs) auto
    done
  then show ?thesis
    by (auto simp: update_runs store_map_def fun_eq_iff)
qed

lemma runs_create_finalize:
  assumes "store_inv st"
  shows "runs (fst (find_by_id_and_update (next_id st) f (fst (create_run st p a t)))) =
    runs st @ [f (new_run (next_id st) p a t)]"
proof -
  have "list_all (\<lambda>r. run_id r < next_id st) (runs st)" using assms by (simp add: store_inv_def)
  then have "map (\<lambda>x. if run_id x = next_id st then f x else x) (runs st) = runs st"
    by (intro map_idI) (auto simp: list_all_iff)
  moreover have "store_map (fst (create_run st p a t)) (next_id st) \<noteq> None"
    using assms by (simp add: store_map_create)
  ultimately show ?thesis
    by (auto simp: update_runs create_run_result)
qed

subsection \<open>The history query\<close>

lemma history_length: "length (history st) = min 10 (length (runs st))"
  by (simp add: history_def)

lemma history_subset: "set (history st) \<subseteq> set (runs st)"
  using set_take_subset [of 10 "recent_first (runs st)"] by (simp add: history_def)

lemma sorted_recent_first: "sorted (map (\<lambda>r. - created_at r) (recent_first xs))"
  by (rule sorted_sort_key)

lemma history_sorted: "sorted_wrt (\<lambda>x y. created_at y \<le> created_at x) (history st)"
proof -
  have "sorted_wrt (\<lambda>x y. created_at y \<le> created_at x) (recent_first (runs st))"
    using sorted_recent_first [of "runs st"] by (simp add: sorted_wrt_map)
  then have "sorted_wrt (\<lambda>x y. created_at y \<le> created_at x) (take 10 (recent_first (runs st)))"
    by (rule sorted_wrt_take)
  then show ?thesis
    by (simp add: history_def)
qed

lemma history_top:
  assumes "r \<in> set (runs st)" "r \<notin> set (history st)" "h \<in> set (history st)"
  shows "created_at r \<le> created_at h"
proof -
  let ?ys = "recent_first (runs st)"
  have "sorted (map (\<lambda>r. - created_at r) (take 10 ?ys) @ map (\<lambda>r. - created_at r) (drop 10 ?ys))"
    using sorted_recent_first [of "runs st"] by (simp only: map_append [symmetric] append_take_drop_id)
  then have "\<forall>x \<in> set (take 10 ?ys). \<forall>y \<in> set (drop 10 ?ys). created_at y \<le> created_at x"
    by (auto simp: sorted_append)
  moreover from assms(1,2) have "r \<in> set (drop 10 ?ys)"
    using append_take_drop_id [of 10 ?ys] by (metis Un_iff history_def set_append set_sort)
  ultimately show ?thesis
    using assms(3) by (auto simp: history_def)
qed

lemma history_newest:
  assumes "runs st = xs @ [x]" "list_all (\<lambda>r. created_at r < created_at x) xs"
  shows "hd (history st) = x"
proof -
  let ?ys = "recent_first (runs st)"
  have x: "x \<in> set ?ys" using assms(1) by simp
  then obtain h t where ht: "?ys = h # t" by (cases ?ys) auto
  have "h = x"
  proof (rule ccontr)
    assume "h \<noteq> x"
    then have "h \<in> set xs" using ht assms(1) by (metis list.set_intros(1) set_sort rotate1.simps(2) set_rotate1 set_ConsD)
    then have "created_at h < created_at x" using assms(2) by (simp add: list_all_iff)
    moreover have "x \<in> set t" using x ht \<open>h \<noteq> x\<close> by simp
    then have "- created_at h \<le> - created_at x"
      using sorted_recent_first [of "runs st"] ht by simp
    ultimately show False by simp
  qed
  with ht show ?thesis by (simp add: history_def)
qed

lemma history_mset: "mset (history st) \<subseteq># mset (runs st)"
proof -
  have "mset (take 10 (recent_first (runs st))) \<subseteq># mset (recent_first (runs st))"
    by (metis append_take_drop_id mset_append mset_subset_eq_add_left)
  then show ?thesis by (simp add: history_def)
qed


subsection \<open>The schema's validators\<close>

lemma create_run_valid:
  "list_all run_valid (runs st) \<Longrightarrow> p \<noteq> [] \<Longrightarrow> a \<noteq> [] \<Longrightarrow> list_all run_valid (runs (fst (create_run st p a t)))"
  by (simp add: create_run_result run_valid_def)

lemma update_valid:
  "list_all run_valid (runs st) \<Longrightarrow> list_all run_valid (runs (fst (find_by_id_and_update i (set_results x y z) st)))"
  by (auto simp: update_runs list_all_iff run_valid_def)

end
