(* ===== verification/Orchestrator.thy ===== *)
theory Orchestrator
  imports Composer Generator Providers Store
begin

text \<open>
  The two route handlers. \<open>post_handler\<close> is \<open>POST\<close> of
  \<open>src/src/app/api/run_workflow/route.js\<close> (lines 120-188): read the body, reject a
  request without a truthy prompt and action (400, nothing stored), connect to the
  database, create the pending run, call the generator and the provider each inside its
  own \<open>try\<close>, combine, update the run with the three results and answer 200; any error
  thrown outside the two inner \<open>try\<close> blocks ends in the outer \<open>catch\<close> (500).
  \<open>history_handler\<close> is \<open>GET\<close> of \<open>src/src/app/api/history/route.js\<close>.

  The request body is the outcome of \<open>req.json()\<close>, read as \<open>body || {}\<close> and
  destructured (\<open>read_body\<close>). The model covers bodies whose \<open>prompt\<close>,
  \<open>action\<close> and \<open>location\<close> are each a string, \<open>null\<close> or absent, which is what
  the page sends; a field of another JSON type (which JavaScript would coerce and Mongoose
  would cast) is outside the model and \<open>read_body\<close> returns \<open>None\<close> for it.

  Everything the handler receives from outside in one call is a \<open>world\<close>: the fetch
  oracle, the runtime's upper-case mapping, the two clock reads (\<open>created_at\<close> and the
  one in \<open>fetchGithubTrending\<close>), and the outcome of each database operation, \<open>None\<close>
  for success and \<open>Some e\<close> for the error it rejects with (a failed operation changes
  nothing). \<open>dbConnect\<close> of \<open>@/lib/mongoose\<close> is not in the repository's sources and
  is modelled from the spec as an operation that succeeds or fails.
\<close>

datatype post_body = Unparsable js_error | Body "jsstr option" "jsstr option" "jsstr option"

datatype post_response = PostOk jsstr jsstr jsstr | PostBadRequest jsstr | PostError jsstr

datatype history_response = HistoryOk nat "workflow_run list" | HistoryError jsstr

record world =
  fetch :: fetcher
  upcase :: "16 word \<Rightarrow> jsstr"
  clock_create :: int
  clock_github :: int
  db_connect :: "js_error option"
  db_create :: "js_error option"
  db_update :: "js_error option"
  db_find :: "js_error option"

text \<open>An example setting used by the witnesses: the mock generator and no provider key,
  a world in which every database operation succeeds and every fetch is rejected.\<close>

definition demo_config :: config where
  "demo_config =
     \<lparr>use_mock_ai = Some (js ''true''), openai_api_key = None, weather_api_key = None,
      github_token = None, newsapi_key = None, default_city = None\<rparr>"

definition demo_world :: world where
  "demo_world =
     \<lparr>fetch = (\<lambda>_. Rejected (TypeError (js ''fetch failed''))), upcase = (\<lambda>c. [c]),
      clock_create = 1700000000000, clock_github = 1700000000000,
      db_connect = None, db_create = None, db_update = None, db_find = None\<rparr>"

text \<open>A weather provider that answers 404 with an error body whose \<open>message\<close> is an
  object with a \<open>trim\<close> member, for the example of a failing combine step; and the store
  after two requests in the same millisecond, for the example of the history query.\<close>

definition trap_config :: config where
  "trap_config = demo_config\<lparr>weather_api_key := Some (js ''k'')\<rparr>"

definition trap_world :: world where
  "trap_world = demo_world\<lparr>fetch := (\<lambda>_. Resolved \<lparr>status = 404, body_text = [],
     body_json = Inr (JObj [(js ''message'', JObj [(js ''trim'', JBool True)])])\<rparr>)\<rparr>"

text \<open>The generator in remote mode with a key the provider refuses: every fetch is
  answered 401.\<close>

definition remote_config :: config where
  "remote_config = demo_config\<lparr>use_mock_ai := None, openai_api_key := Some (js ''sk-bad'')\<rparr>"

definition unauthorized_world :: world where
  "unauthorized_world = demo_world\<lparr>fetch := (\<lambda>_. Resolved \<lparr>status = 401, body_text = js ''Unauthorized'',
     body_json = Inr (JObj [])\<rparr>)\<rparr>"

text \<open>A string, \<open>null\<close> or absent field of the body.\<close>

definition str_field :: "jsval \<Rightarrow> jsstr option option" where
  "str_field v =
     (case v of
        None \<Rightarrow> Some None
      | Some JNull \<Rightarrow> Some None
      | Some (JStr s) \<Rightarrow> Some (Some s)
      | _ \<Rightarrow> None)"

text \<open>\<open>const body = await req.json(); const {prompt, action, location} = body || {};\<close>\<close>

definition read_body :: "js_error + json \<Rightarrow> post_body option" where
  "read_body r =
     (case r of
        Inl e \<Rightarrow> Some (Unparsable e)
      | Inr b \<Rightarrow>
          (let obj = js_or (Some b) (Some (JObj []))
           in case (str_field (get obj (js ''prompt'')), str_field (get obj (js ''action'')),
                    str_field (get obj (js ''location''))) of
                (Some p, Some a, Some l) \<Rightarrow> Some (Body p a l)
              | _ \<Rightarrow> None))"

definition status_of :: "post_response \<Rightarrow> nat" where
  "status_of r = (case r of PostOk _ _ _ \<Rightarrow> 200 | PostBadRequest _ \<Rightarrow> 400 | PostError _ \<Rightarrow> 500)"

text \<open>\<open>err.message || "Server error"\<close>\<close>

definition server_error :: "js_error \<Rightarrow> post_response" where
  "server_error e = PostError (if err_message e = [] then js ''Server error'' else err_message e)"

definition required_msg :: jsstr where
  "required_msg = js ''prompt and action are required''"

text \<open>Step 1 with its \<open>catch\<close>: \<open>ai_response = `AI error: ${aiErr.message}`\<close>.\<close>

definition ai_step :: "config \<Rightarrow> fetcher \<Rightarrow> jsstr \<Rightarrow> jsstr" where
  "ai_step cfg f p = (case call_openai cfg f p of Inl e \<Rightarrow> js ''AI error: '' @ err_message e | Inr s \<Rightarrow> s)"

text \<open>From the created run on: the two isolated steps, the combine step, and the update
  of the run; \<open>st\<close> already holds the pending run \<open>i\<close>.\<close>

definition run_pipeline ::
  "config \<Rightarrow> world \<Rightarrow> jsstr \<Rightarrow> jsstr \<Rightarrow> jsstr option \<Rightarrow> nat \<Rightarrow> store \<Rightarrow> post_response \<times> store" where
  "run_pipeline cfg w p a loc i st =
     (let ai = ai_step cfg (fetch w) p;
          api = fetch_provider_data cfg (fetch w) (upcase w) (clock_github w) a loc
      in case combine (Some (JStr ai)) (Some api) a of
           Inl e \<Rightarrow> (server_error e, st)
         | Inr (ai_t, api_t, fin) \<Rightarrow>
             (case db_update w of
                Some e \<Rightarrow> (server_error e, st)
              | None \<Rightarrow> (PostOk ai_t api_t fin, fst (find_by_id_and_update i (set_results ai_t api_t fin) st))))"

definition post_handler :: "config \<Rightarrow> world \<Rightarrow> post_body \<Rightarrow> store \<Rightarrow> post_response \<times> store" where
  "post_handler cfg w body st =
     (case body of
        Unparsable e \<Rightarrow> (server_error e, st)
      | Body p a loc \<Rightarrow>
          (if \<not> str_truthy p \<or> \<not> str_truthy a then (PostBadRequest required_msg, st)
           else (case db_connect w of
                   Some e \<Rightarrow> (server_error e, st)
                 | None \<Rightarrow>
                     (case db_create w of
                        Some e \<Rightarrow> (server_error e, st)
                      | None \<Rightarrow>
                          (let (st1, initial) = create_run st (the p) (the a) (clock_create w)
                           in run_pipeline cfg w (the p) (the a) loc (run_id initial) st1)))))"

definition history_handler :: "world \<Rightarrow> store \<Rightarrow> history_response" where
  "history_handler w st =
     (case db_connect w of
        Some e \<Rightarrow> HistoryError (if err_message e = [] then js ''Server error'' else err_message e)
      | None \<Rightarrow>
          (case db_find w of
             Some e \<Rightarrow> HistoryError (if err_message e = [] then js ''Server error'' else err_message e)
           | None \<Rightarrow> (let rs = history st in HistoryOk (length rs) rs)))"

text \<open>The answers of \<open>POST\<close> as \<open>NextResponse.json(body, {status})\<close> sends them
  (lines 126, 183 and 187).\<close>

definition post_fields :: "post_response \<Rightarrow> (jsstr \<times> jsstr) list" where
  "post_fields r =
     (case r of
        PostOk ai api fin \<Rightarrow> [(js ''ai_response'', ai), (js ''api_response'', api), (js ''final_result'', fin)]
      | PostBadRequest m \<Rightarrow> [(js ''error'', m)]
      | PostError m \<Rightarrow> [(js ''error'', m)])"

definition post_http :: "post_response \<Rightarrow> http_resp" where
  "post_http r =
     \<lparr>status = status_of r, body_text = json_str_object (post_fields r),
      body_json = Inr (json_str_value (post_fields r))\<rparr>"

definition two_runs :: store where
  "two_runs = snd (post_handler demo_config demo_world (Body (Some (js ''b'')) (Some (js ''news'')) None)
      (snd (post_handler demo_config demo_world (Body (Some (js ''a'')) (Some (js ''news'')) None) empty_store)))"

subsection \<open>The outcomes of the POST handler\<close>

lemma post_handler_valid:
  assumes "p \<noteq> []" "a \<noteq> []" "db_connect w = None" "db_create w = None"
  shows "post_handler cfg w (Body (Some p) (Some a) loc) st =
    run_pipeline cfg w p a loc (next_id st) (fst (create_run st p a (clock_create w)))"
  using assms by (simp add: post_handler_def create_run_def str_truthy_def Let_def)

lemma run_pipeline_cases:
  assumes "run_pipeline cfg w p a loc i st = (resp, st')"
  obtains (failed) "st' = st" "\<forall>x y z. resp \<noteq> PostOk x y z"
    | (finalized) x y z where "db_update w = None" "resp = PostOk x y z"
      "combine (Some (JStr (ai_step cfg (fetch w) p)))
         (Some (fetch_provider_data cfg (fetch w) (upcase w) (clock_github w) a loc)) a = Inr (x, y, z)"
      "st' = fst (find_by_id_and_update i (set_results x y z) st)"
  using assms
  by (cases "combine (Some (JStr (ai_step cfg (fetch w) p)))
         (Some (fetch_provider_data cfg (fetch w) (upcase w) (clock_github w) a loc)) a")
     (auto simp: run_pipeline_def server_error_def split: option.splits)

text \<open>Every outcome of the handler: the store unchanged (bad request, unreadable body,
  failed connection or creation), the pending run left behind (the combine step or the
  update failed), or the run created and finalized with the combined results.\<close>

lemma post_handler_cases:
  assumes "post_handler cfg w body st = (resp, st')"
  obtains (unchanged) "st' = st" "\<forall>x y z. resp \<noteq> PostOk x y z"
    | (pending) p a loc where "body = Body (Some p) (Some a) loc" "p \<noteq> []" "a \<noteq> []"
      "db_connect w = None" "db_create w = None" "\<forall>x y z. resp \<noteq> PostOk x y z"
      "st' = fst (create_run st p a (clock_create w))"
    | (finalized) p a loc x y z where "body = Body (Some p) (Some a) loc" "p \<noteq> []" "a \<noteq> []"
      "db_connect w = None" "db_create w = None" "db_update w = None" "resp = PostOk x y z"
      "combine (Some (JStr (ai_step cfg (fetch w) p)))
         (Some (fetch_provider_data cfg (fetch w) (upcase w) (clock_github w) a loc)) a = Inr (x, y, z)"
      "st' = fst (find_by_id_and_update (next_id st) (set_results x y z) (fst (create_run st p a (clock_create w))))"
proof (cases "\<exists>p a loc. body = Body (Some p) (Some a) loc \<and> p \<noteq> [] \<and> a \<noteq> [] \<and>
                db_connect w = None \<and> db_create w = None")
  case True
  then obtain p a loc where b: "body = Body (Some p) (Some a) loc" "p \<noteq> []" "a \<noteq> []"
      "db_connect w = None" "db_create w = None"
    by blast
  with assms have "run_pipeline cfg w p a loc (next_id st) (fst (create_run st p a (clock_create w))) = (resp, st')"
    by (simp add: post_handler_valid)
  then show ?thesis
    by (cases rule: run_pipeline_cases) (use b pending finalized in blast)+
next
  case False
  with assms have "st' = st \<and> (\<forall>x y z. resp \<noteq> PostOk x y z)"
    by (auto simp: post_handler_def server_error_def str_truthy_def split: post_body.splits if_splits option.splits)
  then show ?thesis using unchanged by blast
qed

lemma map_upd_upd_same: "(m(i \<mapsto> r))(i := map_option f (Some r)) = m(i \<mapsto> f r)"
  by (simp add: fun_eq_iff)

lemma store_map_create_finalize:
  assumes "store_inv st"
  shows "store_map (fst (find_by_id_and_update (next_id st) (set_results x y z) (fst (create_run st p a t)))) =
    (store_map st)(next_id st \<mapsto> set_results x y z (new_run (next_id st) p a t))"
  using assms by (simp add: store_map_update store_map_create map_upd_upd_same)

lemma store_fresh_id: "store_inv st \<Longrightarrow> store_map st (next_id st) = None"
  by (auto simp: store_inv_def store_map_def list_all_iff map_of_eq_None_iff)

lemma store_inv_create_finalize:
  "store_inv st \<Longrightarrow> store_inv (fst (find_by_id_and_update (next_id st) (set_results x y z) (fst (create_run st p a t))))"
  by (simp add: update_inv create_run_inv)

text \<open>C1. A request answered with 200 had a non-empty prompt and action; the three
  returned strings are trimmed, the final result ends with the action's hashtag, and the
  store, seen as a map from ids to runs, gained exactly one entry under a fresh id: the run
  with the request's prompt and action, the creation time, and the three returned strings.\<close>

theorem post_handler_success:
  assumes "post_handler cfg w body st = (PostOk ai api fin, st')" and "store_inv st"
  shows "\<exists>p a loc. body = Body (Some p) (Some a) loc \<and> p \<noteq> [] \<and> a \<noteq> [] \<and> trimmed ai \<and> trimmed api \<and> trimmed fin \<and>
           (\<exists>u. fin = u @ hashtag a) \<and>
           store_map st' = (store_map st)(next_id st \<mapsto>
             set_results ai api fin (new_run (next_id st) p a (clock_create w)))"
  using assms(1)
proof (cases rule: post_handler_cases)
  case (finalized p a loc x y z)
  then have "trimmed x \<and> trimmed y \<and> z = final_text x y a"
    by (simp add: combine_Inr)
  with finalized assms(2) show ?thesis
    using final_text_props [of x y a] by (auto simp: store_map_create_finalize)
qed simp_all

theorem post_handler_success_witness:
  "post_handler demo_config demo_world
     (Body (Some (js ''today'')) (Some (js ''weather'')) (Some (js ''Paris''))) empty_store =
   (PostOk (js ''Quick thought: today'') weather_key_missing
      (js ''Quick thought: today '' @ weather_key_missing @ js '' #weather''),
    fst (find_by_id_and_update 0
          (set_results (js ''Quick thought: today'') weather_key_missing
             (js ''Quick thought: today '' @ weather_key_missing @ js '' #weather''))
          (fst (create_run empty_store (js ''today'') (js ''weather'') 1700000000000)))) \<and>
   store_inv empty_store \<and>
   (\<exists>p a loc. Body (Some (js ''today'')) (Some (js ''weather'')) (Some (js ''Paris''))
       = Body (Some p) (Some a) loc \<and> p \<noteq> [] \<and> a \<noteq> [] \<and>
     trimmed (js ''Quick thought: today'') \<and> trimmed weather_key_missing \<and>
     trimmed (js ''Quick thought: today '' @ weather_key_missing @ js '' #weather'') \<and>
     (\<exists>u. js ''Quick thought: today '' @ weather_key_missing @ js '' #weather'' = u @ hashtag a) \<and>
     store_map (fst (find_by_id_and_update 0
          (set_results (js ''Quick thought: today'') weather_key_missing
             (js ''Quick thought: today '' @ weather_key_missing @ js '' #weather''))
          (fst (create_run empty_store (js ''today'') (js ''weather'') 1700000000000)))) =
     (store_map empty_store)(next_id empty_store \<mapsto>
        set_results (js ''Quick thought: today'') weather_key_missing
          (js ''Quick thought: today '' @ weather_key_missing @ js '' #weather'')
          (new_run (next_id empty_store) p a 1700000000000)))"
proof -
  have run: "post_handler demo_config demo_world
     (Body (Some (js ''today'')) (Some (js ''weather'')) (Some (js ''Paris''))) empty_store =
   (PostOk (js ''Quick thought: today'') weather_key_missing
      (js ''Quick thought: today '' @ weather_key_missing @ js '' #weather''),
    fst (find_by_id_and_update 0
          (set_results (js ''Quick thought: today'') weather_key_missing
             (js ''Quick thought: today '' @ weather_key_missing @ js '' #weather''))
          (fst (create_run empty_store (js ''today'') (js ''weather'') 1700000000000))))"
    by (simp add: post_handler_def demo_config_def demo_world_def run_pipeline_def ai_step_def
        call_openai_def use_mock_def mock_reply_def mock_short_def fetch_provider_data_def
        fetch_weather_def combine_def final_text_def hashtag_def str_truthy_def empty_store_def
        weather_key_missing_def js_trim_def trim_start_def trim_end_def js_lit Let_def create_run_def)
  show ?thesis
    using post_handler_success [OF run store_inv_empty] run store_inv_empty
    by (simp add: demo_world_def js_def)
qed

text \<open>C2. A request whose prompt or action is missing, \<open>null\<close> or empty is answered
  400 with \<open>"prompt and action are required"\<close> and leaves the store as it was: no run
  is created.\<close>

theorem post_handler_rejects_invalid:
  assumes "\<not> str_truthy p \<or> \<not> str_truthy a"
  shows "post_handler cfg w (Body p a loc) st = (PostBadRequest required_msg, st)"
  using assms by (simp add: post_handler_def)

theorem post_handler_rejects_invalid_witness:
  "\<not> str_truthy None \<and>
   post_handler demo_config demo_world (Body None (Some (js ''weather'')) None) empty_store =
     (PostBadRequest required_msg, empty_store)"
proof -
  have h: "\<not> str_truthy None" by (simp add: str_truthy_def)
  show ?thesis
    using h post_handler_rejects_invalid [of None "Some (js ''weather'')"] by simp
qed

text \<open>C16. When the database rejects the creation of the run, the request fails (no 200)
  and the store is unchanged: no partial record exists.\<close>

theorem post_create_failure_stores_nothing:
  assumes "db_create w = Some e"
  shows "snd (post_handler cfg w body st) = st \<and> (\<forall>x y z. fst (post_handler cfg w body st) \<noteq> PostOk x y z)"
proof -
  obtain resp st' where r: "post_handler cfg w body st = (resp, st')"
    by (cases "post_handler cfg w body st")
  from r show ?thesis
    by (cases rule: post_handler_cases) (use assms r in simp_all)
qed

theorem post_create_failure_stores_nothing_witness:
  "db_create (demo_world\<lparr>db_create := Some (Error (js ''E11000''))\<rparr>) = Some (Error (js ''E11000'')) \<and>
   snd (post_handler demo_config (demo_world\<lparr>db_create := Some (Error (js ''E11000''))\<rparr>)
      (Body (Some (js ''today'')) (Some (js ''news'')) None) empty_store) = empty_store \<and>
   (\<forall>x y z. fst (post_handler demo_config (demo_world\<lparr>db_create := Some (Error (js ''E11000''))\<rparr>)
      (Body (Some (js ''today'')) (Some (js ''news'')) None) empty_store) \<noteq> PostOk x y z)"
  using post_create_failure_stores_nothing [of "demo_world\<lparr>db_create := Some (Error (js ''E11000''))\<rparr>"
      "Error (js ''E11000'')" demo_config "Body (Some (js ''today'')) (Some (js ''news'')) None" empty_store]
  by simp

text \<open>C18. When the final update of the run fails, the request fails (no 200) and the run
  created at the start stays in the store in its pending shape: the prompt, action and
  creation time of the request and three empty response fields.\<close>

theorem post_update_failure_keeps_pending:
  assumes "p \<noteq> []" "a \<noteq> []" "db_connect w = None" "db_create w = None" "db_update w = Some e"
    and "store_inv st"
  shows "(\<forall>x y z. fst (post_handler cfg w (Body (Some p) (Some a) loc) st) \<noteq> PostOk x y z) \<and>
    store_map (snd (post_handler cfg w (Body (Some p) (Some a) loc) st)) =
      (store_map st)(next_id st \<mapsto> new_run (next_id st) p a (clock_create w))"
proof -
  obtain resp st' where r: "post_handler cfg w (Body (Some p) (Some a) loc) st = (resp, st')"
    by (cases "post_handler cfg w (Body (Some p) (Some a) loc) st")
  from r show ?thesis
  proof (cases rule: post_handler_cases)
    case unchanged
    then have "fst (create_run st p a (clock_create w)) = st"
      using r assms(1-4) by (auto simp: post_handler_valid run_pipeline_def Let_def split: sum.splits option.splits)
    then have False
      by (metis create_run_next_id n_not_Suc_n)
    then show ?thesis ..
  next
    case (pending p' a' loc')
    with r assms(6) show ?thesis
      by (simp add: store_map_create)
  qed (use assms in simp)
qed

theorem post_update_failure_keeps_pending_witness:
  "js ''today'' \<noteq> [] \<and> js ''news'' \<noteq> [] \<and>
   db_connect (demo_world\<lparr>db_update := Some (Error (js ''timeout''))\<rparr>) = None \<and>
   db_create (demo_world\<lparr>db_update := Some (Error (js ''timeout''))\<rparr>) = None \<and>
   db_update (demo_world\<lparr>db_update := Some (Error (js ''timeout''))\<rparr>) = Some (Error (js ''timeout'')) \<and>
   store_inv empty_store \<and>
   (\<forall>x y z. fst (post_handler demo_config (demo_world\<lparr>db_update := Some (Error (js ''timeout''))\<rparr>)
       (Body (Some (js ''today'')) (Some (js ''news'')) None) empty_store) \<noteq> PostOk x y z) \<and>
   store_map (snd (post_handler demo_config (demo_world\<lparr>db_update := Some (Error (js ''timeout''))\<rparr>)
       (Body (Some (js ''today'')) (Some (js ''news'')) None) empty_store)) =
     (store_map empty_store)(0 \<mapsto> new_run 0 (js ''today'') (js ''news'') 1700000000000)"
  using post_update_failure_keeps_pending [of "js ''today''" "js ''news''"
      "demo_world\<lparr>db_update := Some (Error (js ''timeout''))\<rparr>" "Error (js ''timeout'')" empty_store demo_config None]
    store_inv_empty
  by (simp add: demo_world_def js_def empty_store_def)

text \<open>C19. Every request keeps the store invariant (distinct ids below the counter) and
  loses or changes no run that was stored before: the old store, as a map from ids to
  runs, is contained in the new one.\<close>

theorem post_handler_store_inv:
  assumes "store_inv st"
  shows "store_inv (snd (post_handler cfg w body st)) \<and> store_map st \<subseteq>\<^sub>m store_map (snd (post_handler cfg w body st))"
proof -
  obtain resp st' where r: "post_handler cfg w body st = (resp, st')"
    by (cases "post_handler cfg w body st")
  have fresh: "store_map st (next_id st) = None"
    using assms by (rule store_fresh_id)
  from r have "store_inv st' \<and> store_map st \<subseteq>\<^sub>m store_map st'"
  proof (cases rule: post_handler_cases)
    case unchanged
    with assms show ?thesis by simp
  next
    case (pending p a loc)
    with assms fresh show ?thesis
      by (auto simp: create_run_inv store_map_create map_le_def)
  next
    case (finalized p a loc x y z)
    with assms fresh show ?thesis
      by (auto simp: store_inv_create_finalize store_map_create_finalize map_le_def)
  qed
  with r show ?thesis by simp
qed

theorem post_handler_store_inv_witness:
  "store_inv empty_store \<and>
   store_inv (snd (post_handler demo_config demo_world (Body (Some (js ''hi'')) (Some (js ''github'')) None) empty_store)) \<and>
   store_map empty_store \<subseteq>\<^sub>m
     store_map (snd (post_handler demo_config demo_world (Body (Some (js ''hi'')) (Some (js ''github'')) None) empty_store))"
  using post_handler_store_inv [OF store_inv_empty, of demo_config demo_world
      "Body (Some (js ''hi'')) (Some (js ''github'')) None"] store_inv_empty
  by simp

text \<open>C26. A valid request with an action other than weather, github and news is
  answered 200 with the API response \<open>Unknown action "<action>". Supported: weather,
  github, news.\<close> and a final result ending with \<open>#news\<close>.\<close>

theorem post_handler_unknown_action:
  assumes "p \<noteq> []" "a \<noteq> []" "a \<notin> {js ''weather'', js ''github'', js ''news''}"
    and "db_connect w = None" "db_create w = None" "db_update w = None"
  shows "\<exists>fin st'. post_handler cfg w (Body (Some p) (Some a) loc) st =
           (PostOk (js_trim (ai_step cfg (fetch w) p)) (unknown_action_msg a) fin, st') \<and>
         (\<exists>u. fin = u @ js ''#news'')"
proof -
  have t: "js_trim (unknown_action_msg a) = unknown_action_msg a"
    by (rule js_trim_id [OF unknown_action_msg_trimmed])
  obtain u where "final_text (js_trim (ai_step cfg (fetch w) p)) (unknown_action_msg a) a = u @ hashtag a"
    using final_text_props [OF trimmed_js_trim unknown_action_msg_trimmed] by blast
  with assms t show ?thesis
    by (simp add: post_handler_valid run_pipeline_def fetch_provider_unknown combine_strings hashtag_unknown Let_def)
qed

theorem post_handler_unknown_action_witness:
  "js ''today'' \<noteq> [] \<and> js ''translate'' \<noteq> [] \<and>
   js ''translate'' \<notin> {js ''weather'', js ''github'', js ''news''} \<and>
   db_connect demo_world = None \<and> db_create demo_world = None \<and> db_update demo_world = None \<and>
   unknown_action_msg (js ''translate'') =
     js ''Unknown action '' @ [34] @ js ''translate'' @ [34] @ js ''. Supported: weather, github, news.'' \<and>
   (\<exists>fin st'. post_handler demo_config demo_world (Body (Some (js ''today'')) (Some (js ''translate'')) None) empty_store =
      (PostOk (js_trim (ai_step demo_config (fetch demo_world) (js ''today''))) (unknown_action_msg (js ''translate'')) fin, st') \<and>
      (\<exists>u. fin = u @ js ''#news''))"
proof -
  have h: "js ''today'' \<noteq> []" "js ''translate'' \<noteq> []" "js ''translate'' \<notin> {js ''weather'', js ''github'', js ''news''}"
    by (simp_all add: js_def)
  show ?thesis
    using post_handler_unknown_action [OF h, of demo_world demo_config None empty_store] h
    by (simp add: demo_world_def unknown_action_msg_def)
qed

text \<open>C5. The two inner steps isolate every failure of the network: a valid request
  whose database operations succeed fails only when the API response is an object with a
  non-nullish own \<open>trim\<close> (which a provider's error body can supply through its
  \<open>message\<close>); the answer is then 500 with V8's TypeError and the run stays pending.\<close>

theorem post_handler_valid_failure:
  assumes "p \<noteq> []" "a \<noteq> []" "db_connect w = None" "db_create w = None" "db_update w = None"
    and "fst (post_handler cfg w (Body (Some p) (Some a) loc) st) = PostError m"
  shows "(\<exists>kvs. fetch_provider_data cfg (fetch w) (upcase w) (clock_github w) a loc = JObj kvs \<and>
            \<not> nullish (map_of (rev kvs) (js ''trim''))) \<and>
         m = js ''api_response?.trim is not a function'' \<and>
         snd (post_handler cfg w (Body (Some p) (Some a) loc) st) = fst (create_run st p a (clock_create w))"
proof -
  let ?api = "fetch_provider_data cfg (fetch w) (upcase w) (clock_github w) a loc"
  obtain e where c: "combine (Some (JStr (ai_step cfg (fetch w) p))) (Some ?api) a = Inl e"
    using assms by (cases "combine (Some (JStr (ai_step cfg (fetch w) p))) (Some ?api) a")
      (auto simp: post_handler_valid run_pipeline_def)
  from combine_string_Inl [OF c] obtain kvs where
    k: "?api = JObj kvs" "\<not> nullish (map_of (rev kvs) (js ''trim''))"
    and e: "e = TypeError (js ''api_response?.trim is not a function'')" by blast
  have "post_handler cfg w (Body (Some p) (Some a) loc) st =
      (PostError (js ''api_response?.trim is not a function''), fst (create_run st p a (clock_create w)))"
    using assms(1-5) c e by (simp add: post_handler_valid run_pipeline_def server_error_def js_def)
  with assms(6) k show ?thesis by simp
qed

theorem post_handler_valid_failure_witness:
  "js ''today'' \<noteq> [] \<and> js ''weather'' \<noteq> [] \<and>
   db_connect trap_world = None \<and> db_create trap_world = None \<and> db_update trap_world = None \<and>
   fst (post_handler trap_config trap_world (Body (Some (js ''today'')) (Some (js ''weather'')) None) empty_store) =
     PostError (js ''api_response?.trim is not a function'') \<and>
   snd (post_handler trap_config trap_world (Body (Some (js ''today'')) (Some (js ''weather'')) None) empty_store) =
     fst (create_run empty_store (js ''today'') (js ''weather'') 1700000000000)"
proof -
  have h: "js ''today'' \<noteq> []" "js ''weather'' \<noteq> []" by (simp_all add: js_def)
  have w: "db_connect trap_world = None" "db_create trap_world = None" "db_update trap_world = None"
    by (simp_all add: trap_world_def demo_world_def)
  have r: "fst (post_handler trap_config trap_world (Body (Some (js ''today'')) (Some (js ''weather'')) None) empty_store) =
     PostError (js ''api_response?.trim is not a function'')"
    by (simp add: post_handler_def trap_config_def trap_world_def demo_config_def demo_world_def run_pipeline_def
        ai_step_def call_openai_def use_mock_def mock_reply_def fetch_provider_data_def fetch_weather_def
        resp_ok_def json_or_empty_def js_or_def combine_def nullish_def str_truthy_def server_error_def
        js_def Let_def create_run_def)
  show ?thesis
    using post_handler_valid_failure [OF h w r] h w r by (simp add: trap_world_def demo_world_def)
qed

subsection \<open>The history query\<close>

text \<open>C6. When the database answers, \<open>GET /api/history\<close> returns \<open>total\<close> equal to
  the number of runs returned, at most 10 of them (all when there are fewer), in
  non-increasing \<open>created_at\<close> order, taken from the stored runs, and no run left out is
  newer than a run returned.\<close>

theorem history_handler_recent:
  assumes "db_connect w = None" "db_find w = None"
  shows "history_handler w st = HistoryOk (length (history st)) (history st) \<and>
    length (history st) = min 10 (length (runs st)) \<and>
    sorted_wrt (\<lambda>x y. created_at y \<le> created_at x) (history st) \<and>
    mset (history st) \<subseteq># mset (runs st) \<and>
    (\<forall>r \<in> set (runs st). r \<notin> set (history st) \<longrightarrow> (\<forall>h \<in> set (history st). created_at r \<le> created_at h))"
  using assms history_top [of _ st] by (simp add: history_handler_def history_length history_sorted history_mset)

theorem history_handler_recent_witness:
  "db_connect demo_world = None \<and> db_find demo_world = None \<and>
   history_handler demo_world two_runs = HistoryOk (length (history two_runs)) (history two_runs) \<and>
    length (history two_runs) = min 10 (length (runs two_runs)) \<and>
    sorted_wrt (\<lambda>x y. created_at y \<le> created_at x) (history two_runs) \<and>
    mset (history two_runs) \<subseteq># mset (runs two_runs)"
proof -
  have w: "db_connect demo_world = None" "db_find demo_world = None" by (simp_all add: demo_world_def)
  show ?thesis using history_handler_recent [OF w, of two_runs] w by simp
qed

text \<open>C17. A failure of the generator is isolated in step 1: whatever error
  \<open>callOpenAI\<close> throws, a valid request with a working database and a string API
  response is answered 200, with the AI response \<open>"AI error: "\<close> and the error's
  message, trimmed.\<close>

theorem post_handler_ai_error:
  assumes "p \<noteq> []" "a \<noteq> []" "db_connect w = None" "db_create w = None" "db_update w = None"
    and "call_openai cfg (fetch w) p = Inl e"
    and "fetch_provider_data cfg (fetch w) (upcase w) (clock_github w) a loc = JStr t"
  shows "\<exists>fin st'. post_handler cfg w (Body (Some p) (Some a) loc) st =
           (PostOk (js_trim (js ''AI error: '' @ err_message e)) (js_trim t) fin, st')"
  using assms by (simp add: post_handler_valid run_pipeline_def ai_step_def combine_strings Let_def)

theorem post_handler_ai_error_witness:
  "js ''hi'' \<noteq> [] \<and> js ''news'' \<noteq> [] \<and> db_connect unauthorized_world = None \<and>
   db_create unauthorized_world = None \<and> db_update unauthorized_world = None \<and>
   call_openai remote_config (fetch unauthorized_world) (js ''hi'') = Inl (Error (js ''OpenAI error: 401 Unauthorized'')) \<and>
   fetch_provider_data remote_config (fetch unauthorized_world) (upcase unauthorized_world)
     (clock_github unauthorized_world) (js ''news'') None = JStr (js ''News API key missing'') \<and>
   (\<exists>fin st'. post_handler remote_config unauthorized_world (Body (Some (js ''hi'')) (Some (js ''news'')) None) empty_store =
      (PostOk (js_trim (js ''AI error: '' @ err_message (Error (js ''OpenAI error: 401 Unauthorized''))))
        (js_trim (js ''News API key missing'')) fin, st'))"
proof -
  have h: "js ''hi'' \<noteq> []" "js ''news'' \<noteq> []" "db_connect unauthorized_world = None"
    "db_create unauthorized_world = None" "db_update unauthorized_world = None"
    by (simp_all add: unauthorized_world_def demo_world_def js_def)
  have c: "call_openai remote_config (fetch unauthorized_world) (js ''hi'') = Inl (Error (js ''OpenAI error: 401 Unauthorized''))"
    by (simp add: call_openai_def remote_config_def demo_config_def unauthorized_world_def demo_world_def use_mock_def
        str_truthy_def resp_ok_def openai_status_error_def nat_digits.simps js_def)
  have n: "fetch_provider_data remote_config (fetch unauthorized_world) (upcase unauthorized_world)
     (clock_github unauthorized_world) (js ''news'') None = JStr (js ''News API key missing'')"
    by (simp add: fetch_provider_data_def remote_config_def demo_config_def fetch_news_def str_truthy_def js_def)
  show ?thesis using post_handler_ai_error [OF h c n] h c n by blast
qed

end
