(* ===== verification/HistoryApi.thy ===== *)
theory HistoryApi
  imports Orchestrator
begin

text \<open>
  What \<open>GET /api/history\<close> sends (\<open>src/src/app/api/history/route.js\<close>, lines 14 and
  17): \<open>NextResponse.json({total, runs})\<close> with status 200, or \<open>{error}\<close> with status
  500. The runs come from \<open>.lean()\<close>, so each one is the stored document without
  \<open>__v\<close> (\<open>.select("-__v")\<close>): \<open>_id\<close> and the schema's fields in the order the create
  call gives them, \<open>created_at\<close> a \<open>Date\<close> that \<open>JSON.stringify\<close> writes with
  \<open>toISOString\<close>. The \<open>_id\<close> of the model is a number; its JSON form here is the
  24-digit hexadecimal string an ObjectId is written as. The page reads this answer in
  \<open>Client\<close>.
\<close>

fun hex_digits :: "nat \<Rightarrow> jsstr" where
  "hex_digits n =
     (if n < 16 then [of_nat (if n < 10 then 48 + n else 87 + n)]
      else hex_digits (n div 16) @ [of_nat (if n mod 16 < 10 then 48 + n mod 16 else 87 + n mod 16)])"

declare hex_digits.simps [simp del]

definition oid_text :: "nat \<Rightarrow> jsstr" where
  "oid_text i = pad_left 24 (hex_digits i)"

definition run_json :: "workflow_run \<Rightarrow> json" where
  "run_json r =
     JObj [(js ''_id'', JStr (oid_text (run_id r))), (js ''prompt'', JStr (prompt r)),
           (js ''action'', JStr (action r)), (js ''ai_response'', JStr (ai_response r)),
           (js ''api_response'', JStr (api_response r)), (js ''final_result'', JStr (final_result r)),
           (js ''created_at'', JStr (iso_string (created_at r)))]"

definition history_json :: "history_response \<Rightarrow> json" where
  "history_json h =
     (case h of
        HistoryOk n rs \<Rightarrow> JObj [(js ''total'', JNum (int n) 0), (js ''runs'', JArr (map run_json rs))]
      | HistoryError m \<Rightarrow> JObj [(js ''error'', JStr m)])"

definition history_http :: "history_response \<Rightarrow> http_resp" where
  "history_http h =
     \<lparr>status = (case h of HistoryOk _ _ \<Rightarrow> 200 | HistoryError _ \<Rightarrow> 500),
      body_text = json_text (history_json h), body_json = Inr (history_json h)\<rparr>"


end
