(* ===== verification/Client.thy ===== *)
theory Client
  imports HistoryApi
begin

text \<open>
  The page \<open>src/src/app/page.js\<close> (the React component \<open>WorkflowAutomation\<close>) as a
  state machine: its state hooks (lines 7-13) are the record \<open>page_state\<close>, together
  with the two things the code leaves pending across an \<open>await\<close>: the payload of the POST
  that \<open>handleSubmit\<close> is waiting for, and the number of \<open>fetchHistory\<close> calls waiting
  for their answer. A user action or an answer is a \<open>ui_event\<close>; \<open>ui_step\<close> is the code
  that runs on it up to its next \<open>await\<close> (\<open>handleSubmit\<close>, lines 23-68; \<open>fetchHistory\<close>,
  lines 70-83; the inputs' \<open>onChange\<close>, the disabled submit button at line 166 and the
  close button at line 259), \<open>None\<close> when the event cannot happen (a disabled button, an answer
  nobody waits for). The payload is handed to the server as the JSON value it stringifies
  (\<open>JSON.parse\<close> is not modelled, so the server reads back the same value).
  \<open>page_view\<close> is what the JSX computes from the state. The lemmas show that the page
  has at most one POST in flight, that every POST it sends passes the server's
  validation, what the page shows and resets when the answer comes, that the history the
  route sends always renders, that the page can always settle, and that without user
  input it settles after finitely many answers.
\<close>

datatype page_result = ResultData json | ResultError jsstr

record page_state =
  ui_prompt :: jsstr
  ui_action :: jsstr
  ui_location :: jsstr
  ui_result :: "page_result option"
  ui_history :: jsval
  ui_loading :: bool
  ui_show_history :: bool
  ui_post :: "json option"
  ui_history_fetches :: nat

datatype ui_event =
    SetPrompt jsstr | SetAction jsstr | SetLocation jsstr | Submit | PostReply fetch_result
  | ViewHistory | HistoryReply fetch_result | CloseHistory

definition page_init :: page_state where
  "page_init =
     \<lparr>ui_prompt = [], ui_action = js ''weather'', ui_location = [], ui_result = None,
      ui_history = Some (JArr []), ui_loading = False, ui_show_history = False, ui_post = None,
      ui_history_fetches = 0\<rparr>"

definition action_values :: "jsstr list" where
  "action_values = [js ''weather'', js ''github'', js ''news'']"

definition requires_location :: "jsstr \<Rightarrow> bool" where
  "requires_location a \<longleftrightarrow> a = js ''weather'' \<or> a = js ''news''"

definition submit_enabled :: "page_state \<Rightarrow> bool" where
  "submit_enabled s \<longleftrightarrow> \<not> ui_loading s \<and> js_trim (ui_prompt s) \<noteq> []"

definition payload_fields :: "page_state \<Rightarrow> (jsstr \<times> jsstr) list" where
  "payload_fields s =
     [(js ''prompt'', js_trim (ui_prompt s)), (js ''action'', ui_action s)] @
     (if requires_location (ui_action s) \<and> js_trim (ui_location s) \<noteq> []
      then [(js ''location'', js_trim (ui_location s))] else [])"

definition post_request :: "page_state \<Rightarrow> http_req" where
  "post_request s =
     \<lparr>req_method = POST, req_url = js ''/api/run_workflow'',
      req_headers = [(js ''Content-Type'', js ''application/json'')],
      req_body = Some (json_str_object (payload_fields s))\<rparr>"

definition submit_start :: "page_state \<Rightarrow> page_state" where
  "submit_start s =
     (if js_trim (ui_prompt s) = [] then s
      else s\<lparr>ui_loading := True, ui_result := None, ui_post := Some (json_str_value (payload_fields s))\<rparr>)"

definition fail_msg :: "jsstr \<Rightarrow> jsstr" where
  "fail_msg m = js ''Failed to run workflow: '' @ m @ js ''.''"

text \<open>The result the page stores for the answer, and whether it starts \<open>fetchHistory\<close>.\<close>

definition submit_outcome :: "fetch_result \<Rightarrow> page_result \<times> bool" where
  "submit_outcome r =
     (case r of
        Rejected e \<Rightarrow> (ResultError (fail_msg (err_message e)), False)
      | Resolved resp \<Rightarrow>
          (if \<not> resp_ok resp
           then (ResultError (fail_msg (js ''HTTP error! status: '' @ nat_digits (status resp))), False)
           else (case body_json resp of
                   Inl e \<Rightarrow> (ResultError (fail_msg (err_message e)), False)
                 | Inr d \<Rightarrow> (ResultData d, True))))"

definition submit_finish :: "page_state \<Rightarrow> fetch_result \<Rightarrow> page_state" where
  "submit_finish s r =
     (let (res, hist) = submit_outcome r
      in s\<lparr>ui_result := Some res, ui_history_fetches := ui_history_fetches s + (if hist then 1 else 0),
           ui_loading := False, ui_prompt := [], ui_action := js ''weather'', ui_location := [],
           ui_post := None\<rparr>)"

definition history_outcome :: "fetch_result \<Rightarrow> jsval \<Rightarrow> jsval" where
  "history_outcome r old =
     (case r of
        Resolved resp \<Rightarrow>
          (if resp_ok resp
           then (case body_json resp of
                   Inl _ \<Rightarrow> old
                 | Inr d \<Rightarrow> (case get_strict (Some d) (js ''runs'') of Inl _ \<Rightarrow> old | Inr v \<Rightarrow> v))
           else old)
      | Rejected _ \<Rightarrow> old)"

definition history_finish :: "page_state \<Rightarrow> fetch_result \<Rightarrow> page_state" where
  "history_finish s r =
     s\<lparr>ui_history := history_outcome r (ui_history s), ui_show_history := True,
       ui_history_fetches := ui_history_fetches s - 1\<rparr>"

fun ui_step :: "page_state \<Rightarrow> ui_event \<Rightarrow> page_state option" where
  "ui_step s (SetPrompt p) = Some (s\<lparr>ui_prompt := p\<rparr>)"
| "ui_step s (SetAction a) = (if a \<in> set action_values then Some (s\<lparr>ui_action := a\<rparr>) else None)"
| "ui_step s (SetLocation l) = (if requires_location (ui_action s) then Some (s\<lparr>ui_location := l\<rparr>) else None)"
| "ui_step s Submit = (if submit_enabled s then Some (submit_start s) else None)"
| "ui_step s (PostReply r) = (if ui_post s \<noteq> None then Some (submit_finish s r) else None)"
| "ui_step s ViewHistory = Some (s\<lparr>ui_history_fetches := Suc (ui_history_fetches s)\<rparr>)"
| "ui_step s (HistoryReply r) = (if 0 < ui_history_fetches s then Some (history_finish s r) else None)"
| "ui_step s CloseHistory = Some (s\<lparr>ui_show_history := False\<rparr>)"

inductive page_reach :: "page_state \<Rightarrow> bool" where
  init: "page_reach page_init"
| step: "page_reach s \<Longrightarrow> ui_step s e = Some s' \<Longrightarrow> page_reach s'"

text \<open>Events handled one after the other; \<open>None\<close> when one of them cannot happen.\<close>

fun ui_run :: "page_state \<Rightarrow> ui_event list \<Rightarrow> page_state option" where
  "ui_run s [] = Some s"
| "ui_run s (e # es) = (case ui_step s e of None \<Rightarrow> None | Some s' \<Rightarrow> ui_run s' es)"

text \<open>The page after typing a prompt and a location, and after pressing the button.\<close>

definition demo_form :: page_state where
  "demo_form = the (ui_run page_init [SetPrompt (js ''  today ''), SetLocation (js '' Paris '')])"


definition demo_page :: page_state where
  "demo_page = the (ui_run page_init [SetPrompt (js ''  today ''), SetLocation (js '' Paris ''), Submit])"

text \<open>A run of the github action waiting for its answer, and the route's 200 answer
  for it.\<close>

definition github_page :: page_state where
  "github_page = the (ui_run page_init [SetPrompt (js ''repos''), SetAction (js ''github''), Submit])"

definition github_answer :: http_resp where
  "github_answer = post_http (PostOk (js ''Quick thought: repos'') (js ''No trending repos found.'')
      (js ''Quick thought: repos No trending repos found. #opensource''))"

text \<open>A payload the server's validation accepts.\<close>

definition post_accepted :: "json \<Rightarrow> bool" where
  "post_accepted P =
     (case read_body (Inr P) of
        Some (Body (Some p) (Some a) loc) \<Rightarrow> p \<noteq> [] \<and> a \<in> set action_values
      | _ \<Rightarrow> False)"

definition page_inv :: "page_state \<Rightarrow> bool" where
  "page_inv s \<longleftrightarrow> ui_action s \<in> set action_values \<and>
     (case ui_post s of None \<Rightarrow> \<not> ui_loading s | Some P \<Rightarrow> ui_loading s \<and> post_accepted P)"

subsection \<open>What the page shows\<close>

text \<open>The rendering (lines 85-295) as a function of the state: the icon of the action
  select (lines 85-86), the location field (lines 148-160), the submit button (lines
  164-180), the results panel (lines 200-247) and the history section (lines 251-292).
  Only what the JSX computes is modelled, not the markup; \<open>toLocaleString\<close> of a run's
  date is left as the value it formats.\<close>

definition action_icon :: "jsstr \<Rightarrow> jsstr \<times> jsstr" where
  "action_icon a =
     (if a = js ''weather'' then (js ''Cloud'', js ''text-blue-500'')
      else if a = js ''github'' then (js ''Github'', js ''text-gray-800'')
      else if a = js ''news'' then (js ''Newspaper'', js ''text-red-500'')
      else (js ''Bot'', js ''text-gray-500''))"

definition location_field :: "jsstr \<Rightarrow> (jsstr \<times> jsstr) option" where
  "location_field a =
     (if requires_location a
      then Some (if a = js ''weather'' then (js ''(optional)'', js ''e.g., Delhi, London, New York'')
                 else (js ''(optional - defaults to global news)'', js ''e.g., US, UK, India''))
      else None)"

definition api_label :: "jsstr \<Rightarrow> jsstr" where
  "api_label a =
     (if a = js ''weather'' then js ''Weather Data''
      else if a = js ''github'' then js ''GitHub Trending'' else js ''Latest News'')"

datatype result_view = Spinner | ErrorBox jsval | DataBox jsval jsstr jsval jsval | Placeholder

definition result_view :: "page_state \<Rightarrow> result_view" where
  "result_view s =
     (if ui_loading s then Spinner
      else (case ui_result s of
              None \<Rightarrow> Placeholder
            | Some (ResultError m) \<Rightarrow> ErrorBox (Some (JStr m))
            | Some (ResultData d) \<Rightarrow>
                (if \<not> truthy (Some d) then Placeholder
                 else if truthy (get (Some d) (js ''error'')) then ErrorBox (get (Some d) (js ''message''))
                 else DataBox (get (Some d) (js ''ai_response'')) (api_label (ui_action s))
                        (get (Some d) (js ''api_response'')) (get (Some d) (js ''final_result'')))))"

record hist_item =
  h_prompt :: jsval
  h_action :: jsval
  h_location :: "jsval option"
  h_final :: jsval
  h_created :: jsval

datatype history_view = NoHistory | HistoryItems "hist_item list"

text \<open>One entry of \<open>history.map(...)\<close>: the key reads \<open>item.id\<close> first, which throws
  for a \<open>null\<close> item; the location line is shown only for a truthy location.\<close>

definition item_view :: "json \<Rightarrow> js_error + hist_item" where
  "item_view it =
     (case get_strict (Some it) (js ''id'') of
        Inl e \<Rightarrow> Inl e
      | Inr _ \<Rightarrow>
          Inr \<lparr>h_prompt = get (Some it) (js ''prompt''), h_action = get (Some it) (js ''action''),
               h_location = (if truthy (get (Some it) (js ''location'')) then Some (get (Some it) (js ''location'')) else None),
               h_final = get (Some it) (js ''final_result''), h_created = get (Some it) (js ''created_at'')\<rparr>)"

fun items_view :: "json list \<Rightarrow> js_error + hist_item list" where
  "items_view [] = Inr []"
| "items_view (x # xs) =
     (case item_view x of
        Inl e \<Rightarrow> Inl e
      | Inr i \<Rightarrow> (case items_view xs of Inl e \<Rightarrow> Inl e | Inr is \<Rightarrow> Inr (i # is)))"

text \<open>\<open>history.length === 0 ? ... : history.map(...)\<close>\<close>

definition history_view :: "jsval \<Rightarrow> js_error + history_view" where
  "history_view h =
     (case get_strict h (js ''length'') of
        Inl e \<Rightarrow> Inl e
      | Inr len \<Rightarrow>
          (if (case len of Some (JNum m _) \<Rightarrow> m = 0 | _ \<Rightarrow> False) then Inr NoHistory
           else (case h of
                   Some (JArr xs) \<Rightarrow> (case items_view xs of Inl e \<Rightarrow> Inl e | Inr is \<Rightarrow> Inr (HistoryItems is))
                 | _ \<Rightarrow> Inl (TypeError (js ''history.map is not a function'')))))"

record page_view =
  v_icon :: "jsstr \<times> jsstr"
  v_location :: "(jsstr \<times> jsstr) option"
  v_button :: jsstr
  v_button_disabled :: bool
  v_result :: result_view
  v_history :: "(js_error + history_view) option"

definition page_view :: "page_state \<Rightarrow> page_view" where
  "page_view s =
     \<lparr>v_icon = action_icon (ui_action s), v_location = location_field (ui_action s),
      v_button = (if ui_loading s then js ''Running Workflow...'' else js ''Run Workflow''),
      v_button_disabled = \<not> submit_enabled s, v_result = result_view s,
      v_history = (if ui_show_history s then Some (history_view (ui_history s)) else None)\<rparr>"

text \<open>The work the page still waits for: a POST in flight counts twice, since its answer
  may start one more history fetch.\<close>

definition pending_work :: "page_state \<Rightarrow> nat" where
  "pending_work s = (if ui_post s = None then 0 else 2) + ui_history_fetches s"

fun is_answer :: "ui_event \<Rightarrow> bool" where
  "is_answer (PostReply _) = True"
| "is_answer (HistoryReply _) = True"
| "is_answer _ = False"

text \<open>A history entry as the page shows a run the route sent.\<close>

definition run_item :: "workflow_run \<Rightarrow> hist_item" where
  "run_item r =
     \<lparr>h_prompt = Some (JStr (prompt r)), h_action = Some (JStr (action r)), h_location = None,
      h_final = Some (JStr (final_result r)), h_created = Some (JStr (iso_string (created_at r)))\<rparr>"

subsection \<open>The invariant\<close>

lemma payload_accepted:
  assumes "js_trim (ui_prompt s) \<noteq> []" "ui_action s \<in> set action_values"
  shows "post_accepted (json_str_value (payload_fields s))"
  using assms
  by (auto simp: post_accepted_def read_body_def json_str_value_def payload_fields_def str_field_def
      js_or_def action_values_def requires_location_def js_def)

lemma read_body_payload:
  "read_body (Inr (json_str_value (payload_fields s))) =
     Some (Body (Some (js_trim (ui_prompt s))) (Some (ui_action s))
       (if requires_location (ui_action s) \<and> js_trim (ui_location s) \<noteq> [] then Some (js_trim (ui_location s)) else None))"
  by (simp add: read_body_def json_str_value_def payload_fields_def str_field_def js_or_def js_def)

lemma ui_step_inv: "ui_step s e = Some s' \<Longrightarrow> page_inv s \<Longrightarrow> page_inv s'"
  by (cases e)
     (auto simp: page_inv_def submit_start_def submit_finish_def history_finish_def submit_enabled_def
       payload_accepted action_values_def split: if_splits prod.splits option.splits)

theorem page_reach_inv: "page_reach s \<Longrightarrow> page_inv s"
proof (induction rule: page_reach.induct)
  case init
  show ?case by (simp add: page_inv_def page_init_def action_values_def)
next
  case (step s e s')
  from ui_step_inv [OF step.hyps(2) step.IH] show ?case .
qed


lemma ui_run_reach: "ui_run s es = Some s' \<Longrightarrow> page_reach s \<Longrightarrow> page_reach s'"
  by (induction s es rule: ui_run.induct) (auto intro: page_reach.step split: option.splits)

lemma demo_page_reach: "page_reach demo_page"
proof -
  have "ui_run page_init [SetPrompt (js ''  today ''), SetLocation (js '' Paris ''), Submit] = Some demo_page"
    by (simp add: demo_page_def page_init_def requires_location_def submit_enabled_def js_trim_def
        trim_start_def trim_end_def js_lit)
  then show ?thesis using page_reach.init by (rule ui_run_reach)
qed

lemma demo_page_post:
  "ui_post demo_page = Some (json_str_value [(js ''prompt'', js ''today''), (js ''action'', js ''weather''),
     (js ''location'', js ''Paris'')])"
  by (simp add: demo_page_def page_init_def requires_location_def submit_enabled_def submit_start_def
      payload_fields_def js_trim_def trim_start_def trim_end_def js_lit)

lemma post_handler_valid_not_400:
  "p \<noteq> [] \<Longrightarrow> a \<noteq> [] \<Longrightarrow> fst (post_handler cfg w (Body (Some p) (Some a) loc) st) \<noteq> PostBadRequest m"
  by (auto simp: post_handler_def run_pipeline_def server_error_def str_truthy_def Let_def
      split: option.splits sum.splits prod.splits)

subsection \<open>The page and the server\<close>

text \<open>C10. Every POST the page has in flight passes the server's validation: the server
  reads a non-empty prompt and action from it and never answers 400, whatever its
  configuration, world and store.\<close>

theorem page_post_passes_validation:
  assumes "page_reach s" "ui_post s = Some P"
  shows "\<exists>p a loc. read_body (Inr P) = Some (Body (Some p) (Some a) loc) \<and> p \<noteq> [] \<and>
           (\<forall>m. fst (post_handler cfg w (Body (Some p) (Some a) loc) st) \<noteq> PostBadRequest m)"
proof -
  from page_reach_inv [OF assms(1)] assms(2) have "post_accepted P" by (simp add: page_inv_def)
  then obtain p a loc where "read_body (Inr P) = Some (Body (Some p) (Some a) loc)" "p \<noteq> []"
      "a \<in> set action_values"
    by (auto simp: post_accepted_def split: option.splits post_body.splits)
  moreover then have "a \<noteq> []" by (auto simp: action_values_def js_def)
  ultimately show ?thesis using post_handler_valid_not_400 by blast
qed

theorem page_post_passes_validation_witness:
  "page_reach demo_page \<and>
   ui_post demo_page = Some (json_str_value [(js ''prompt'', js ''today''), (js ''action'', js ''weather''),
     (js ''location'', js ''Paris'')]) \<and>
   (\<exists>p a loc. read_body (Inr (json_str_value [(js ''prompt'', js ''today''), (js ''action'', js ''weather''),
     (js ''location'', js ''Paris'')])) = Some (Body (Some p) (Some a) loc) \<and> p \<noteq> [] \<and>
     (\<forall>m. fst (post_handler demo_config demo_world (Body (Some p) (Some a) loc) empty_store) \<noteq> PostBadRequest m))"
  using page_post_passes_validation [OF demo_page_reach demo_page_post] demo_page_reach demo_page_post
  by blast

text \<open>C23. The page has at most one POST in flight: while it waits for an answer the
  submit button is disabled, so a second submission cannot start.\<close>

theorem page_one_post:
  assumes "page_reach s" "ui_post s \<noteq> None"
  shows "ui_step s Submit = None"
  using page_reach_inv [OF assms(1)] assms(2) by (auto simp: page_inv_def submit_enabled_def)

theorem page_one_post_witness:
  "page_reach demo_page \<and> ui_post demo_page \<noteq> None \<and> ui_step demo_page Submit = None"
  using page_one_post [OF demo_page_reach] demo_page_reach demo_page_post by simp

text \<open>C24. When the answer of the POST arrives, whatever it is, the page stores the result
  of \<open>submit_outcome\<close>, stops loading and resets the form: prompt and location empty,
  action \<open>weather\<close>. What the user typed while the request was in flight is discarded.\<close>

theorem page_reply_resets:
  assumes "ui_step s (PostReply r) = Some s'"
  shows "ui_result s' = Some (fst (submit_outcome r)) \<and> \<not> ui_loading s' \<and> ui_post s' = None \<and>
    ui_prompt s' = [] \<and> ui_action s' = js ''weather'' \<and> ui_location s' = []"
  using assms by (auto simp: submit_finish_def split: if_splits prod.splits)

theorem page_reply_resets_witness:
  "ui_step (demo_page\<lparr>ui_prompt := js ''typed meanwhile''\<rparr>) (PostReply (Rejected (TypeError (js ''Failed to fetch'')))) =
     Some (submit_finish (demo_page\<lparr>ui_prompt := js ''typed meanwhile''\<rparr>) (Rejected (TypeError (js ''Failed to fetch'')))) \<and>
   ui_result (submit_finish (demo_page\<lparr>ui_prompt := js ''typed meanwhile''\<rparr>) (Rejected (TypeError (js ''Failed to fetch'')))) =
     Some (fst (submit_outcome (Rejected (TypeError (js ''Failed to fetch''))))) \<and>
   ui_prompt (submit_finish (demo_page\<lparr>ui_prompt := js ''typed meanwhile''\<rparr>) (Rejected (TypeError (js ''Failed to fetch'')))) = []"
proof -
  have h: "ui_step (demo_page\<lparr>ui_prompt := js ''typed meanwhile''\<rparr>) (PostReply (Rejected (TypeError (js ''Failed to fetch'')))) =
     Some (submit_finish (demo_page\<lparr>ui_prompt := js ''typed meanwhile''\<rparr>) (Rejected (TypeError (js ''Failed to fetch''))))"
    using demo_page_post by simp
  show ?thesis using page_reply_resets [OF h] h by simp
qed

text \<open>C25. The page never shows the server's error message: for a 500 (or 400) answer
  it shows only the status, \<open>"Failed to run workflow: HTTP error! status: 500."\<close>,
  whatever \<open>error\<close> the body carries.\<close>

theorem page_hides_server_error:
  "submit_outcome (Resolved (post_http (PostError m))) =
     (ResultError (js ''Failed to run workflow: HTTP error! status: 500.''), False) \<and>
   submit_outcome (Resolved (post_http (PostBadRequest m))) =
     (ResultError (js ''Failed to run workflow: HTTP error! status: 400.''), False)"
  by (simp add: submit_outcome_def post_http_def status_of_def resp_ok_def fail_msg_def nat_digits.simps js_def)


subsection \<open>What the page shows, liveness and termination\<close>

text \<open>C12. After a successful run the results panel labels the API response with the
  action the form holds then, and the form has been reset to \<open>weather\<close>: whatever
  action was run, the label reads \<open>"Weather Data"\<close>.\<close>

theorem page_api_label_after_reply:
  assumes "ui_step s (PostReply (Resolved resp)) = Some s'" "resp_ok resp" "body_json resp = Inr d"
    and "truthy (Some d)" "\<not> truthy (get (Some d) (js ''error''))"
  shows "v_result (page_view s') =
    DataBox (get (Some d) (js ''ai_response'')) (js ''Weather Data'') (get (Some d) (js ''api_response''))
      (get (Some d) (js ''final_result''))"
  using assms
  by (auto simp: page_view_def result_view_def submit_finish_def submit_outcome_def api_label_def
      split: if_splits)

theorem page_api_label_after_reply_witness:
  "ui_action github_page = js ''github'' \<and>
   ui_step github_page (PostReply (Resolved github_answer)) = Some (submit_finish github_page (Resolved github_answer)) \<and>
   resp_ok github_answer \<and>
   body_json github_answer = Inr (json_str_value (post_fields (PostOk (js ''Quick thought: repos'')
      (js ''No trending repos found.'') (js ''Quick thought: repos No trending repos found. #opensource'')))) \<and>
   truthy (Some (json_str_value (post_fields (PostOk (js ''Quick thought: repos'')
      (js ''No trending repos found.'') (js ''Quick thought: repos No trending repos found. #opensource''))))) \<and>
   \<not> truthy (get (Some (json_str_value (post_fields (PostOk (js ''Quick thought: repos'')
      (js ''No trending repos found.'') (js ''Quick thought: repos No trending repos found. #opensource''))))) (js ''error'')) \<and>
   v_result (page_view (submit_finish github_page (Resolved github_answer))) =
     DataBox (Some (JStr (js ''Quick thought: repos''))) (js ''Weather Data'') (Some (JStr (js ''No trending repos found.'')))
       (Some (JStr (js ''Quick thought: repos No trending repos found. #opensource'')))"
proof -
  have g: "ui_action github_page = js ''github''" "ui_post github_page \<noteq> None"
    by (simp_all add: github_page_def page_init_def action_values_def submit_enabled_def submit_start_def
        js_trim_def trim_start_def trim_end_def js_lit)
  then have st: "ui_step github_page (PostReply (Resolved github_answer)) = Some (submit_finish github_page (Resolved github_answer))"
    by simp
  have h: "resp_ok github_answer"
    "body_json github_answer = Inr (json_str_value (post_fields (PostOk (js ''Quick thought: repos'')
      (js ''No trending repos found.'') (js ''Quick thought: repos No trending repos found. #opensource''))))"
    "truthy (Some (json_str_value (post_fields (PostOk (js ''Quick thought: repos'')
      (js ''No trending repos found.'') (js ''Quick thought: repos No trending repos found. #opensource'')))))"
    "\<not> truthy (get (Some (json_str_value (post_fields (PostOk (js ''Quick thought: repos'')
      (js ''No trending repos found.'') (js ''Quick thought: repos No trending repos found. #opensource''))))) (js ''error''))"
    by (simp_all add: github_answer_def post_http_def status_of_def resp_ok_def json_str_value_def post_fields_def js_def)
  show ?thesis
    using page_api_label_after_reply [OF st h] g st h
    by (simp add: json_str_value_def post_fields_def js_def)
qed


lemma items_view_runs: "items_view (map run_json rs) = Inr (map run_item rs)"
  by (induction rs)
     (simp_all add: item_view_def run_json_def run_item_def get_strict_def js_def)

text \<open>C11. The history the route sends always renders: when the database answers, the
  page's history section lists the runs of the answer in its order, each with its prompt,
  action, final result and date, and never a location (the runs have none); when the
  route fails, the page keeps the history it showed.\<close>

theorem page_renders_route_history:
  assumes "db_connect w = None" "db_find w = None"
  shows "history_view (history_outcome (Resolved (history_http (history_handler w st))) old) =
           Inr (if history st = [] then NoHistory else HistoryItems (map run_item (history st))) \<and>
         history_outcome (Resolved (history_http (HistoryError m))) old = old"
proof -
  have "history_outcome (Resolved (history_http (history_handler w st))) old = Some (JArr (map run_json (history st)))"
    using assms by (simp add: history_handler_def history_outcome_def history_http_def history_json_def
        resp_ok_def get_strict_def js_def Let_def)
  then show ?thesis
    by (simp add: history_view_def get_strict_def items_view_runs history_outcome_def history_http_def resp_ok_def
        js_def)
qed

theorem page_renders_route_history_witness:
  "db_connect demo_world = None \<and> db_find demo_world = None \<and>
   history_view (history_outcome (Resolved (history_http (history_handler demo_world two_runs))) (Some (JArr []))) =
     Inr (if history two_runs = [] then NoHistory else HistoryItems (map run_item (history two_runs))) \<and>
   history_outcome (Resolved (history_http (HistoryError (js ''Server error'')))) (Some (JArr [])) = Some (JArr [])"
proof -
  have w: "db_connect demo_world = None" "db_find demo_world = None" by (simp_all add: demo_world_def)
  show ?thesis using page_renders_route_history [OF w, of two_runs "Some (JArr [])" "js ''Server error''"] w
    by simp
qed

lemma ui_run_append: "ui_run s (xs @ ys) = (case ui_run s xs of None \<Rightarrow> None | Some s' \<Rightarrow> ui_run s' ys)"
  by (induction s xs rule: ui_run.induct) (auto split: option.splits)

lemma history_finish_fields [simp]:
  "ui_post (history_finish s r) = ui_post s" "ui_loading (history_finish s r) = ui_loading s"
  "ui_history_fetches (history_finish s r) = ui_history_fetches s - 1"
  by (simp_all add: history_finish_def)

lemma drain_history:
  "\<exists>s'. ui_run s (replicate (ui_history_fetches s) (HistoryReply r)) = Some s' \<and>
     ui_history_fetches s' = 0 \<and> ui_post s' = ui_post s \<and> ui_loading s' = ui_loading s"
proof (induction "ui_history_fetches s" arbitrary: s)
  case 0
  then show ?case by simp
next
  case (Suc n)
  have n: "n = ui_history_fetches (history_finish s r)" using Suc.hyps(2) by simp
  from Suc.hyps(1) [OF n] n [symmetric] obtain s' where
    "ui_run (history_finish s r) (replicate n (HistoryReply r)) = Some s'" "ui_history_fetches s' = 0"
    "ui_post s' = ui_post s" "ui_loading s' = ui_loading s"
    by (metis history_finish_fields(1,2))
  moreover have "replicate (ui_history_fetches s) (HistoryReply r) = HistoryReply r # replicate n (HistoryReply r)"
    using Suc.hyps(2) [symmetric] by simp
  ultimately show ?case using Suc.hyps(2) [symmetric] by simp
qed

text \<open>C14. The page never gets stuck: from every reachable state, delivering the answers
  it waits for (the POST's, then every history fetch's) brings it to a state that is not
  loading and waits for nothing.\<close>

theorem page_can_settle:
  assumes "page_reach s"
  shows "\<exists>es s'. list_all is_answer es \<and> ui_run s es = Some s' \<and>
           \<not> ui_loading s' \<and> ui_post s' = None \<and> ui_history_fetches s' = 0"
proof -
  let ?r = "Rejected (TypeError (js ''Failed to fetch''))"
  have "\<exists>s0. ui_run s (if ui_post s = None then [] else [PostReply ?r]) = Some s0 \<and>
      ui_post s0 = None \<and> \<not> ui_loading s0"
  proof (cases "ui_post s")
    case None
    with page_reach_inv [OF assms] show ?thesis by (simp add: page_inv_def)
  next
    case (Some P)
    then show ?thesis by (simp add: submit_finish_def submit_outcome_def)
  qed
  then obtain s0 where s0: "ui_run s (if ui_post s = None then [] else [PostReply ?r]) = Some s0"
      "ui_post s0 = None" "\<not> ui_loading s0"
    by blast
  obtain s' where "ui_run s0 (replicate (ui_history_fetches s0) (HistoryReply ?r)) = Some s'"
      "ui_history_fetches s' = 0" "ui_post s' = None" "\<not> ui_loading s'"
    using drain_history [of s0 ?r] s0 by auto
  then show ?thesis
    using s0
    by (intro exI [of _ "(if ui_post s = None then [] else [PostReply ?r]) @ replicate (ui_history_fetches s0) (HistoryReply ?r)"])
       (simp add: ui_run_append list_all_iff)
qed


theorem page_can_settle_witness:
  "page_reach demo_page \<and>
   (\<exists>es s'. list_all is_answer es \<and> ui_run demo_page es = Some s' \<and>
      \<not> ui_loading s' \<and> ui_post s' = None \<and> ui_history_fetches s' = 0)"
  using page_can_settle [OF demo_page_reach] demo_page_reach by blast

lemma answer_decreases: "ui_step s e = Some s' \<Longrightarrow> is_answer e \<Longrightarrow> pending_work s' < pending_work s"
  by (cases e) (auto simp: pending_work_def submit_finish_def split: if_splits prod.splits)

text \<open>C15. Without user input the page comes to rest: every sequence of answers it can
  process is shorter than the work it waits for (two for a POST in flight, whose answer
  may start a history fetch, and one per history fetch), and each answer lowers that
  work.\<close>

theorem page_answers_terminate:
  "ui_run s es = Some s' \<Longrightarrow> list_all is_answer es \<Longrightarrow> length es + pending_work s' \<le> pending_work s"
proof (induction s es rule: ui_run.induct)
  case (1 s)
  then show ?case by simp
next
  case (2 s e es)
  then obtain s1 where s1: "ui_step s e = Some s1" "ui_run s1 es = Some s'"
    by (auto split: option.splits)
  with 2 have "length es + pending_work s' \<le> pending_work s1" by simp
  moreover have "pending_work s1 < pending_work s" using answer_decreases [OF s1(1)] 2 by simp
  ultimately show ?case by simp
qed

theorem page_answers_terminate_witness:
  "ui_run demo_page [PostReply (Rejected (TypeError (js ''Failed to fetch'')))] =
     Some (submit_finish demo_page (Rejected (TypeError (js ''Failed to fetch'')))) \<and>
   list_all is_answer [PostReply (Rejected (TypeError (js ''Failed to fetch'')))] \<and>
   length [PostReply (Rejected (TypeError (js ''Failed to fetch'')))] +
     pending_work (submit_finish demo_page (Rejected (TypeError (js ''Failed to fetch'')))) \<le> pending_work demo_page"
proof -
  have r: "ui_run demo_page [PostReply (Rejected (TypeError (js ''Failed to fetch'')))] =
     Some (submit_finish demo_page (Rejected (TypeError (js ''Failed to fetch''))))"
    using demo_page_post by simp
  have a: "list_all is_answer [PostReply (Rejected (TypeError (js ''Failed to fetch'')))]" by simp
  show ?thesis using page_answers_terminate [OF r a] r a by blast
qed

end
