(* ===== verification/Concurrency.thy ===== *)
theory Concurrency
  imports Orchestrator
begin

text \<open>
  Concurrent requests. Node serves the POST handlers of several requests on one event
  loop, and each handler gives way at every \<open>await\<close>; only two of its awaits touch the
  run store: \<open>WorkflowRun.create\<close> at the start and \<open>findByIdAndUpdate\<close> at the end
  (\<open>src/src/app/api/run_workflow/route.js\<close>, lines 133-140 and 176-180), and the steps
  between them read nothing from the store. So a concurrent execution is an interleaving of
  two kinds of step on the shared store: \<open>start\<close> validates a request and creates its
  pending run, \<open>finish\<close> runs the rest of the handler (\<open>run_pipeline\<close>) of a request in
  flight against the store as it is then. The lemmas show that every reachable state
  keeps the store invariant with the run of each request in flight still pending, that a
  finished run is never changed again, that every stored run satisfies the schema's
  \<open>required\<close> validators, and that the sequential handler is one such interleaving.
\<close>

datatype inflight = Req (req_id: nat) (req_prompt: jsstr) (req_action: jsstr) (req_location: "jsstr option")

inductive conc_step :: "config \<Rightarrow> store \<times> inflight list \<Rightarrow> store \<times> inflight list \<Rightarrow> bool"
  for cfg where
  start: "p \<noteq> [] \<Longrightarrow> a \<noteq> [] \<Longrightarrow>
    conc_step cfg (st, q) (fst (create_run st p a t), q @ [Req (next_id st) p a loc])"
| finish: "rq \<in> set q \<Longrightarrow>
    conc_step cfg (st, q)
      (snd (run_pipeline cfg w (req_prompt rq) (req_action rq) (req_location rq) (req_id rq) st), remove1 rq q)"

inductive reach :: "config \<Rightarrow> store \<times> inflight list \<Rightarrow> bool" for cfg where
  init: "reach cfg (empty_store, [])"
| step: "reach cfg s \<Longrightarrow> conc_step cfg s s' \<Longrightarrow> reach cfg s'"

text \<open>The run of a request in flight is still the pending document its creation stored.\<close>

definition pending_for :: "store \<Rightarrow> inflight \<Rightarrow> bool" where
  "pending_for st rq =
     (case store_map st (req_id rq) of
        None \<Rightarrow> False
      | Some r \<Rightarrow> r = new_run (req_id rq) (req_prompt rq) (req_action rq) (created_at r))"

definition conc_inv :: "store \<times> inflight list \<Rightarrow> bool" where
  "conc_inv s \<longleftrightarrow> store_inv (fst s) \<and> distinct (map req_id (snd s)) \<and>
     list_all (\<lambda>rq. req_id rq < next_id (fst s) \<and> pending_for (fst s) rq) (snd s)"

text \<open>An example: request \<open>a\<close> (news) starts at time 5, request \<open>b\<close> (weather)
  starts at time 7, and \<open>a\<close> finishes while \<open>b\<close> is still in flight.\<close>

definition conc_demo :: "store \<times> inflight list" where
  "conc_demo =
     (let st1 = fst (create_run empty_store (js ''a'') (js ''news'') 5);
          st2 = fst (create_run st1 (js ''b'') (js ''weather'') 7)
      in (snd (run_pipeline demo_config demo_world (js ''a'') (js ''news'') None 0 st2),
          [Req 1 (js ''b'') (js ''weather'') None]))"

inductive_cases conc_stepE: "conc_step cfg s s'"

subsection \<open>The invariant\<close>

lemma pipeline_store:
  "snd (run_pipeline cfg w p a loc i st) = st \<or>
   (\<exists>x y z. snd (run_pipeline cfg w p a loc i st) = fst (find_by_id_and_update i (set_results x y z) st))"
  by (cases "run_pipeline cfg w p a loc i st" rule: prod.exhaust)
     (metis run_pipeline_cases snd_conv)

lemma pipeline_inv: "store_inv st \<Longrightarrow> store_inv (snd (run_pipeline cfg w p a loc i st))"
  using pipeline_store [of cfg w p a loc i st] by (auto simp: update_inv)

lemma pipeline_other:
  "j \<noteq> i \<Longrightarrow> store_map (snd (run_pipeline cfg w p a loc i st)) j = store_map st j"
  using pipeline_store [of cfg w p a loc i st] by (auto simp: store_map_update)

lemma pipeline_valid:
  "list_all run_valid (runs st) \<Longrightarrow> list_all run_valid (runs (snd (run_pipeline cfg w p a loc i st)))"
  using pipeline_store [of cfg w p a loc i st] by (auto simp: update_valid)

lemma pipeline_next_id: "next_id (snd (run_pipeline cfg w p a loc i st)) = next_id st"
  using pipeline_store [of cfg w p a loc i st] by auto

lemma create_other:
  "store_inv st \<Longrightarrow> j \<noteq> next_id st \<Longrightarrow> store_map (fst (create_run st p a t)) j = store_map st j"
  by (simp add: store_map_create)

lemma distinct_map_remove1:
  "distinct (map f xs) \<Longrightarrow> distinct (map f (remove1 x xs)) \<and> set (remove1 x xs) = set xs - {x}"
  by (induction xs) (auto dest: set_remove1_subset [THEN subsetD])

lemma store_ids_below: "store_inv st \<Longrightarrow> store_map st i = Some r \<Longrightarrow> i < next_id st"
  by (auto simp: store_inv_def store_map_def list_all_iff dest!: map_of_SomeD)

lemma conc_inv_init: "conc_inv (empty_store, [])"
  by (simp add: conc_inv_def store_inv_empty)

lemma conc_inv_start:
  assumes "conc_inv (st, q)"
  shows "conc_inv (fst (create_run st p a t), q @ [Req (next_id st) p a loc])"
proof -
  from assms have inv: "store_inv st" and ids: "list_all (\<lambda>rq. req_id rq < next_id st) q"
    by (auto simp: conc_inv_def list_all_iff)
  then have "next_id st \<notin> set (map req_id q)" by (auto simp: list_all_iff)
  moreover have "pending_for (fst (create_run st p a t)) rq" if "rq \<in> set q" for rq
  proof -
    from that ids have "req_id rq \<noteq> next_id st" by (auto simp: list_all_iff)
    with that assms inv show ?thesis
      by (auto simp: conc_inv_def list_all_iff pending_for_def create_other)
  qed
  ultimately show ?thesis
    using assms inv by (auto simp: conc_inv_def list_all_iff create_run_inv pending_for_def store_map_create)
qed

lemma conc_inv_finish:
  assumes "conc_inv (st, q)" "rq \<in> set q"
  shows "conc_inv (snd (run_pipeline cfg w (req_prompt rq) (req_action rq) (req_location rq) (req_id rq) st), remove1 rq q)"
proof -
  let ?st' = "snd (run_pipeline cfg w (req_prompt rq) (req_action rq) (req_location rq) (req_id rq) st)"
  from assms(1) have d: "distinct (map req_id q)" by (simp add: conc_inv_def)
  note r = distinct_map_remove1 [OF d, of rq]
  have "pending_for ?st' rq'" "req_id rq' < next_id ?st'" if "rq' \<in> set (remove1 rq q)" for rq'
  proof -
    from that r have "rq' \<in> set q" "rq' \<noteq> rq" by auto
    with d assms(2) have "req_id rq' \<noteq> req_id rq"
      by (metis distinct_map inj_onD)
    with \<open>rq' \<in> set q\<close> assms(1) show "pending_for ?st' rq'" "req_id rq' < next_id ?st'"
      by (auto simp: conc_inv_def list_all_iff pending_for_def pipeline_other pipeline_next_id)
  qed
  with assms r show ?thesis
    by (auto simp: conc_inv_def list_all_iff pipeline_inv)
qed

lemma conc_step_inv: "conc_step cfg s s' \<Longrightarrow> conc_inv s \<Longrightarrow> conc_inv s'"
  by (induction rule: conc_step.induct) (auto intro: conc_inv_start conc_inv_finish)

text \<open>C20. In every state reachable by any interleaving of requests, the store invariant
  holds, the requests in flight have distinct ids below the counter, and the run of each
  request in flight is still the pending document its creation stored.\<close>

theorem reach_conc_inv: "reach cfg s \<Longrightarrow> conc_inv s"
  by (induction rule: reach.induct) (auto intro: conc_inv_init conc_step_inv)

lemma reach_conc_demo: "reach demo_config conc_demo"
proof -
  let ?st1 = "fst (create_run empty_store (js ''a'') (js ''news'') 5)"
  let ?st2 = "fst (create_run ?st1 (js ''b'') (js ''weather'') 7)"
  have r1: "reach demo_config (?st1, [Req 0 (js ''a'') (js ''news'') None])"
    using reach.step [OF reach.init conc_step.start [where p = "js ''a''" and a = "js ''news''" and t = 5
        and loc = None and st = empty_store and q = "[]"]]
    by (simp add: js_def empty_store_def)
  have r2: "reach demo_config (?st2, [Req 0 (js ''a'') (js ''news'') None, Req 1 (js ''b'') (js ''weather'') None])"
    using reach.step [OF r1 conc_step.start [where p = "js ''b''" and a = "js ''weather''" and t = 7
        and loc = None and st = ?st1 and q = "[Req 0 (js ''a'') (js ''news'') None]"]]
    by (simp add: js_def empty_store_def)
  show ?thesis
    using reach.step [OF r2 conc_step.finish [where rq = "Req 0 (js ''a'') (js ''news'') None" and w = demo_world]]
    by (simp add: conc_demo_def Let_def)
qed

theorem reach_conc_inv_witness: "reach demo_config conc_demo \<and> conc_inv conc_demo"
  using reach_conc_demo reach_conc_inv [OF reach_conc_demo] by simp


lemma reach_rtranclp: "(conc_step cfg)\<^sup>*\<^sup>* s s' \<Longrightarrow> reach cfg s \<Longrightarrow> reach cfg s'"
  by (induction rule: rtranclp_induct) (auto intro: reach.step)

lemma conc_step_keeps:
  "conc_step cfg s s' \<Longrightarrow> conc_inv s \<Longrightarrow> store_map (fst s) i = Some r \<Longrightarrow> i \<notin> set (map req_id (snd s)) \<Longrightarrow>
   store_map (fst s') i = Some r \<and> i \<notin> set (map req_id (snd s'))"
proof (induction rule: conc_step.induct)
  case (start p a st q t loc)
  then have "i \<noteq> next_id st" by (auto simp: conc_inv_def dest: store_ids_below)
  with start show ?case by (simp add: conc_inv_def create_other)
next
  case (finish rq q st w)
  then have "req_id rq \<noteq> i" by force
  with finish show ?case
    by (auto simp: pipeline_other dest: set_remove1_subset [THEN subsetD])
qed

text \<open>C21. A finished run is final: whatever requests start or finish afterwards, the run
  of a request no longer in flight keeps its stored value, and its id is never in flight
  again. No request overwrites or loses the run of another.\<close>

theorem finished_run_stable:
  assumes "reach cfg (st, q)" "store_map st i = Some r" "i \<notin> set (map req_id q)"
    and "(conc_step cfg)\<^sup>*\<^sup>* (st, q) (st', q')"
  shows "store_map st' i = Some r \<and> i \<notin> set (map req_id q')"
  using assms(4)
proof (induction rule: rtranclp_induct2)
  case refl
  with assms(2,3) show ?case by simp
next
  case (step st1 q1 st2 q2)
  have inv: "conc_inv (st1, q1)"
    using reach_conc_inv [OF reach_rtranclp [OF step.hyps(1) assms(1)]] .
  from step.IH have m: "store_map st1 i = Some r" and n: "i \<notin> set (map req_id q1)" by simp_all
  from conc_step_keeps [OF step.hyps(2) inv] m n show ?case by simp
qed

text \<open>C22. The sequential handler is one interleaving: from any reachable state, the start
  and finish steps of one request lead to the store \<open>post_handler\<close> returns.\<close>

theorem post_handler_interleaving:
  assumes "reach cfg (st, q)"
  shows "(conc_step cfg)\<^sup>*\<^sup>* (st, q) (snd (post_handler cfg w body st), q)"
proof (cases "\<exists>p a loc. body = Body (Some p) (Some a) loc \<and> p \<noteq> [] \<and> a \<noteq> [] \<and>
                db_connect w = None \<and> db_create w = None")
  case True
  then obtain p a loc where b: "body = Body (Some p) (Some a) loc" "p \<noteq> []" "a \<noteq> []"
      "db_connect w = None" "db_create w = None" by blast
  let ?rq = "Req (next_id st) p a loc"
  let ?st1 = "fst (create_run st p a (clock_create w))"
  have s1: "conc_step cfg (st, q) (?st1, q @ [?rq])"
    using b by (simp add: conc_step.start)
  have s2: "conc_step cfg (?st1, q @ [?rq]) (snd (run_pipeline cfg w p a loc (next_id st) ?st1), remove1 ?rq (q @ [?rq]))"
    using conc_step.finish [where rq = ?rq and q = "q @ [?rq]" and w = w and st = ?st1] by simp
  have "?rq \<notin> set q"
    using reach_conc_inv [OF assms] by (auto simp: conc_inv_def list_all_iff)
  then have "remove1 ?rq (q @ [?rq]) = q" by (simp add: remove1_append)
  with s1 s2 b show ?thesis
    by (simp add: post_handler_valid)
next
  case False
  obtain resp st' where r: "post_handler cfg w body st = (resp, st')"
    by (cases "post_handler cfg w body st")
  from r have "st' = st"
    by (cases rule: post_handler_cases) (use False in auto)
  with r show ?thesis by simp
qed

theorem finished_run_stable_witness:
  "reach demo_config (fst conc_demo, snd conc_demo) \<and>
   store_map (fst conc_demo) 0 = Some (set_results (js ''Quick thought: a'') (js ''News API key missing'')
      (js ''Quick thought: a News API key missing #news'') (new_run 0 (js ''a'') (js ''news'') 5)) \<and>
   0 \<notin> set (map req_id (snd conc_demo)) \<and>
   (conc_step demo_config)\<^sup>*\<^sup>* (fst conc_demo, snd conc_demo)
     (snd (run_pipeline demo_config demo_world (js ''b'') (js ''weather'') None 1 (fst conc_demo)), []) \<and>
   store_map (snd (run_pipeline demo_config demo_world (js ''b'') (js ''weather'') None 1 (fst conc_demo))) 0 =
     Some (set_results (js ''Quick thought: a'') (js ''News API key missing'')
      (js ''Quick thought: a News API key missing #news'') (new_run 0 (js ''a'') (js ''news'') 5)) \<and>
   0 \<notin> set (map req_id ([] :: inflight list))"
proof -
  have r: "reach demo_config (fst conc_demo, snd conc_demo)" using reach_conc_demo by simp
  have m: "store_map (fst conc_demo) 0 = Some (set_results (js ''Quick thought: a'') (js ''News API key missing'')
      (js ''Quick thought: a News API key missing #news'') (new_run 0 (js ''a'') (js ''news'') 5))"
    by (simp add: conc_demo_def create_run_def demo_config_def demo_world_def run_pipeline_def
        ai_step_def call_openai_def use_mock_def mock_reply_def mock_short_def fetch_provider_data_def fetch_news_def
        combine_def final_text_def hashtag_def str_truthy_def empty_store_def find_by_id_and_update_def
        find_by_id_def store_map_def js_trim_def trim_start_def trim_end_def js_lit Let_def)
  have q: "0 \<notin> set (map req_id (snd conc_demo))" by (simp add: conc_demo_def Let_def)
  have "snd conc_demo = [Req 1 (js ''b'') (js ''weather'') None]" by (simp add: conc_demo_def Let_def)
  then have p: "(conc_step demo_config)\<^sup>*\<^sup>* (fst conc_demo, snd conc_demo)
     (snd (run_pipeline demo_config demo_world (js ''b'') (js ''weather'') None 1 (fst conc_demo)), [])"
    using conc_step.finish [where rq = "Req 1 (js ''b'') (js ''weather'') None" and q = "snd conc_demo"
        and st = "fst conc_demo" and w = demo_world and cfg = demo_config]
    by simp
  show ?thesis using finished_run_stable [OF r m q p] r m q p by simp
qed

theorem post_handler_interleaving_witness:
  "reach demo_config (fst conc_demo, snd conc_demo) \<and>
   (conc_step demo_config)\<^sup>*\<^sup>* (fst conc_demo, snd conc_demo)
     (snd (post_handler demo_config demo_world (Body (Some (js ''c'')) (Some (js ''github'')) None) (fst conc_demo)),
      snd conc_demo)"
proof -
  have r: "reach demo_config (fst conc_demo, snd conc_demo)" using reach_conc_demo by simp
  show ?thesis using post_handler_interleaving [OF r] r by simp
qed


lemma conc_step_valid:
  "conc_step cfg s s' \<Longrightarrow> list_all run_valid (runs (fst s)) \<Longrightarrow> list_all run_valid (runs (fst s'))"
  by (induction rule: conc_step.induct) (simp_all add: create_run_valid pipeline_valid)

text \<open>C13. Every run in a reachable store satisfies the schema's \<open>required\<close>
  validators: the handler never stores a document whose \<open>prompt\<close> or \<open>action\<close> is
  empty, and no later update touches them.\<close>

theorem reach_runs_valid: "reach cfg (st, q) \<Longrightarrow> list_all run_valid (runs st)"
proof -
  have "reach cfg s \<Longrightarrow> list_all run_valid (runs (fst s))" for s
    by (induction rule: reach.induct) (simp_all add: empty_store_def conc_step_valid)
  then show "reach cfg (st, q) \<Longrightarrow> list_all run_valid (runs st)" by force
qed

theorem reach_runs_valid_witness:
  "reach demo_config (fst conc_demo, snd conc_demo) \<and> list_all run_valid (runs (fst conc_demo))"
proof -
  have r: "reach demo_config (fst conc_demo, snd conc_demo)" using reach_conc_demo by simp
  show ?thesis using reach_runs_valid [OF r] r by simp
qed



end
