(* ===== verification/Numbers.thy ===== *)
theory Numbers
  imports Providers Complex_Main
begin

text \<open>
  The numbers of \<open>fetchWeather\<close> read over the reals. \<open>Math.round\<close>, computed on a
  decimal \<open>m * 10^e\<close> with integer division only (\<open>round_half_up\<close> of \<open>Json\<close>), is
  the floor of \<open>x + 1/2\<close>, so the temperature the weather answer prints is the integer
  nearest to \<open>temp_c\<close>, halves rounded up. This theory is separate because
  \<open>Complex_Main\<close> names its filter \<open>at\<close>, the name the JSON model gives to \<open>v?.[i]\<close>.
\<close>

lemma round_half_up_floor:
  "round_half_up m e = \<lfloor>of_int m * (10::real) powi e + 1 / 2\<rfloor>"
proof (cases "0 \<le> e")
  case True
  then have "of_int m * (10::real) powi e + 1 / 2 = of_int (m * 10 ^ nat e) + 1 / 2"
    by (simp add: power_int_def)
  also have "\<lfloor>\<dots>\<rfloor> = m * 10 ^ nat e"
    by (simp add: floor_eq_iff)
  finally show ?thesis using True by (simp add: round_half_up_def)
next
  case False
  define d :: int where "d = 10 ^ nat (- e)"
  have d: "0 < d" by (simp add: d_def)
  have "of_int m * (10::real) powi e + 1 / 2 = of_int (2 * m + d) / of_int (2 * d)"
    using False d by (simp add: power_int_def d_def field_simps)
  then have "\<lfloor>of_int m * (10::real) powi e + 1 / 2\<rfloor> = (2 * m + d) div (2 * d)"
    by (simp only: floor_divide_of_int_eq)
  then show ?thesis using False by (simp add: round_half_up_def d_def)
qed

lemma round_half_up_nearest:
  "of_int m * (10::real) powi e - 1 / 2 < of_int (round_half_up m e) \<and>
   of_int (round_half_up m e) \<le> of_int m * (10::real) powi e + 1 / 2"
  unfolding round_half_up_floor by linarith

text \<open>C34. The temperature in the weather answer is the integer nearest to the provider's
  \<open>current.temp_c\<close>, halves rounded up: whenever \<open>fetchWeather\<close> answers from a 2xx
  weatherapi.com body, the integer \<open>n\<close> it prints before the degree sign satisfies
  \<open>temp_c - 1/2 < n \<le> temp_c + 1/2\<close> (for temperatures below \<open>10^20\<close>, which print as
  plain digits).\<close>

theorem fetch_weather_temp_nearest:
  assumes "weather_api_key cfg = Some k" "k \<noteq> []"
    and "f (get_req (weather_url k (resolve_city cfg loc)) []) = Resolved res" "resp_ok res"
    and "body_json res = Inr (JObj kvs)" "map_of (rev kvs) (js ''name'') = None"
    and "map_of (rev kvs) (js ''current'') = Some (JObj cur)"
    and "map_of (rev cur) (js ''temp_c'') = Some (JNum m e)"
    and "map_of (rev cur) (js ''condition'') = Some (JObj cnd)"
    and "map_of (rev cnd) (js ''text'') = Some (JStr (c # cs))"
    and "\<bar>of_int m * (10::real) powi e\<bar> < 10 ^ 20"
  shows "\<exists>n. fetch_weather cfg f up loc =
      Inr (JStr (up c @ cs @ js '' in '' @ resolve_city cfg loc @ js '', '' @ int_to_jsstr n @ [0xB0] @ js ''C'')) \<and>
    of_int m * (10::real) powi e - 1 / 2 < of_int n \<and> of_int n \<le> of_int m * (10::real) powi e + 1 / 2"
proof -
  have "\<bar>of_int (round_half_up m e) :: real\<bar> < 10 ^ 21"
    using round_half_up_nearest [of m e] assms(11) unfolding abs_less_iff by simp
  then have b: "\<bar>round_half_up m e\<bar> < 10 ^ 21"
    by (metis of_int_abs of_int_less_iff of_int_numeral of_int_power)
  have "fetch_weather cfg f up loc =
      Inr (JStr (up c @ cs @ js '' in '' @ resolve_city cfg loc @ js '', '' @
                 int_to_jsstr (round_half_up m e) @ [0xB0] @ js ''C''))"
    using assms(1-10) b
    by (simp add: fetch_weather_def weather_success_def coalesce_def nullish_def capitalize_def
        template_str_def str_truthy_def number_to_jsstr_int Let_def)
  with round_half_up_nearest [of m e] show ?thesis by blast
qed

theorem fetch_weather_temp_nearest_witness:
  "weather_api_key weather_config = Some (js ''k'') \<and> js ''k'' \<noteq> [] \<and>
   (\<lambda>_. Resolved paris_weather) (get_req (weather_url (js ''k'') (resolve_city weather_config (Some (js ''Paris'')))) []) =
     Resolved paris_weather \<and>
   resp_ok paris_weather \<and>
   body_json paris_weather = Inr (JObj [(js ''location'', JObj [(js ''name'', JStr (js ''Paris''))]),
       (js ''current'', JObj [(js ''temp_c'', JNum 234 (-1)),
          (js ''condition'', JObj [(js ''text'', JStr (js ''partly cloudy''))])])]) \<and>
   \<bar>of_int 234 * (10::real) powi (-1)\<bar> < 10 ^ 20 \<and>
   (\<exists>n. fetch_weather weather_config (\<lambda>_. Resolved paris_weather) ascii_upcase (Some (js ''Paris'')) =
      Inr (JStr (ascii_upcase 112 @ js ''artly cloudy'' @ js '' in '' @ resolve_city weather_config (Some (js ''Paris'')) @
        js '', '' @ int_to_jsstr n @ [0xB0] @ js ''C'')) \<and>
    of_int 234 * (10::real) powi (-1) - 1 / 2 < of_int n \<and> of_int n \<le> of_int 234 * (10::real) powi (-1) + 1 / 2)"
proof -
  have h: "weather_api_key weather_config = Some (js ''k'')" "js ''k'' \<noteq> []" "resp_ok paris_weather"
    "body_json paris_weather = Inr (JObj [(js ''location'', JObj [(js ''name'', JStr (js ''Paris''))]),
       (js ''current'', JObj [(js ''temp_c'', JNum 234 (-1)),
          (js ''condition'', JObj [(js ''text'', JStr (js ''partly cloudy''))])])])"
    "\<bar>of_int 234 * (10::real) powi (-1)\<bar> < 10 ^ 20"
    by (simp_all add: weather_config_def paris_weather_def resp_ok_def power_int_def js_def)
  have f: "(\<lambda>_. Resolved paris_weather) (get_req (weather_url (js ''k'') (resolve_city weather_config (Some (js ''Paris'')))) []) =
     Resolved paris_weather" by simp
  have m: "map_of (rev [(js ''location'', JObj [(js ''name'', JStr (js ''Paris''))]),
       (js ''current'', JObj [(js ''temp_c'', JNum 234 (-1)),
          (js ''condition'', JObj [(js ''text'', JStr (js ''partly cloudy''))])])]) (js ''name'') = None"
    "map_of (rev [(js ''location'', JObj [(js ''name'', JStr (js ''Paris''))]),
       (js ''current'', JObj [(js ''temp_c'', JNum 234 (-1)),
          (js ''condition'', JObj [(js ''text'', JStr (js ''partly cloudy''))])])]) (js ''current'') =
     Some (JObj [(js ''temp_c'', JNum 234 (-1)), (js ''condition'', JObj [(js ''text'', JStr (js ''partly cloudy''))])])"
    "map_of (rev [(js ''temp_c'', JNum 234 (-1)), (js ''condition'', JObj [(js ''text'', JStr (js ''partly cloudy''))])])
     (js ''temp_c'') = Some (JNum 234 (-1))"
    "map_of (rev [(js ''temp_c'', JNum 234 (-1)), (js ''condition'', JObj [(js ''text'', JStr (js ''partly cloudy''))])])
     (js ''condition'') = Some (JObj [(js ''text'', JStr (js ''partly cloudy''))])"
    "map_of (rev [(js ''text'', JStr (js ''partly cloudy''))]) (js ''text'') = Some (JStr (112 # js ''artly cloudy''))"
    by (simp_all add: js_def)
  show ?thesis
    using fetch_weather_temp_nearest [OF h(1,2) f h(3,4) m h(5)] h f by simp
qed

end
