(* ===== verification/Spec2Isabelle.thy ===== *)
theory Spec2Isabelle
  imports Client Concurrency Numbers
begin

text \<open>
  A verification development for the upthrust workflow service (\<open>src/src\<close>): a Next.js
  route \<open>POST /api/run_workflow\<close> that stores a pending run, asks a text generator for a
  short text, asks one of three data providers for a result, combines the two with a
  hashtag and stores the results, and a route \<open>GET /api/history\<close> that lists the ten
  most recent runs. The development is a shallow embedding of the JavaScript of
  \<open>app/api/run_workflow/route.js\<close>, \<open>app/api/history/route.js\<close> and
  \<open>models/WorkFlowRun.js\<close>, and of the logic of the React page \<open>app/page.js\<close> that
  calls the two routes.

  Theories, leaves first, with what each one models:
  \<^item> \<open>JS_Base\<close> (prelude): JavaScript strings as lists of UTF-16 code units
    (\<open>16 word list\<close>, literals \<open>js ''...''\<close>), \<open>String.prototype.trim\<close> with the exact
    ECMAScript whitespace set (\<open>js_trim\<close>), UTF-16 well-formedness, and the shared lemmas
    on trimming (\<open>js_trim_id\<close>, \<open>trimmed_append_middle\<close>, \<open>js_trim_ws_around\<close>).
  \<^item> \<open>Json\<close>: values produced by \<open>JSON.parse\<close> (\<open>json\<close>, \<open>None\<close> for \<open>undefined\<close>),
    optional chaining (\<open>get\<close>, \<open>at\<close>) and strict access with V8's TypeError messages,
    \<open>||\<close>, \<open>??\<close>, truthiness, \<open>ToString\<close> of template literals (with \<open>Number::toString\<close>
    and the TypeError of an object whose own \<open>toString\<close> is not callable),
    \<open>StringToNumber\<close> and \<open>Math.round\<close>. Numbers are exact decimals \<open>m * 10^e\<close>. Lemmas:
    decimal digits are ASCII, and an integer below \<open>10^21\<close> prints as its plain digits.
  \<^item> \<open>Numbers\<close>: \<open>Math.round\<close> read over the reals (\<open>\<lfloor>x + 1/2\<rfloor>\<close>), and the temperature
    of the weather answer as the nearest integer to \<open>temp_c\<close>.
  \<^item> \<open>Runtime\<close>: the configuration read from \<open>process.env\<close> (\<open>config\<close>), HTTP requests
    and responses, the fetch oracle (\<open>fetcher\<close>), \<open>JSON.stringify\<close> of a string
    (\<open>json_quote\<close>) and of a JSON value (\<open>json_text\<close>), \<open>toISOString\<close>
    (\<open>iso_string\<close>), and a reference decoder of JSON string literals
    (\<open>json_parse_string\<close>) that reads every quoted string back; \<open>json_quote\<close> is
    well-formed UTF-16 for every argument.
  \<^item> \<open>Composer\<close>: the combine step (route lines 168-173): \<open>hashtag\<close>, the defensive trims
    \<open>trim_value\<close>, \<open>final_text\<close>, \<open>combine\<close>; lemmas give the shape of the final string on
    every branch and its insensitivity to surrounding whitespace.
  \<^item> \<open>Generator\<close>: \<open>callOpenAI\<close> (lines 9-48) as \<open>call_openai\<close>, mock and remote mode;
    lemmas on the mock snippet's length, the mock reply, the removal of code fences, and
    the cut of a surrogate pair by the truncation.
  \<^item> \<open>Providers\<close>: \<open>fetchWeather\<close>, \<open>fetchGithubTrending\<close>, \<open>fetchNews\<close> (lines 50-113),
    \<open>capitalize\<close>, \<open>encodeURIComponent\<close> (\<open>uri_encode\<close>), the ISO date of the GitHub query
    (\<open>iso_date\<close>, Hinnant's civil-from-days), and the dispatch on the action with its
    \<open>catch\<close> (\<open>fetch_provider_data\<close>, lines 151-166); lemmas give each fetcher's fixed
    answers, the weather answer's format, the GitHub answer's first three entries, and that
    the GitHub URL is always built.
  \<^item> \<open>Store\<close>: the \<open>WorkflowRun\<close> document (\<open>workflow_run\<close>), the store (documents in
    insertion order and an id counter), \<open>create_run\<close>, \<open>find_by_id_and_update\<close>, the
    history query \<open>history\<close> (a stable sort on \<open>-created_at\<close> and the first ten), the
    invariant \<open>store_inv\<close> (distinct ids below the counter), and the refinement
    \<open>store_map\<close> of the store by a finite map from ids to runs.
  \<^item> \<open>Orchestrator\<close>: \<open>POST\<close> as \<open>post_handler\<close> (\<open>run_pipeline\<close> for the steps after the
    run is created) and \<open>GET\<close> as \<open>history_handler\<close>; lemmas classify every outcome of
    the handler (\<open>post_handler_cases\<close>: store unchanged, pending run left, or run
    finalized) and prove the contract of each outcome.
  \<^item> \<open>HistoryApi\<close>: what \<open>GET /api/history\<close> sends (\<open>history_http\<close>): the lean run
    documents as JSON (\<open>run_json\<close>, with \<open>created_at\<close> written by \<open>toISOString\<close>).
  \<^item> \<open>Concurrency\<close>: requests interleaved at their awaits, an inductive step relation
    \<open>conc_step\<close> with a start step (validation and create) and a finish step
    (\<open>run_pipeline\<close> against the store as it is then), its reachable states \<open>reach\<close>,
    and their invariant \<open>conc_inv\<close> proved by rule induction.
  \<^item> \<open>Client\<close>: the page as a state machine: its state hooks as \<open>page_state\<close>, each
    user action or answer as a \<open>ui_event\<close>, \<open>handleSubmit\<close> and \<open>fetchHistory\<close> split at
    their awaits (\<open>submit_start\<close>, \<open>submit_finish\<close>, \<open>history_finish\<close>) in \<open>ui_step\<close>,
    the rendering as \<open>page_view\<close> (results panel, history list and its render errors),
    and the reachable states \<open>page_reach\<close> with their invariant \<open>page_inv\<close>. The page
    meets the server through \<open>read_body\<close> (the payload it sends) and \<open>post_http\<close> (the
    answer the route sends).
  \<^item> this root theory: the properties that span the page, the server and the store.

  How the code's effects are modelled: every call to the outside (fetch, the clock, the
  database) takes its outcome from a \<open>world\<close> record passed to the handler; the store is
  passed in and returned; every exception is an \<open>Inl\<close> of a sum type carrying the
  message the code reads; \<open>try\<close>/\<open>catch\<close> is a case split on that sum. The handlers have
  no loops beyond list traversals, all defined by structural recursion or by \<open>function\<close>
  with a measure (\<open>remove_all\<close>, \<open>nat_digits\<close>, \<open>strip_zeros\<close>), so every definition is
  total and executable and no fuel is needed. The page's pending work (\<open>pending_work\<close>)
  is the ranking function of its answers. Concurrency is the only unbounded
  behaviour, and it is a relation: the properties over it hold for every interleaving of
  any number of requests.

  The main results, by group:
  \<^item> the POST contract: a 200 answer carries trimmed strings ending with the action's
    hashtag and the store gained exactly that run (\<open>post_handler_success\<close>); invalid
    requests store nothing (\<open>post_handler_rejects_invalid\<close>); a failed create stores
    nothing and a failed update leaves the pending run; every request keeps the store
    invariant and loses no stored run; network failures are isolated, and the one way a
    valid request with a working database fails is an API response that is an object
    with a \<open>trim\<close> member (\<open>post_handler_valid_failure\<close>); a failure of the
    generator is answered 200 with \<open>"AI error: "\<close> and its message;
  \<^item> the combine step's shape and whitespace insensitivity; the mock snippet's length and
    the prompts it keeps whole (at most 80 units), the surrogate pair it cuts in half; the
    remote request body, well-formed UTF-16 with the prompt decodable from it; the remote
    reply free of code fences; the providers' fixed answers and formats, and
    the trending list's first three repositories in the answer's order;
  \<^item> the history query: at most ten runs, most recent first, none newer left out;
  \<^item> concurrency: the invariant of every reachable state, finished runs are final, and
    the sequential handler is one interleaving, and every stored run satisfies the
    schema's \<open>required\<close> validators;
  \<^item> numbers: the weather answer prints the integer nearest to \<open>temp_c\<close>, halves up;
  \<^item> the page: at most one POST in flight, every POST it sends passes the server's
    validation, the form is reset on every answer, and the server's error text is never
    shown, the API response is labelled with the reset action (\<open>"Weather Data"\<close>), the
    route's history always renders, the page can always settle and, without user input,
    settles after at most its pending work in answers;
  \<^item> page, server and store together (this theory): from every reachable page state a
    submission in mock mode with a working database is answered 200 with the trimmed mock
    reply to the trimmed prompt, the page shows the three strings, and the history lists
    the run first.

  Not modelled: \<open>JSON.parse\<close> of response texts (the world gives a response's text and
  parsed value together), \<open>dbConnect\<close> of \<open>@/lib/mongoose\<close> (not in the sources; an
  outcome of the world), the Unicode case tables (a parameter), daylight-saving changes of
  the local time zone, IEEE rounding of numbers with more than 15 significant digits,
  Mongoose's casting of non-string request fields (such requests are outside
  \<open>read_body\<close>), the order MongoDB gives runs of equal \<open>created_at\<close> (the model keeps
  insertion order), the page's markup and styles and \<open>toLocaleString\<close> of a run's date; \<open>JSON.stringify\<close>
  followed by \<open>JSON.parse\<close> is taken to give back the page's payload.
\<close>

text \<open>C9. The page, the server and the store together: from every state the page can
  reach, pressing the button sends a payload the server reads as the trimmed prompt, the
  action and the location; with the mock generator, a working database and a provider that
  answers a string, the server answers 200 with the trimmed mock reply to the trimmed
  prompt and a final result ending with the action's hashtag; the page shows exactly these
  three strings; and the history query lists the finalized run first when its creation
  time is later than every stored run's.\<close>

theorem page_server_mock_run:
  assumes "page_reach s" "ui_step s Submit = Some s1"
    and "use_mock cfg" "db_connect w = None" "db_create w = None" "db_update w = None"
    and "\<forall>loc. \<exists>t. fetch_provider_data cfg (fetch w) (upcase w) (clock_github w) (ui_action s) loc = JStr t"
    and "store_inv st" "list_all (\<lambda>r. created_at r < clock_create w) (runs st)"
  shows "\<exists>loc api fin st'.
     read_body (Inr (the (ui_post s1))) = Some (Body (Some (js_trim (ui_prompt s))) (Some (ui_action s)) loc) \<and>
     post_handler cfg w (Body (Some (js_trim (ui_prompt s))) (Some (ui_action s)) loc) st =
       (PostOk (js_trim (mock_reply (js_trim (ui_prompt s)))) api fin, st') \<and>
     (\<exists>u. fin = u @ hashtag (ui_action s)) \<and>
     ui_result (submit_finish s1 (Resolved (post_http (PostOk (js_trim (mock_reply (js_trim (ui_prompt s)))) api fin)))) =
       Some (ResultData (json_str_value [(js ''ai_response'', js_trim (mock_reply (js_trim (ui_prompt s)))),
         (js ''api_response'', api), (js ''final_result'', fin)])) \<and>
     hd (history st') = set_results (js_trim (mock_reply (js_trim (ui_prompt s)))) api fin
       (new_run (next_id st) (js_trim (ui_prompt s)) (ui_action s) (clock_create w))"
proof -
  let ?p = "js_trim (ui_prompt s)" and ?a = "ui_action s" and ?ai = "js_trim (mock_reply (js_trim (ui_prompt s)))"
  define loc where "loc = (if requires_location ?a \<and> js_trim (ui_location s) \<noteq> [] then Some (js_trim (ui_location s)) else None)"
  from assms(2) have p: "?p \<noteq> []" and s1: "s1 = submit_start s"
    by (simp_all add: submit_enabled_def split: if_splits)
  have "?a \<in> set action_values" using page_reach_inv [OF assms(1)] by (simp add: page_inv_def)
  then have a: "?a \<noteq> []" by (auto simp: action_values_def js_def)
  have rb: "read_body (Inr (the (ui_post s1))) = Some (Body (Some ?p) (Some ?a) loc)"
    using p s1 by (simp add: submit_start_def read_body_payload loc_def)
  obtain t where t: "fetch_provider_data cfg (fetch w) (upcase w) (clock_github w) ?a loc = JStr t"
    using assms(7) by blast
  define fin where "fin = final_text ?ai (js_trim t) ?a"
  define st' where "st' = fst (find_by_id_and_update (next_id st) (set_results ?ai (js_trim t) fin)
      (fst (create_run st ?p ?a (clock_create w))))"
  have run: "post_handler cfg w (Body (Some ?p) (Some ?a) loc) st = (PostOk ?ai (js_trim t) fin, st')"
    using p a assms(3-6) t
    by (simp add: post_handler_valid run_pipeline_def ai_step_def call_openai_def combine_strings fin_def st'_def Let_def)
  have "\<exists>u. fin = u @ hashtag ?a"
    using final_text_props [OF trimmed_js_trim trimmed_js_trim] by (simp add: fin_def)
  moreover have "ui_result (submit_finish s1 (Resolved (post_http (PostOk ?ai (js_trim t) fin)))) =
       Some (ResultData (json_str_value [(js ''ai_response'', ?ai), (js ''api_response'', js_trim t), (js ''final_result'', fin)]))"
    by (simp add: submit_finish_def submit_outcome_def post_http_def status_of_def resp_ok_def post_fields_def)
  moreover have "hd (history st') = set_results ?ai (js_trim t) fin (new_run (next_id st) ?p ?a (clock_create w))"
    using assms(8,9) by (intro history_newest) (simp_all add: st'_def runs_create_finalize)
  ultimately show ?thesis using rb run by blast
qed

theorem page_server_mock_run_witness:
  "page_reach demo_form \<and> ui_step demo_form Submit = Some demo_page \<and>
   use_mock demo_config \<and> db_connect demo_world = None \<and> db_create demo_world = None \<and> db_update demo_world = None \<and>
   (\<forall>loc. \<exists>t. fetch_provider_data demo_config (fetch demo_world) (upcase demo_world) (clock_github demo_world)
      (ui_action demo_form) loc = JStr t) \<and>
   store_inv empty_store \<and> list_all (\<lambda>r. created_at r < clock_create demo_world) (runs empty_store) \<and>
   (\<exists>loc api fin st'.
     read_body (Inr (the (ui_post demo_page))) = Some (Body (Some (js ''today'')) (Some (js ''weather'')) loc) \<and>
     post_handler demo_config demo_world (Body (Some (js ''today'')) (Some (js ''weather'')) loc) empty_store =
       (PostOk (js ''Quick thought: today'') api fin, st') \<and>
     (\<exists>u. fin = u @ hashtag (js ''weather'')) \<and>
     ui_result (submit_finish demo_page (Resolved (post_http (PostOk (js ''Quick thought: today'') api fin)))) =
       Some (ResultData (json_str_value [(js ''ai_response'', js ''Quick thought: today''),
         (js ''api_response'', api), (js ''final_result'', fin)])) \<and>
     hd (history st') = set_results (js ''Quick thought: today'') api fin
       (new_run 0 (js ''today'') (js ''weather'') 1700000000000))"
proof -
  have "ui_run page_init [SetPrompt (js ''  today ''), SetLocation (js '' Paris '')] = Some demo_form"
    by (simp add: demo_form_def page_init_def requires_location_def)
  then have f: "page_reach demo_form" using page_reach.init by (rule ui_run_reach)
  have form: "ui_prompt demo_form = js ''  today ''" "ui_action demo_form = js ''weather''"
    by (simp_all add: demo_form_def page_init_def requires_location_def)
  have sub: "ui_step demo_form Submit = Some demo_page"
    by (simp add: demo_form_def demo_page_def page_init_def requires_location_def submit_enabled_def
        js_trim_def trim_start_def trim_end_def js_lit)
  have tr: "js_trim (js ''  today '') = js ''today''"
    by (simp add: js_trim_def trim_start_def trim_end_def js_lit)
  have mr: "js_trim (mock_reply (js ''today'')) = js ''Quick thought: today''"
    by (simp add: mock_reply_def mock_short_def js_trim_def trim_start_def trim_end_def js_lit)
  have h: "use_mock demo_config" "db_connect demo_world = None" "db_create demo_world = None"
    "db_update demo_world = None" "store_inv empty_store"
    "list_all (\<lambda>r. created_at r < clock_create demo_world) (runs empty_store)"
    by (simp_all add: demo_config_def demo_world_def use_mock_def str_truthy_def store_inv_def empty_store_def js_def)
  have pr: "\<forall>loc. \<exists>t. fetch_provider_data demo_config (fetch demo_world) (upcase demo_world) (clock_github demo_world)
      (ui_action demo_form) loc = JStr t"
    by (simp add: form fetch_provider_data_def demo_config_def fetch_weather_def str_truthy_def Let_def
        split: sum.splits)
  show ?thesis
    using page_server_mock_run [OF f sub h(1-4) pr h(5,6)] f sub h pr
    by (simp add: form tr mr empty_store_def demo_world_def)
qed

end
